(* ===== verification/Prelude.thy ===== *)
theory Prelude
  imports Main
begin

text \<open>
  Shared vocabulary of the quiz-platform development: the named collections of rewrite
  rules that the component theories fill, decimal strings (the backend renders a
  timestamp with \<open>Date.now().toString()\<close> to obtain a quiz identifier), and the list
  facts behind the participant key \<open>participant-quizId\<close> of
  \<open>src/backend/server.js\<close>.
\<close>

named_theorems js_simps "evaluation rules of the JavaScript value semantics"
named_theorems handler_simps "unfolding rules of the backend request handlers"

section \<open>Decimal strings\<close>

definition digit_char :: "nat \<Rightarrow> char" where
  "digit_char d = ''0123456789'' ! d"

definition digit_value :: "char \<Rightarrow> nat" where
  "digit_value c = of_char c - 48"

definition is_digit :: "char \<Rightarrow> bool" where
  "is_digit c \<longleftrightarrow> 48 \<le> (of_char c :: nat) \<and> (of_char c :: nat) \<le> 57"

text \<open>\<open>decimal n\<close> is the string JavaScript prints for a non-negative integer.\<close>

fun decimal :: "nat \<Rightarrow> string" where
  "decimal n =
     (if n < 10 then [digit_char n] else decimal (n div 10) @ [digit_char (n mod 10)])"

declare decimal.simps [simp del]

definition read_decimal :: "string \<Rightarrow> nat" where
  "read_decimal s = foldl (\<lambda>acc c. 10 * acc + digit_value c) 0 s"

definition is_decimal :: "string \<Rightarrow> bool" where
  "is_decimal s \<longleftrightarrow> s \<noteq> [] \<and> list_all is_digit s"

lemma digit_char_cases:
  "d < 10 \<Longrightarrow> P (digit_char 0) 0 \<Longrightarrow> P (digit_char 1) 1 \<Longrightarrow> P (digit_char 2) 2 \<Longrightarrow>
   P (digit_char 3) 3 \<Longrightarrow> P (digit_char 4) 4 \<Longrightarrow> P (digit_char 5) 5 \<Longrightarrow>
   P (digit_char 6) 6 \<Longrightarrow> P (digit_char 7) 7 \<Longrightarrow> P (digit_char 8) 8 \<Longrightarrow>
   P (digit_char 9) 9 \<Longrightarrow> P (digit_char d) d"
  by (auto simp: eval_nat_numeral less_Suc_eq)

lemma digit_value_digit_char [simp]: "d < 10 \<Longrightarrow> digit_value (digit_char d) = d"
  by (erule digit_char_cases [where P = "\<lambda>c d. digit_value c = d"])
    (simp_all add: digit_value_def digit_char_def)

lemma is_digit_digit_char [simp]: "d < 10 \<Longrightarrow> is_digit (digit_char d)"
  by (erule digit_char_cases [where P = "\<lambda>c d. is_digit c"])
    (simp_all add: is_digit_def digit_char_def)

lemma read_decimal_snoc [simp]:
  "read_decimal (s @ [c]) = 10 * read_decimal s + digit_value c"
  by (simp add: read_decimal_def)

lemma decimal_small [simp]: "n < 10 \<Longrightarrow> decimal n = [digit_char n]"
  by (simp add: decimal.simps)

lemma decimal_large: "\<not> n < 10 \<Longrightarrow> decimal n = decimal (n div 10) @ [digit_char (n mod 10)]"
  by (simp add: decimal.simps)

text \<open>Printing a number and reading it back gives the number.\<close>

lemma read_decimal_decimal [simp]: "read_decimal (decimal n) = n"
proof (induction n rule: decimal.induct)
  case (1 n)
  show ?case
  proof (cases "n < 10")
    case True
    then show ?thesis by (simp add: read_decimal_def)
  next
    case False
    with "1.IH" show ?thesis by (simp add: decimal_large)
  qed
qed

lemma decimal_inj: "decimal m = decimal n \<Longrightarrow> m = n"
  by (metis read_decimal_decimal)

lemma is_decimal_decimal [simp]: "is_decimal (decimal n)"
proof (induction n rule: decimal.induct)
  case (1 n)
  then show ?case
    by (cases "n < 10") (simp_all add: is_decimal_def decimal_large)
qed

lemma is_digit_dash [simp]: "\<not> is_digit (CHR ''-'')"
  by (simp add: is_digit_def)

lemma is_decimal_no_dash: "is_decimal s \<Longrightarrow> CHR ''-'' \<notin> set s"
  by (auto simp: is_decimal_def list_all_iff)

section \<open>Separator-joined strings\<close>

text \<open>
  Joining two strings with a separator that the second part never contains can be undone:
  the last separator splits the result.
\<close>

lemma first_sep_unique:
  "c \<notin> set xs \<Longrightarrow> c \<notin> set xs' \<Longrightarrow> xs @ c # ys = xs' @ c # ys' \<Longrightarrow> xs = xs' \<and> ys = ys'"
proof (induction xs arbitrary: xs')
  case Nil
  then show ?case by (cases xs') auto
next
  case (Cons x xs)
  then show ?case by (cases xs') auto
qed

lemma last_sep_unique:
  assumes "xs @ c # ys = xs' @ c # ys'" and "c \<notin> set ys" and "c \<notin> set ys'"
  shows "xs = xs' \<and> ys = ys'"
proof -
  from assms(1) have "rev ys @ c # rev xs = rev ys' @ c # rev xs'"
    by (metis rev.simps(2) rev_append append_assoc append_Cons append_Nil)
  with assms(2,3) have "rev ys = rev ys' \<and> rev xs = rev xs'"
    by (intro first_sep_unique) simp_all
  then show ?thesis by simp
qed

end
