(* ===== verification/JsObject.thy ===== *)
theory JsObject
  imports Prelude
begin

text \<open>
  The part of JavaScript semantics the backend relies on.
  \<^item> Numbers read from a JSON body: a field may be missing (\<open>undefined\<close>), \<open>null\<close>
    or a number; relational comparison and \<open>+\<close> convert with ToNumber, where
    \<open>undefined\<close> becomes NaN and \<open>null\<close> becomes 0. A JavaScript number is an
    \<open>int option\<close> here, \<open>None\<close> being NaN (the values in play are integers well below
    \<open>2^53\<close>, where doubles are exact).
  \<^item> Plain objects used as dictionaries (\<open>const quizzesStore = {}\<close>): an association
    list in insertion order. A read \<open>obj[k]\<close> finds an own property, or else a member
    of \<open>Object.prototype\<close> (\<open>constructor\<close>, \<open>__proto__\<close>, \<open>toString\<close>, ...),
    which is a truthy object that is not one of the stored values; assignment updates an
    own property in place or appends it; \<open>Object.values\<close> lists array-index keys in
    ascending numeric order, then the other keys in insertion order.
  The association list refines the map \<open>map_of\<close>: \<open>map_of_js_put\<close> is the
  refinement lemma of assignment.
\<close>

section \<open>Numbers from JSON\<close>

datatype num_field = Undef | Null | Num int

definition to_number :: "num_field \<Rightarrow> int option" where
  "to_number v = (case v of Undef \<Rightarrow> None | Null \<Rightarrow> Some 0 | Num i \<Rightarrow> Some i)"

text \<open>\<open>a < b\<close>: false as soon as one side is NaN.\<close>

definition js_less :: "int option \<Rightarrow> int option \<Rightarrow> bool" where
  "js_less a b = (case (a, b) of (Some x, Some y) \<Rightarrow> x < y | _ \<Rightarrow> False)"

text \<open>\<open>a >= b\<close>: also false as soon as one side is NaN (it is not \<open>!(a < b)\<close>).\<close>

definition js_greater_eq :: "int option \<Rightarrow> int option \<Rightarrow> bool" where
  "js_greater_eq a b = (case (a, b) of (Some x, Some y) \<Rightarrow> y \<le> x | _ \<Rightarrow> False)"

definition js_add :: "int option \<Rightarrow> int option \<Rightarrow> int option" where
  "js_add a b = (case (a, b) of (Some x, Some y) \<Rightarrow> Some (x + y) | _ \<Rightarrow> None)"

lemma to_number_simps [simp, js_simps]:
  "to_number Undef = None" "to_number Null = Some 0" "to_number (Num i) = Some i"
  by (simp_all add: to_number_def)

lemma js_less_simps [simp, js_simps]:
  "js_less (Some x) (Some y) \<longleftrightarrow> x < y" "\<not> js_less None b" "\<not> js_less a None"
  by (simp_all add: js_less_def split: option.splits)

lemma js_greater_eq_simps [simp, js_simps]:
  "js_greater_eq (Some x) (Some y) \<longleftrightarrow> y \<le> x" "\<not> js_greater_eq None b" "\<not> js_greater_eq a None"
  by (simp_all add: js_greater_eq_def split: option.splits)

lemma js_add_simps [simp, js_simps]:
  "js_add (Some x) (Some y) = Some (x + y)" "js_add None b = None" "js_add a None = None"
  by (simp_all add: js_add_def split: option.splits)

section \<open>Objects as dictionaries\<close>

type_synonym 'v js_object = "(string \<times> 'v) list"

text \<open>The properties every plain object inherits from \<open>Object.prototype\<close>.\<close>

definition object_prototype_members :: "string list" where
  "object_prototype_members =
     [''constructor'', ''__proto__'', ''hasOwnProperty'', ''isPrototypeOf'',
      ''propertyIsEnumerable'', ''toLocaleString'', ''toString'', ''valueOf'',
      ''__defineGetter__'', ''__defineSetter__'', ''__lookupGetter__'', ''__lookupSetter__'']"

datatype 'v js_prop = Own 'v | Inherited string | Absent

definition js_get :: "'v js_object \<Rightarrow> string \<Rightarrow> 'v js_prop" where
  "js_get obj k =
     (case map_of obj k of
        Some v \<Rightarrow> Own v
      | None \<Rightarrow> if k \<in> set object_prototype_members then Inherited k else Absent)"

text \<open>\<open>obj[k]\<close> is truthy when it finds anything: stored values and inherited members are objects.\<close>

definition js_has :: "'v js_object \<Rightarrow> string \<Rightarrow> bool" where
  "js_has obj k \<longleftrightarrow> js_get obj k \<noteq> Absent"

fun js_put :: "'v js_object \<Rightarrow> string \<Rightarrow> 'v \<Rightarrow> 'v js_object" where
  "js_put [] k v = [(k, v)]"
| "js_put ((k', v') # kvs) k v = (if k' = k then (k, v) # kvs else (k', v') # js_put kvs k v)"

definition is_array_index :: "string \<Rightarrow> bool" where
  "is_array_index k \<longleftrightarrow>
     is_decimal k \<and> (hd k = CHR ''0'' \<longrightarrow> k = ''0'') \<and> read_decimal k < 4294967295"

definition js_values :: "'v js_object \<Rightarrow> 'v list" where
  "js_values obj =
     map snd (sort_key (\<lambda>(k, v). read_decimal k) (filter (\<lambda>(k, v). is_array_index k) obj))
     @ map snd (filter (\<lambda>(k, v). \<not> is_array_index k) obj)"

text \<open>An own property of an inherited member, else one set on \<open>Object.prototype\<close> itself.\<close>

definition proto_read :: "(string \<rightharpoonup> 'a) \<Rightarrow> string \<Rightarrow> 'a option" where
  "proto_read own n = (case own n of Some b \<Rightarrow> Some b | None \<Rightarrow> own ''__proto__'')"

definition js_truthy :: "bool option \<Rightarrow> bool" where
  "js_truthy b = (case b of Some x \<Rightarrow> x | None \<Rightarrow> False)"

subsection \<open>Assignment refines map update\<close>

lemma map_of_js_put [simp]: "map_of (js_put obj k v) = (map_of obj)(k \<mapsto> v)"
  by (induction obj) (auto simp: fun_eq_iff)

lemma keys_js_put:
  "map fst (js_put obj k v) = (if k \<in> set (map fst obj) then map fst obj else map fst obj @ [k])"
  by (induction obj) (auto simp del: set_map)

lemma set_keys_js_put [simp]: "fst ` set (js_put obj k v) = insert k (fst ` set obj)"
proof -
  have "set (map fst (js_put obj k v)) = insert k (set (map fst obj))"
    by (auto simp: keys_js_put simp del: set_map)
  then show ?thesis by simp
qed

lemma distinct_js_put [simp]:
  "distinct (map fst obj) \<Longrightarrow> distinct (map fst (js_put obj k v))"
  by (induction obj) auto

lemma length_js_put:
  "length (js_put obj k v) = (if k \<in> fst ` set obj then length obj else Suc (length obj))"
proof (induction obj)
  case Nil
  then show ?case by simp
next
  case (Cons p obj)
  obtain a b where "p = (a, b)" by (cases p)
  with Cons.IH show ?case by (auto simp: image_iff)
qed

lemma set_js_put:
  "distinct (map fst obj) \<Longrightarrow>
   set (js_put obj k v) = insert (k, v) {p \<in> set obj. fst p \<noteq> k}"
proof (induction obj)
  case Nil
  then show ?case by simp
next
  case (Cons p obj)
  obtain a b where p: "p = (a, b)" by (cases p)
  show ?case
  proof (cases "a = k")
    case True
    with Cons.prems p have "k \<notin> fst ` set obj" by simp
    with True p show ?thesis by (auto simp: image_iff)
  next
    case False
    with Cons p show ?thesis by auto
  qed
qed

lemma js_put_same [simp]: "map_of obj k = Some v \<Longrightarrow> js_put obj k v = obj"
  by (induction obj) auto

lemma js_put_js_put [simp]: "js_put (js_put obj k v) k w = js_put obj k w"
  by (induction obj) auto

lemma js_put_absent: "k \<notin> fst ` set obj \<Longrightarrow> js_put obj k v = obj @ [(k, v)]"
proof (induction obj)
  case Nil
  then show ?case by simp
next
  case (Cons p obj)
  then show ?case by (cases p) auto
qed

lemma set_js_put_subset: "set (js_put obj k v) \<subseteq> insert (k, v) (set obj)"
proof (induction obj)
  case Nil
  then show ?case by simp
next
  case (Cons p obj)
  then show ?case by (cases p) auto
qed

lemma js_put_all: "\<forall>e \<in> set obj. P e \<Longrightarrow> P (k, v) \<Longrightarrow> \<forall>e \<in> set (js_put obj k v). P e"
proof
  fix e
  assume all: "\<forall>e \<in> set obj. P e" and new: "P (k, v)" and e: "e \<in> set (js_put obj k v)"
  from subsetD [OF set_js_put_subset e] have "e = (k, v) \<or> e \<in> set obj" by simp
  with all new show "P e" by auto
qed

text \<open>Overwriting a value with one that agrees on \<open>f\<close> leaves every \<open>f\<close> in place.\<close>

lemma map_js_put_frame:
  "map_of obj k = Some v0 \<Longrightarrow> f v = f v0 \<Longrightarrow>
   map (\<lambda>p. f (snd p)) (js_put obj k v) = map (\<lambda>p. f (snd p)) obj"
proof (induction obj)
  case Nil
  then show ?case by simp
next
  case (Cons p obj)
  then show ?case by (cases p) (simp split: if_splits)
qed

lemmas js_put_facts = map_of_js_put distinct_js_put length_js_put set_js_put keys_js_put
  js_put_absent js_put_all map_js_put_frame

subsection \<open>Reads\<close>

lemma js_get_own [simp]: "map_of obj k = Some v \<Longrightarrow> js_get obj k = Own v"
  by (simp add: js_get_def)

lemma js_get_Own_iff: "js_get obj k = Own v \<longleftrightarrow> map_of obj k = Some v"
  by (simp add: js_get_def split: option.splits)

lemma js_get_Inherited_iff:
  "js_get obj k = Inherited n \<longleftrightarrow>
   map_of obj k = None \<and> k \<in> set object_prototype_members \<and> n = k"
  by (auto simp: js_get_def split: option.splits)

lemma dash_not_member: "CHR ''-'' \<in> set k \<Longrightarrow> k \<notin> set object_prototype_members"
  by (auto simp: object_prototype_members_def)

lemma decimal_not_member: "is_decimal k \<Longrightarrow> k \<notin> set object_prototype_members"
  by (auto simp: object_prototype_members_def is_decimal_def is_digit_def)

text \<open>A key with a dash, or a decimal key, is never an inherited member: the read is a plain lookup.\<close>

lemma js_get_plain:
  "k \<notin> set object_prototype_members \<Longrightarrow>
   js_get obj k = (case map_of obj k of Some v \<Rightarrow> Own v | None \<Rightarrow> Absent)"
  by (simp add: js_get_def split: option.splits)

lemma js_has_plain:
  "k \<notin> set object_prototype_members \<Longrightarrow> js_has obj k \<longleftrightarrow> map_of obj k \<noteq> None"
  by (simp add: js_has_def js_get_plain split: option.splits)

lemma js_get_put_same [simp]: "js_get (js_put obj k v) k = Own v"
  by (simp add: js_get_def)

lemma js_get_put_other [simp]: "k' \<noteq> k \<Longrightarrow> js_get (js_put obj k v) k' = js_get obj k'"
  by (simp add: js_get_def)

lemma js_truthy_simps [simp, js_simps]:
  "js_truthy (Some b) = b" "\<not> js_truthy None"
  by (simp_all add: js_truthy_def)

subsection \<open>Enumeration order\<close>

lemma decimal_not_array_index:
  "4294967295 \<le> n \<Longrightarrow> \<not> is_array_index (decimal n)"
  by (simp add: is_array_index_def)

text \<open>Without array-index keys, \<open>Object.values\<close> is insertion order.\<close>

lemma js_values_insertion_order:
  "\<forall>k \<in> fst ` set obj. \<not> is_array_index k \<Longrightarrow> js_values obj = map snd obj"
proof -
  assume no_index: "\<forall>k \<in> fst ` set obj. \<not> is_array_index k"
  then have "filter (\<lambda>(k, v). is_array_index k) obj = []"
    by (auto simp: filter_empty_conv)
  moreover from no_index have "filter (\<lambda>(k, v). \<not> is_array_index k) obj = obj"
    by (auto simp: filter_id_conv)
  ultimately show ?thesis by (simp add: js_values_def)
qed

lemma length_js_values [simp]: "length (js_values obj) = length obj"
proof -
  have "length (filter (\<lambda>(k, v). is_array_index k) obj)
        + length (filter (\<lambda>(k, v). \<not> is_array_index k) obj) = length obj"
    using sum_length_filter_compl [of "\<lambda>(k, v). is_array_index k" obj]
    by (simp add: case_prod_unfold)
  then show ?thesis by (simp add: js_values_def)
qed

lemma set_js_values [simp]: "set (js_values obj) = snd ` set obj"
  by (auto simp: js_values_def image_iff)

end
