(* ===== verification/QuizModel.thy ===== *)
theory QuizModel
  imports JsObject
begin

text \<open>
  The data of \<open>src/backend/server.js\<close>: the question and quiz objects a client posts,
  the participation record \<open>play\<close> creates, the statistics object, and the server state
  (lines 15--22: \<open>quizzesStore\<close>, \<open>participantsStore\<close>, \<open>statsStore\<close>). The
  server state also holds the \<open>is_active\<close> properties that a toggle request writes onto
  objects reached through \<open>Object.prototype\<close> (see \<open>JsObject\<close>); in a fresh process
  there are none. Identifiers and addresses are strings; an answer is a JSON number or
  \<open>null\<close> (\<open>None\<close>).
\<close>

record question =
  question_text :: string
  options :: "string list"
  correct_answer :: int

record quiz =
  quiz_id :: string
  title :: string
  description :: string
  questions :: "question list"
  reward_pool :: num_field
  passing_score :: num_field
  creator :: string
  is_active :: bool
  created_at :: nat

record attempt =
  address :: string
  score :: nat
  attempt_quiz_id :: string
  timestamp :: nat
  rewarded :: bool
  answers :: "int option list"

record stats =
  total_participants :: nat
  total_rewards_distributed :: "int option"
  highest_score :: nat
  total_quizzes :: nat

record server =
  quizzesStore :: "quiz js_object"
  participantsStore :: "attempt js_object"
  statsStore :: stats
  builtin_is_active :: "string \<rightharpoonup> bool"

text \<open>The body of \<open>POST /api/quizzes\<close> (line 66); a missing title or question list reads as empty.\<close>

record create_request =
  req_title :: string
  req_description :: string
  req_questions :: "question list"
  req_reward_pool :: num_field
  req_passing_score :: num_field
  req_admin :: string

definition init_stats :: stats where
  "init_stats =
     \<lparr>total_participants = 0, total_rewards_distributed = Some 0, highest_score = 0,
      total_quizzes = 0\<rparr>"

definition init_server :: server where
  "init_server =
     \<lparr>quizzesStore = [], participantsStore = [], statsStore = init_stats,
      builtin_is_active = Map.empty\<rparr>"

text \<open>
  The error responses of the route handlers, one per \<open>res.status(...).json({error})\<close>
  of the source, and \<open>InternalServerError\<close> for an exception caught by the error
  middleware (lines 213--216).
\<close>

datatype error =
    QuizNotFound
  | InvalidQuizData
  | PassingScoreExceedsQuestionCount
  | QuizNotActive
  | AnswerCountMismatch
  | AlreadyPlayed
  | RecordOrQuizNotFound
  | CannotDistributeReward
  | InternalServerError

fun status_code :: "error \<Rightarrow> nat" where
  "status_code QuizNotFound = 404"
| "status_code RecordOrQuizNotFound = 404"
| "status_code InternalServerError = 500"
| "status_code _ = 400"

text \<open>The key of a participation record: the template literal \<open>`${participant}-${quizId}`\<close>.\<close>

definition participantKey :: "string \<Rightarrow> string \<Rightarrow> string" where
  "participantKey participant qid = participant @ CHR ''-'' # qid"

lemma dash_in_participantKey [simp]: "CHR ''-'' \<in> set (participantKey p q)"
  by (simp add: participantKey_def)

lemma participantKey_not_member [simp]:
  "participantKey p q \<notin> set object_prototype_members"
  by (rule dash_not_member) simp

text \<open>Reads of the participation store are plain lookups: no key has a prototype member's name.\<close>

lemma js_get_participantKey:
  "js_get obj (participantKey p q) =
   (case map_of obj (participantKey p q) of Some v \<Rightarrow> Own v | None \<Rightarrow> Absent)"
  by (simp add: js_get_plain)

lemma js_has_participantKey [simp]:
  "js_has obj (participantKey p q) \<longleftrightarrow> map_of obj (participantKey p q) \<noteq> None"
  by (simp add: js_has_plain)

text \<open>The key determines the pair once the quiz identifier has no dash, as decimal identifiers do.\<close>

lemma participantKey_inj:
  assumes "participantKey p q = participantKey p' q'"
    and "CHR ''-'' \<notin> set q" and "CHR ''-'' \<notin> set q'"
  shows "p = p' \<and> q = q'"
  using assms last_sep_unique [of p "CHR ''-''" q p' q'] by (simp add: participantKey_def)

lemma participantKey_inj_decimal:
  "participantKey p q = participantKey p' q' \<Longrightarrow> is_decimal q \<Longrightarrow> is_decimal q' \<Longrightarrow>
   p = p' \<and> q = q'"
  using participantKey_inj is_decimal_no_dash by blast

lemma js_get_decimal: "is_decimal k \<Longrightarrow> js_get obj k =
   (case map_of obj k of Some v \<Rightarrow> Own v | None \<Rightarrow> Absent)"
  by (simp add: js_get_plain decimal_not_member)

end
