(* ===== verification/Fixtures.thy ===== *)
theory Fixtures
  imports QuizModel
begin

text \<open>
  Concrete data for the witnesses of the development: a two-question quiz as an
  administrator posts it, and the server state right after it was created at clock
  reading 1700000000000 (the state \<open>create_quiz\<close> produces from a fresh process,
  shown in \<open>QuizRoutes\<close>).
\<close>

definition demo_questions :: "question list" where
  "demo_questions =
     [\<lparr>question_text = ''2 + 2 = ?'', options = [''3'', ''4''], correct_answer = 1\<rparr>,
      \<lparr>question_text = ''Capital of France?'', options = [''Paris'', ''Rome''], correct_answer = 0\<rparr>]"

definition demo_request :: create_request where
  "demo_request =
     \<lparr>req_title = ''Basics'', req_description = ''Two questions'', req_questions = demo_questions,
      req_reward_pool = Num 100, req_passing_score = Num 1, req_admin = ''admin''\<rparr>"

definition demo_id :: string where
  "demo_id = ''1700000000000''"

definition demo_quiz :: quiz where
  "demo_quiz =
     \<lparr>quiz_id = demo_id, title = ''Basics'', description = ''Two questions'',
      questions = demo_questions, reward_pool = Num 100, passing_score = Num 1,
      creator = ''admin'', is_active = True, created_at = 1700000000000\<rparr>"

definition demo_server :: server where
  "demo_server =
     init_server\<lparr>quizzesStore := [(demo_id, demo_quiz)],
                 statsStore := init_stats\<lparr>total_quizzes := 1\<rparr>\<rparr>"

lemmas demo_defs = demo_questions_def demo_request_def demo_id_def demo_quiz_def demo_server_def
  init_server_def init_stats_def

end
