(* ===== verification/QuizRoutes.thy ===== *)
theory QuizRoutes
  imports Fixtures
begin

text \<open>
  The quiz-store routes of \<open>src/backend/server.js\<close>: \<open>GET /api/quizzes\<close>
  (\<open>get_quizzes\<close>), \<open>GET /api/quizzes/:quizId\<close> (\<open>get_quiz\<close>),
  \<open>POST /api/quizzes\<close> (\<open>create_quiz\<close>) and \<open>PATCH /api/quizzes/:quizId/status\<close>
  (\<open>toggle_status\<close>). Each handler takes the server state and returns its response
  (an \<open>error\<close> or the JSON payload) with the new state. The public view of a quiz
  (\<open>safe_quiz\<close>) hides the correct answers while the quiz is active. The clock reading
  \<open>Date.now()\<close> is the parameter \<open>now\<close> of \<open>create_quiz\<close>.
\<close>

section \<open>Public view\<close>

text \<open>\<open>view_correct = None\<close> is \<open>undefined\<close>, which \<open>res.json\<close> leaves out.\<close>

record question_view =
  view_text :: string
  view_options :: "string list"
  view_correct :: "int option"

definition redact_question :: "bool \<Rightarrow> question \<Rightarrow> question_view" where
  "redact_question active q =
     \<lparr>view_text = question_text q, view_options = options q,
      view_correct = (if \<not> active then Some (correct_answer q) else None)\<rparr>"

text \<open>
  \<open>{...quiz, questions: ...}\<close>: the quiz's other fields (the first component, whose own
  \<open>questions\<close> field is emptied: the spread's \<open>questions\<close> member is overwritten), and the
  views of its questions in place of the questions.
\<close>

type_synonym quiz_view = "quiz \<times> question_view list"

definition safe_quiz :: "quiz \<Rightarrow> quiz_view" where
  "safe_quiz q = (q\<lparr>questions := []\<rparr>, map (redact_question (is_active q)) (questions q))"

section \<open>Handlers\<close>

definition get_quizzes :: "server \<Rightarrow> quiz_view list \<times> nat" where
  "get_quizzes s = (let qs = map safe_quiz (js_values (quizzesStore s)) in (qs, length qs))"

text \<open>An inherited member has no \<open>questions\<close>: \<open>undefined.map\<close> throws, answered with 500.\<close>

definition get_quiz :: "string \<Rightarrow> server \<Rightarrow> error + quiz_view" where
  "get_quiz qid s =
     (case js_get (quizzesStore s) qid of
        Absent \<Rightarrow> Inl QuizNotFound
      | Inherited n \<Rightarrow> Inl InternalServerError
      | Own q \<Rightarrow> Inr (safe_quiz q))"

definition new_quiz :: "nat \<Rightarrow> create_request \<Rightarrow> quiz" where
  "new_quiz now req =
     \<lparr>quiz_id = decimal now, title = req_title req, description = req_description req,
      questions = req_questions req, reward_pool = req_reward_pool req,
      passing_score = req_passing_score req, creator = req_admin req, is_active = True,
      created_at = now\<rparr>"

definition create_quiz :: "nat \<Rightarrow> create_request \<Rightarrow> server \<Rightarrow> (error + string) \<times> server" where
  "create_quiz now req s =
     (if req_title req = [] \<or> req_questions req = [] then (Inl InvalidQuizData, s)
      else if js_less (Some (int (length (req_questions req)))) (to_number (req_passing_score req))
      then (Inl PassingScoreExceedsQuestionCount, s)
      else
        (Inr (decimal now),
         s\<lparr>quizzesStore := js_put (quizzesStore s) (decimal now) (new_quiz now req),
           statsStore := (statsStore s)\<lparr>total_quizzes := Suc (total_quizzes (statsStore s))\<rparr>\<rparr>))"

text \<open>
  \<open>quiz.is_active = !quiz.is_active\<close> mutates the stored object in place. On an inherited
  member the same assignment creates an \<open>is_active\<close> property on a built-in object.
\<close>

definition toggle_status :: "string \<Rightarrow> server \<Rightarrow> (error + string \<times> bool) \<times> server" where
  "toggle_status qid s =
     (case js_get (quizzesStore s) qid of
        Absent \<Rightarrow> (Inl QuizNotFound, s)
      | Own q \<Rightarrow>
          (Inr (qid, \<not> is_active q),
           s\<lparr>quizzesStore := js_put (quizzesStore s) qid (q\<lparr>is_active := \<not> is_active q\<rparr>)\<rparr>)
      | Inherited n \<Rightarrow>
          (let b = \<not> js_truthy (proto_read (builtin_is_active s) n)
           in (Inr (qid, b), s\<lparr>builtin_is_active := (builtin_is_active s)(n \<mapsto> b)\<rparr>)))"

lemmas quiz_route_defs = get_quizzes_def get_quiz_def create_quiz_def toggle_status_def

declare get_quiz_def [handler_simps] toggle_status_def [handler_simps]

section \<open>Properties\<close>

lemma create_quiz_valid_input:
  "req_title req \<noteq> [] \<Longrightarrow> req_questions req \<noteq> [] \<Longrightarrow>
   \<not> js_less (Some (int (length (req_questions req)))) (to_number (req_passing_score req)) \<Longrightarrow>
   create_quiz now req s =
     (Inr (decimal now),
      s\<lparr>quizzesStore := js_put (quizzesStore s) (decimal now) (new_quiz now req),
        statsStore := (statsStore s)\<lparr>total_quizzes := Suc (total_quizzes (statsStore s))\<rparr>\<rparr>)"
  by (simp add: create_quiz_def)

lemma create_quiz_error_unchanged:
  "create_quiz now req s = (Inl e, s') \<Longrightarrow> s' = s"
  by (auto simp: create_quiz_def split: if_splits)

lemma toggle_status_error_unchanged:
  "toggle_status qid s = (Inl e, s') \<Longrightarrow> s' = s"
  by (auto simp: toggle_status_def Let_def split: js_prop.splits)

lemma redact_active [simp]: "view_correct (redact_question True q) = None"
  by (simp add: redact_question_def)

lemma redact_inactive [simp]: "view_correct (redact_question False q) = Some (correct_answer q)"
  by (simp add: redact_question_def)

lemma toggle_own:
  "map_of (quizzesStore s) qid = Some q \<Longrightarrow>
   toggle_status qid s =
     (Inr (qid, \<not> is_active q),
      s\<lparr>quizzesStore := js_put (quizzesStore s) qid (q\<lparr>is_active := \<not> is_active q\<rparr>)\<rparr>)"
  by (simp add: toggle_status_def)

lemma decimal_demo: "decimal 1700000000000 = demo_id"
  by (simp add: decimal_large digit_char_def demo_id_def)

lemma demo_create: "create_quiz 1700000000000 demo_request init_server = (Inr demo_id, demo_server)"
  by (simp add: create_quiz_def decimal_demo new_quiz_def demo_defs)

text \<open>
  C21. Creating a quiz without a title or without questions is refused with
  \<open>InvalidQuizData\<close>, and one whose numeric passing score exceeds the question count
  with \<open>PassingScoreExceedsQuestionCount\<close>; neither stores a quiz or counts one.
\<close>

theorem create_quiz_rejects_invalid:
  "(req_title req = [] \<or> req_questions req = [] \<longrightarrow>
      create_quiz now req s = (Inl InvalidQuizData, s)) \<and>
   (req_title req \<noteq> [] \<longrightarrow> req_questions req \<noteq> [] \<longrightarrow>
      to_number (req_passing_score req) = Some ps \<longrightarrow> int (length (req_questions req)) < ps \<longrightarrow>
      create_quiz now req s = (Inl PassingScoreExceedsQuestionCount, s))"
  by (simp add: create_quiz_def)

theorem create_quiz_rejects_invalid_witness:
  "req_questions (demo_request\<lparr>req_questions := []\<rparr>) = [] \<and>
   create_quiz 7 (demo_request\<lparr>req_questions := []\<rparr>) init_server = (Inl InvalidQuizData, init_server) \<and>
   to_number (req_passing_score (demo_request\<lparr>req_passing_score := Num 3\<rparr>)) = Some 3 \<and>
   int (length (req_questions (demo_request\<lparr>req_passing_score := Num 3\<rparr>))) < 3 \<and>
   create_quiz 7 (demo_request\<lparr>req_passing_score := Num 3\<rparr>) init_server =
     (Inl PassingScoreExceedsQuestionCount, init_server)"
proof -
  have e: "req_questions (demo_request\<lparr>req_questions := []\<rparr>) = []" by simp
  have t: "req_title (demo_request\<lparr>req_passing_score := Num 3\<rparr>) \<noteq> []" by (simp add: demo_defs)
  have q: "req_questions (demo_request\<lparr>req_passing_score := Num 3\<rparr>) \<noteq> []" by (simp add: demo_defs)
  have n: "to_number (req_passing_score (demo_request\<lparr>req_passing_score := Num 3\<rparr>)) = Some 3" by simp
  have l: "int (length (req_questions (demo_request\<lparr>req_passing_score := Num 3\<rparr>))) < 3"
    by (simp add: demo_defs)
  from create_quiz_rejects_invalid [of "demo_request\<lparr>req_questions := []\<rparr>" 7 init_server]
  have "create_quiz 7 (demo_request\<lparr>req_questions := []\<rparr>) init_server = (Inl InvalidQuizData, init_server)"
    using e by blast
  moreover from create_quiz_rejects_invalid [of "demo_request\<lparr>req_passing_score := Num 3\<rparr>" 7 init_server 3]
  have "create_quiz 7 (demo_request\<lparr>req_passing_score := Num 3\<rparr>) init_server =
     (Inl PassingScoreExceedsQuestionCount, init_server)"
    using t q n l by blast
  ultimately show ?thesis using e n l by simp
qed

text \<open>
  C22. A successful creation answers the id \<open>Date.now().toString()\<close>, stores the new quiz
  there as active, counts one more quiz, leaves every other quiz and the participation
  store alone, and happens only for a titled, non-empty quiz whose passing score does not
  exceed its question count.
\<close>

theorem create_quiz_stores_active:
  assumes "create_quiz now req s = (Inr qid, s')"
  shows "qid = decimal now \<and> js_get (quizzesStore s') qid = Own (new_quiz now req) \<and>
         is_active (new_quiz now req) \<and> quiz_id (new_quiz now req) = qid \<and>
         total_quizzes (statsStore s') = Suc (total_quizzes (statsStore s)) \<and>
         participantsStore s' = participantsStore s \<and>
         (\<forall>k. k \<noteq> qid \<longrightarrow> js_get (quizzesStore s') k = js_get (quizzesStore s) k) \<and>
         req_title req \<noteq> [] \<and> req_questions req \<noteq> [] \<and>
         \<not> js_less (Some (int (length (req_questions req)))) (to_number (req_passing_score req))"
  using assms by (auto simp: create_quiz_def new_quiz_def split: if_splits)

theorem create_quiz_stores_active_witness:
  "create_quiz 1700000000000 demo_request init_server = (Inr demo_id, demo_server) \<and>
   js_get (quizzesStore demo_server) demo_id = Own (new_quiz 1700000000000 demo_request) \<and>
   total_quizzes (statsStore demo_server) = 1"
proof -
  note c = create_quiz_stores_active [OF demo_create]
  show ?thesis using c demo_create by (simp add: init_server_def init_stats_def)
qed

text \<open>
  Toggling a stored quiz flips its active flag and reports the new value; toggling it
  again restores the server state exactly.
\<close>

theorem toggle_twice_restores:
  assumes "map_of (quizzesStore s) qid = Some q"
  shows "fst (toggle_status qid s) = Inr (qid, \<not> is_active q) \<and>
         is_active (the (map_of (quizzesStore (snd (toggle_status qid s))) qid)) = (\<not> is_active q) \<and>
         toggle_status qid (snd (toggle_status qid s)) = (Inr (qid, is_active q), s)"
proof -
  have "map_of (js_put (quizzesStore s) qid (q\<lparr>is_active := \<not> is_active q\<rparr>)) qid =
        Some (q\<lparr>is_active := \<not> is_active q\<rparr>)" by simp
  then show ?thesis using assms by (simp add: toggle_own)
qed

theorem toggle_twice_restores_witness:
  "map_of (quizzesStore demo_server) demo_id = Some demo_quiz \<and>
   fst (toggle_status demo_id demo_server) = Inr (demo_id, False) \<and>
   toggle_status demo_id (snd (toggle_status demo_id demo_server)) = (Inr (demo_id, True), demo_server)"
proof -
  have h: "map_of (quizzesStore demo_server) demo_id = Some demo_quiz" by (simp add: demo_defs)
  have a: "is_active demo_quiz" by (simp add: demo_defs)
  show ?thesis using toggle_twice_restores [OF h] h a by simp
qed

text \<open>
  C23. The public view of a quiz hides every correct answer while the quiz is active and
  shows all of them once it is inactive; texts and options are always shown, and the view's
  other fields are the quiz's own.
\<close>

theorem safe_quiz_redaction:
  "map view_correct (snd (safe_quiz q)) =
     (if is_active q then replicate (length (questions q)) None
      else map (\<lambda>x. Some (correct_answer x)) (questions q)) \<and>
   map view_text (snd (safe_quiz q)) = map question_text (questions q) \<and>
   map view_options (snd (safe_quiz q)) = map options (questions q) \<and>
   fst (safe_quiz q) = q\<lparr>questions := []\<rparr>"
  by (simp add: safe_quiz_def redact_question_def comp_def map_replicate_const)

text \<open>
  C24. \<open>GET /api/quizzes\<close> lists every stored quiz once, in creation order, with the total,
  whenever the ids are timestamps past \<open>2^32 - 1\<close> ms (every clock after February 1970):
  such keys are no array indices, so \<open>Object.values\<close> keeps insertion order.
\<close>

theorem get_quizzes_creation_order:
  assumes "\<forall>k \<in> fst ` set (quizzesStore s). 4294967295 \<le> read_decimal k"
  shows "get_quizzes s = (map (\<lambda>e. safe_quiz (snd e)) (quizzesStore s), length (quizzesStore s))"
proof -
  have "\<forall>k \<in> fst ` set (quizzesStore s). \<not> is_array_index k"
    using assms by (auto simp: is_array_index_def)
  then have "js_values (quizzesStore s) = map snd (quizzesStore s)"
    by (rule js_values_insertion_order)
  then show ?thesis by (simp add: get_quizzes_def)
qed

theorem get_quizzes_creation_order_witness:
  "fst ` set (quizzesStore demo_server) = {demo_id} \<and> 4294967295 \<le> read_decimal demo_id \<and>
   get_quizzes demo_server = ([safe_quiz demo_quiz], 1)"
proof -
  have k: "fst ` set (quizzesStore demo_server) = {demo_id}" by (simp add: demo_defs)
  have r: "4294967295 \<le> read_decimal demo_id"
    by (simp add: demo_id_def read_decimal_def digit_value_def)
  from k r have h: "\<forall>k \<in> fst ` set (quizzesStore demo_server). 4294967295 \<le> read_decimal k"
    by simp
  show ?thesis using get_quizzes_creation_order [OF h] k r by (simp add: demo_defs)
qed

text \<open>
  A quiz id is the decimal rendering of the creation time: it reads back to that time,
  is a digit string, and two ids are equal exactly when the clock readings are.
\<close>

theorem quiz_id_roundtrip:
  "read_decimal (quiz_id (new_quiz now req)) = now \<and> is_decimal (quiz_id (new_quiz now req)) \<and>
   (quiz_id (new_quiz now req) = quiz_id (new_quiz now' req') \<longleftrightarrow> now = now')"
  by (auto simp: new_quiz_def dest: decimal_inj)

text \<open>
  C30. Two creations within the same millisecond get the same id: the second quiz replaces
  the first, yet the quiz counter goes up twice.
\<close>

theorem create_same_clock_overwrites:
  assumes "create_quiz now req1 s = (Inr id1, s1)" and "create_quiz now req2 s1 = (Inr id2, s2)"
  shows "id1 = id2 \<and> js_get (quizzesStore s2) id1 = Own (new_quiz now req2) \<and>
         length (quizzesStore s2) = length (quizzesStore s1) \<and>
         total_quizzes (statsStore s2) = Suc (Suc (total_quizzes (statsStore s)))"
proof -
  have "decimal now \<in> fst ` set (quizzesStore s1)"
    using assms(1) by (auto simp: create_quiz_def split: if_splits)
  then show ?thesis using assms by (auto simp: create_quiz_def length_js_put split: if_splits)
qed

theorem create_same_clock_overwrites_witness:
  "create_quiz 1700000000000 demo_request init_server = (Inr demo_id, demo_server) \<and>
   create_quiz 1700000000000 (demo_request\<lparr>req_title := ''Second''\<rparr>) demo_server =
     (Inr demo_id, snd (create_quiz 1700000000000 (demo_request\<lparr>req_title := ''Second''\<rparr>) demo_server)) \<and>
   length (quizzesStore (snd (create_quiz 1700000000000 (demo_request\<lparr>req_title := ''Second''\<rparr>) demo_server))) = 1 \<and>
   total_quizzes (statsStore (snd (create_quiz 1700000000000 (demo_request\<lparr>req_title := ''Second''\<rparr>) demo_server))) = 2"
proof -
  have h2: "create_quiz 1700000000000 (demo_request\<lparr>req_title := ''Second''\<rparr>) demo_server =
     (Inr demo_id, snd (create_quiz 1700000000000 (demo_request\<lparr>req_title := ''Second''\<rparr>) demo_server))"
    by (simp add: create_quiz_def decimal_demo demo_defs)
  have l: "length (quizzesStore demo_server) = 1" by (simp add: demo_defs)
  show ?thesis using create_same_clock_overwrites [OF demo_create h2] demo_create h2 l
    by (simp add: init_server_def init_stats_def)
qed

text \<open>
  C31. For an id that names a member of \<open>Object.prototype\<close> (\<open>constructor\<close>,
  \<open>__proto__\<close>, ...), the status toggle answers 200 instead of 404 and writes an
  \<open>is_active\<close> property onto a built-in object, and reading the quiz answers 500.
\<close>

theorem prototype_member_toggles:
  assumes "n \<in> set object_prototype_members" and "map_of (quizzesStore s) n = None"
  shows "fst (toggle_status n s) = Inr (n, \<not> js_truthy (proto_read (builtin_is_active s) n)) \<and>
         builtin_is_active (snd (toggle_status n s)) n \<noteq> None \<and>
         quizzesStore (snd (toggle_status n s)) = quizzesStore s \<and>
         get_quiz n s = Inl InternalServerError"
  using assms by (simp add: toggle_status_def get_quiz_def js_get_def Let_def)

theorem prototype_member_toggles_witness:
  "''constructor'' \<in> set object_prototype_members \<and>
   map_of (quizzesStore demo_server) ''constructor'' = None \<and>
   fst (toggle_status ''constructor'' demo_server) = Inr (''constructor'', True) \<and>
   get_quiz ''constructor'' demo_server = Inl InternalServerError"
proof -
  have m: "''constructor'' \<in> set object_prototype_members" by (simp add: object_prototype_members_def)
  have n: "map_of (quizzesStore demo_server) ''constructor'' = None" by (simp add: demo_defs)
  have e: "builtin_is_active demo_server = Map.empty" by (simp add: demo_defs)
  show ?thesis using prototype_member_toggles [OF m n] m n e by (simp add: proto_read_def)
qed

text \<open>
  Creation accepts a missing or negative passing score: only an excess over the question
  count is refused.
\<close>

theorem create_quiz_unchecked_passing_score:
  assumes "req_title req \<noteq> []" and "req_questions req \<noteq> []"
    and "req_passing_score req = Undef \<or> (\<exists>n < 0. req_passing_score req = Num n)"
  shows "fst (create_quiz now req s) = Inr (decimal now)"
  using assms by (auto simp: create_quiz_def)

theorem create_quiz_unchecked_passing_score_witness:
  "req_title (demo_request\<lparr>req_passing_score := Num (-1)\<rparr>) \<noteq> [] \<and>
   req_questions (demo_request\<lparr>req_passing_score := Num (-1)\<rparr>) \<noteq> [] \<and>
   fst (create_quiz 1700000000000 (demo_request\<lparr>req_passing_score := Num (-1)\<rparr>) init_server) = Inr demo_id"
proof -
  have t: "req_title (demo_request\<lparr>req_passing_score := Num (-1)\<rparr>) \<noteq> []" by (simp add: demo_defs)
  have q: "req_questions (demo_request\<lparr>req_passing_score := Num (-1)\<rparr>) \<noteq> []" by (simp add: demo_defs)
  have n: "req_passing_score (demo_request\<lparr>req_passing_score := Num (-1)\<rparr>) = Undef \<or>
    (\<exists>n < 0. req_passing_score (demo_request\<lparr>req_passing_score := Num (-1)\<rparr>) = Num n)" by simp
  show ?thesis using create_quiz_unchecked_passing_score [OF t q n, of 1700000000000 init_server] t q
    by (simp add: decimal_demo)
qed

end
