(* ===== verification/Scoring.thy ===== *)
theory Scoring
  imports QuizModel "HOL-Library.While_Combinator"
begin

text \<open>
  The scoring loop of \<open>POST /api/quizzes/:quizId/play\<close> (\<open>server.js\<close>, lines
  121--126): one point for every index \<open>i\<close> below the question count where
  \<open>answers[i] === quiz.questions[i].correct_answer\<close>. An index beyond the answers reads
  \<open>undefined\<close>, which equals no number. The loop is a function of the index with the
  distance to the question count as its measure; it equals the count of matching
  question/answer pairs (\<open>count_correct\<close>), which gives its bounds and its behaviour on
  perfect and empty answer sheets. The same loop written as the \<open>for\<close> statement it is,
  a guard, a body and the state \<open>(i, score)\<close> run by \<open>while_option\<close> (\<open>None\<close> if it
  never exits), is shown to exit after \<open>questions.length\<close> iterations with that score.
\<close>

definition answer_matches :: "question \<Rightarrow> int option \<Rightarrow> bool" where
  "answer_matches q a \<longleftrightarrow> a = Some (correct_answer q)"

function score_loop :: "question list \<Rightarrow> int option list \<Rightarrow> nat \<Rightarrow> nat \<Rightarrow> nat" where
  "score_loop qs ans i sc =
     (if i < length qs
      then score_loop qs ans (Suc i)
             (if i < length ans \<and> answer_matches (qs ! i) (ans ! i) then Suc sc else sc)
      else sc)"
  by pat_completeness auto
termination
  by (relation "measure (\<lambda>(qs, ans, i, sc). length qs - i)") auto

declare score_loop.simps [simp del]

definition calculate_score :: "question list \<Rightarrow> int option list \<Rightarrow> nat" where
  "calculate_score qs ans = score_loop qs ans 0 0"

text \<open>Reference: the number of questions answered with their correct option.\<close>

definition count_correct :: "question list \<Rightarrow> int option list \<Rightarrow> nat" where
  "count_correct qs ans = length (filter (\<lambda>(q, a). answer_matches q a) (zip qs ans))"

text \<open>
  The \<open>for\<close> statement of lines 121--126: the guard \<open>i < quiz.questions.length\<close>, the
  body with the update \<open>i++\<close>, from \<open>i = 0\<close> and \<open>score = 0\<close>.
\<close>

definition score_guard :: "question list \<Rightarrow> nat \<times> nat \<Rightarrow> bool" where
  "score_guard qs = (\<lambda>(i, sc). i < length qs)"

definition score_body :: "question list \<Rightarrow> int option list \<Rightarrow> nat \<times> nat \<Rightarrow> nat \<times> nat" where
  "score_body qs ans =
     (\<lambda>(i, sc). (Suc i, if i < length ans \<and> answer_matches (qs ! i) (ans ! i) then Suc sc else sc))"

definition score_for :: "question list \<Rightarrow> int option list \<Rightarrow> (nat \<times> nat) option" where
  "score_for qs ans = while_option (score_guard qs) (score_body qs ans) (0, 0)"

lemma count_correct_Cons [simp]:
  "count_correct (q # qs) (a # ans) =
   (if answer_matches q a then Suc (count_correct qs ans) else count_correct qs ans)"
  by (simp add: count_correct_def)

lemma count_correct_Nil [simp]: "count_correct [] ans = 0" "count_correct qs [] = 0"
  by (simp_all add: count_correct_def)

lemma drop_Suc_nth: "i < length xs \<Longrightarrow> drop i xs = xs ! i # drop (Suc i) xs"
  by (simp add: Cons_nth_drop_Suc)

lemma score_loop_count:
  "score_loop qs ans i sc = sc + count_correct (drop i qs) (drop i ans)"
proof (induction qs ans i sc rule: score_loop.induct)
  case (1 qs ans i sc)
  show ?case
  proof (cases "i < length qs")
    case True
    note step = "1.IH" [OF True]
    show ?thesis
    proof (cases "i < length ans")
      case True
      with \<open>i < length qs\<close> step show ?thesis
        by (simp add: score_loop.simps [of qs ans i sc] drop_Suc_nth)
    next
      case False
      with \<open>i < length qs\<close> step show ?thesis
        by (simp add: score_loop.simps [of qs ans i sc])
    qed
  next
    case False
    then show ?thesis by (simp add: score_loop.simps [of qs ans i sc])
  qed
qed

lemma score_while_loop:
  "while_option (score_guard qs) (score_body qs ans) (i, sc) =
     Some (max i (length qs), score_loop qs ans i sc)"
proof (induction qs ans i sc rule: score_loop.induct)
  case (1 qs ans i sc)
  show ?case
  proof (cases "i < length qs")
    case True
    then show ?thesis
      using "1.IH" [OF True]
      by (subst while_option_unfold)
        (simp add: score_guard_def score_body_def score_loop.simps [of qs ans i sc])
  next
    case False
    then show ?thesis
      by (subst while_option_unfold) (simp add: score_guard_def score_loop.simps [of qs ans i sc])
  qed
qed

lemma count_correct_le_length: "count_correct qs ans \<le> length qs"
proof -
  have "count_correct qs ans \<le> length (zip qs ans)"
    unfolding count_correct_def by (rule length_filter_le)
  then show ?thesis by simp
qed

lemma count_correct_le_answers: "count_correct qs ans \<le> length ans"
proof -
  have "count_correct qs ans \<le> length (zip qs ans)"
    unfolding count_correct_def by (rule length_filter_le)
  then show ?thesis by simp
qed

lemma count_correct_all_right:
  "count_correct qs (map (\<lambda>q. Some (correct_answer q)) qs) = length qs"
  by (induction qs) (simp_all add: answer_matches_def)

lemma count_correct_all_null: "count_correct qs (replicate n None) = 0"
proof (induction qs arbitrary: n)
  case Nil
  then show ?case by simp
next
  case (Cons q qs)
  then show ?case by (cases n) (simp_all add: answer_matches_def)
qed

text \<open>
  C11. The scoring loop computes the number of questions whose submitted answer is exactly
  the correct option index: \<open>calculate_score\<close> agrees with the reference count.
\<close>

theorem calculate_score_equiv: "calculate_score qs ans = count_correct qs ans"
  by (simp add: calculate_score_def score_loop_count)

text \<open>
  A score never exceeds the number of questions, nor the number of submitted answers.
\<close>

theorem calculate_score_bounds:
  "calculate_score qs ans \<le> length qs \<and> calculate_score qs ans \<le> length ans"
  by (simp add: calculate_score_def score_loop_count count_correct_le_length
      count_correct_le_answers)

text \<open>
  Answering every question with its correct index scores the question count;
  an answer sheet of \<open>null\<close>s scores 0 (no partial or negative credit).
\<close>

theorem calculate_score_extremes:
  "calculate_score qs (map (\<lambda>q. Some (correct_answer q)) qs) = length qs \<and>
   calculate_score qs (replicate (length qs) None) = 0"
  by (simp add: calculate_score_def score_loop_count count_correct_all_right
      count_correct_all_null)

text \<open>
  C18. The scoring \<open>for\<close> loop always exits: run as a \<open>while\<close> loop from \<open>i = 0\<close>, it
  stops after exactly \<open>questions.length\<close> iterations with the score \<open>calculate_score\<close>.
\<close>

theorem score_for_terminates: "score_for qs ans = Some (length qs, calculate_score qs ans)"
  by (simp add: score_for_def score_while_loop calculate_score_def)

end
