(* ===== verification/PlayRoute.thy ===== *)
theory PlayRoute
  imports Scoring Fixtures
begin

text \<open>
  The participation routes of \<open>src/backend/server.js\<close>:
  \<open>POST /api/quizzes/:quizId/play\<close> (\<open>play_quiz\<close>, lines 97--153), which checks in
  order that the quiz exists, is active, gets one answer per question and has not been
  played by this participant, then scores the answers, stores the record and updates the
  statistics; and \<open>GET /api/participants/:address/quiz/:quizId\<close>
  (\<open>get_participant\<close>, lines 156--172), which returns the record or a zero sentinel.
  Reads of the participation store are plain lookups (\<open>js_get_participantKey\<close>).
\<close>

record score_result =
  result_score :: nat
  total_questions :: nat
  passed :: bool
  reward_eligible :: bool
  message :: string

definition pass_message :: "bool \<Rightarrow> string" where
  "pass_message p = (if p then ''Congratulations! You passed!'' else ''You did not pass this quiz'')"

definition new_attempt :: "nat \<Rightarrow> string \<Rightarrow> string \<Rightarrow> int option list \<Rightarrow> nat \<Rightarrow> attempt" where
  "new_attempt now participant qid ans sc =
     \<lparr>address = participant, score = sc, attempt_quiz_id = qid, timestamp = now,
      rewarded = False, answers = ans\<rparr>"

definition record_play :: "nat \<Rightarrow> stats \<Rightarrow> stats" where
  "record_play sc st =
     st\<lparr>total_participants := Suc (total_participants st),
       highest_score := (if highest_score st < sc then sc else highest_score st)\<rparr>"

text \<open>
  An inherited member reads \<open>is_active\<close> through the prototype chain; if a toggle made it
  truthy, \<open>quiz.questions.length\<close> throws on \<open>undefined\<close> and the answer is 500.
\<close>

definition play_quiz ::
  "nat \<Rightarrow> string \<Rightarrow> string \<Rightarrow> int option list \<Rightarrow> server \<Rightarrow> (error + score_result) \<times> server" where
  "play_quiz now qid participant ans s =
     (case js_get (quizzesStore s) qid of
        Absent \<Rightarrow> (Inl QuizNotFound, s)
      | Inherited n \<Rightarrow>
          (if \<not> js_truthy (proto_read (builtin_is_active s) n) then (Inl QuizNotActive, s)
           else (Inl InternalServerError, s))
      | Own q \<Rightarrow>
          (if \<not> is_active q then (Inl QuizNotActive, s)
           else if length ans \<noteq> length (questions q) then (Inl AnswerCountMismatch, s)
           else if js_has (participantsStore s) (participantKey participant qid)
           then (Inl AlreadyPlayed, s)
           else
             (let sc = calculate_score (questions q) ans;
                  p = js_greater_eq (Some (int sc)) (to_number (passing_score q))
              in (Inr \<lparr>result_score = sc, total_questions = length (questions q), passed = p,
                       reward_eligible = p, message = pass_message p\<rparr>,
                  s\<lparr>participantsStore :=
                      js_put (participantsStore s) (participantKey participant qid)
                        (new_attempt now participant qid ans sc),
                    statsStore := record_play sc (statsStore s)\<rparr>))))"

definition default_attempt :: "string \<Rightarrow> string \<Rightarrow> attempt" where
  "default_attempt a qid =
     \<lparr>address = a, score = 0, attempt_quiz_id = qid, timestamp = 0, rewarded = False,
      answers = []\<rparr>"

definition get_participant :: "string \<Rightarrow> string \<Rightarrow> server \<Rightarrow> attempt" where
  "get_participant a qid s =
     (case map_of (participantsStore s) (participantKey a qid) of
        None \<Rightarrow> default_attempt a qid
      | Some r \<Rightarrow> r)"

text \<open>States for the witnesses: the demo quiz closed, and played once by \<open>alice\<close>.\<close>

definition demo_inactive :: server where
  "demo_inactive = demo_server\<lparr>quizzesStore := [(demo_id, demo_quiz\<lparr>is_active := False\<rparr>)]\<rparr>"

definition demo_played :: server where
  "demo_played = snd (play_quiz 5 demo_id ''alice'' [Some 1, Some 1] demo_server)"

section \<open>Properties\<close>

lemma play_quiz_error_unchanged:
  "play_quiz now qid p ans s = (Inl e, s') \<Longrightarrow> s' = s"
  by (auto simp: play_quiz_def Let_def split: js_prop.splits if_splits)

lemma play_quiz_success_cases:
  assumes "play_quiz now qid p ans s = (Inr res, s')"
  obtains q where "js_get (quizzesStore s) qid = Own q" and "is_active q"
    and "length ans = length (questions q)"
    and "map_of (participantsStore s) (participantKey p qid) = None"
    and "s' = s\<lparr>participantsStore :=
                  js_put (participantsStore s) (participantKey p qid)
                    (new_attempt now p qid ans (calculate_score (questions q) ans)),
                statsStore := record_play (calculate_score (questions q) ans) (statsStore s)\<rparr>"
    and "result_score res = calculate_score (questions q) ans"
  using assms by (auto simp: play_quiz_def Let_def split: js_prop.splits if_splits)

lemma play_quiz_own_valid:
  assumes "map_of (quizzesStore s) qid = Some q" and "is_active q"
    and "length ans = length (questions q)"
    and "map_of (participantsStore s) (participantKey p qid) = None"
  shows "play_quiz now qid p ans s =
    (let sc = calculate_score (questions q) ans;
         ok = js_greater_eq (Some (int sc)) (to_number (passing_score q))
     in (Inr \<lparr>result_score = sc, total_questions = length (questions q), passed = ok,
              reward_eligible = ok, message = pass_message ok\<rparr>,
         s\<lparr>participantsStore :=
             js_put (participantsStore s) (participantKey p qid) (new_attempt now p qid ans sc),
           statsStore := record_play sc (statsStore s)\<rparr>))"
  using assms by (simp add: play_quiz_def Let_def)

lemma play_quiz_played:
  assumes "map_of (participantsStore s) (participantKey p qid) \<noteq> None"
  shows "\<exists>e. play_quiz now qid p ans s = (Inl e, s)"
proof -
  obtain resp s' where eq: "play_quiz now qid p ans s = (resp, s')" by (cases "play_quiz now qid p ans s")
  show ?thesis
  proof (cases resp)
    case (Inl e) then show ?thesis using eq by (auto dest: play_quiz_error_unchanged)
  next
    case (Inr res)
    with eq assms show ?thesis by (auto elim: play_quiz_success_cases)
  qed
qed

lemma score_le_questions: "calculate_score qs ans \<le> length qs"
  by (simp add: calculate_score_def score_loop_count count_correct_le_length)

lemma score_le_answers: "calculate_score qs ans \<le> length ans"
  by (simp add: calculate_score_def score_loop_count count_correct_le_answers)

lemma demo_play:
  "play_quiz now demo_id p [Some 1, Some 1] demo_server =
   (Inr \<lparr>result_score = 1, total_questions = 2, passed = True, reward_eligible = True,
         message = ''Congratulations! You passed!''\<rparr>,
    demo_server\<lparr>participantsStore := [(participantKey p demo_id, new_attempt now p demo_id [Some 1, Some 1] 1)],
                statsStore := init_stats\<lparr>total_quizzes := 1, total_participants := 1, highest_score := 1\<rparr>\<rparr>)"
  by (simp add: play_quiz_def demo_defs calculate_score_def score_loop_count answer_matches_def
      pass_message_def record_play_def js_get_def object_prototype_members_def)

text \<open>
  C1. Playing an existing active quiz with one answer per question, for a participant who
  has not played it, answers with the score (the number of exactly matching answers),
  the question count and the pass verdict, stores an unrewarded record of the attempt
  under the participant's key, counts one more participant, raises the highest score to
  this score if it is larger, and changes nothing else that the statistics or the quiz
  store hold.
\<close>

theorem play_quiz_records_attempt:
  assumes "map_of (quizzesStore s) qid = Some q" and "is_active q"
    and "length ans = length (questions q)"
    and "map_of (participantsStore s) (participantKey p qid) = None"
    and "play_quiz now qid p ans s = (resp, s')"
  shows "resp = Inr \<lparr>result_score = count_correct (questions q) ans,
                     total_questions = length (questions q),
                     passed = js_greater_eq (Some (int (count_correct (questions q) ans)))
                                (to_number (passing_score q)),
                     reward_eligible = js_greater_eq (Some (int (count_correct (questions q) ans)))
                                (to_number (passing_score q)),
                     message = pass_message (js_greater_eq (Some (int (count_correct (questions q) ans)))
                                (to_number (passing_score q)))\<rparr> \<and>
         map_of (participantsStore s') (participantKey p qid) =
           Some (new_attempt now p qid ans (count_correct (questions q) ans)) \<and>
         quizzesStore s' = quizzesStore s \<and>
         total_participants (statsStore s') = Suc (total_participants (statsStore s)) \<and>
         highest_score (statsStore s') =
           max (highest_score (statsStore s)) (count_correct (questions q) ans) \<and>
         total_rewards_distributed (statsStore s') = total_rewards_distributed (statsStore s) \<and>
         total_quizzes (statsStore s') = total_quizzes (statsStore s)"
proof -
  have sc: "calculate_score (questions q) ans = count_correct (questions q) ans"
    by (simp add: calculate_score_def score_loop_count)
  from assms(1-4) have "play_quiz now qid p ans s =
    (let sc = calculate_score (questions q) ans;
         ok = js_greater_eq (Some (int sc)) (to_number (passing_score q))
     in (Inr \<lparr>result_score = sc, total_questions = length (questions q), passed = ok,
              reward_eligible = ok, message = pass_message ok\<rparr>,
         s\<lparr>participantsStore :=
             js_put (participantsStore s) (participantKey p qid) (new_attempt now p qid ans sc),
           statsStore := record_play sc (statsStore s)\<rparr>))"
    by (rule play_quiz_own_valid)
  with assms(5) sc show ?thesis by (auto simp: Let_def record_play_def max_def)
qed

theorem play_quiz_records_attempt_witness:
  "map_of (quizzesStore demo_server) demo_id = Some demo_quiz \<and> is_active demo_quiz \<and>
   length [Some 1, Some (1::int)] = length (questions demo_quiz) \<and>
   map_of (participantsStore demo_server) (participantKey ''alice'' demo_id) = None \<and>
   result_score (projr (fst (play_quiz 5 demo_id ''alice'' [Some 1, Some 1] demo_server))) = 1"
proof -
  have h1: "map_of (quizzesStore demo_server) demo_id = Some demo_quiz" by (simp add: demo_defs)
  have h2: "is_active demo_quiz" by (simp add: demo_defs)
  have h3: "length [Some 1, Some (1::int)] = length (questions demo_quiz)" by (simp add: demo_defs)
  have h4: "map_of (participantsStore demo_server) (participantKey ''alice'' demo_id) = None"
    by (simp add: demo_defs)
  have "count_correct (questions demo_quiz) [Some 1, Some 1] = 1"
    by (simp add: demo_defs answer_matches_def)
  with play_quiz_records_attempt [OF h1 h2 h3 h4 surjective_pairing, of 5]
  show ?thesis using h1 h2 h3 h4 by simp
qed

text \<open>
  C2. At most one attempt per participant and quiz: once a play succeeded, every later play
  of the same quiz by the same participant with a full answer sheet is refused with
  \<open>AlreadyPlayed\<close> and changes no state (the first record and the statistics stay).
\<close>

theorem play_quiz_second_attempt_rejected:
  assumes first: "play_quiz now qid p ans s = (Inr res, s')"
    and len: "length ans' = length ans"
  shows "play_quiz now' qid p ans' s' = (Inl AlreadyPlayed, s')"
proof -
  obtain q where q: "js_get (quizzesStore s) qid = Own q" and act: "is_active q"
    and l: "length ans = length (questions q)"
    and eq: "s' = s\<lparr>participantsStore :=
                  js_put (participantsStore s) (participantKey p qid)
                    (new_attempt now p qid ans (calculate_score (questions q) ans)),
                statsStore := record_play (calculate_score (questions q) ans) (statsStore s)\<rparr>"
    using first by (rule play_quiz_success_cases)
  have "js_get (quizzesStore s') qid = Own q" using q eq by simp
  moreover have "map_of (participantsStore s') (participantKey p qid) \<noteq> None" using eq by simp
  ultimately show ?thesis using act l len by (simp add: play_quiz_def)
qed

theorem play_quiz_second_attempt_rejected_witness:
  "play_quiz 5 demo_id ''alice'' [Some 1, Some 1] demo_server =
     (Inr \<lparr>result_score = 1, total_questions = 2, passed = True, reward_eligible = True,
           message = ''Congratulations! You passed!''\<rparr>,
      snd (play_quiz 5 demo_id ''alice'' [Some 1, Some 1] demo_server)) \<and>
   length [Some 0, Some (0::int)] = length [Some 1, Some (1::int)] \<and>
   play_quiz 6 demo_id ''alice'' [Some 0, Some 0]
     (snd (play_quiz 5 demo_id ''alice'' [Some 1, Some 1] demo_server)) =
   (Inl AlreadyPlayed, snd (play_quiz 5 demo_id ''alice'' [Some 1, Some 1] demo_server))"
proof -
  have h1: "play_quiz 5 demo_id ''alice'' [Some 1, Some 1] demo_server =
     (Inr \<lparr>result_score = 1, total_questions = 2, passed = True, reward_eligible = True,
           message = ''Congratulations! You passed!''\<rparr>,
      snd (play_quiz 5 demo_id ''alice'' [Some 1, Some 1] demo_server))"
    by (simp add: demo_play)
  have h2: "length [Some 0, Some (0::int)] = length [Some 1, Some (1::int)]" by simp
  show ?thesis using h1 h2 play_quiz_second_attempt_rejected [OF h1 h2, of 6] by simp
qed

text \<open>
  C12. The preconditions of a play are checked in the source's order, the first failure
  answering: unknown quiz (404), inactive quiz, wrong answer count, already played (400);
  a refused play leaves the state as it was.
\<close>

theorem play_quiz_error_order:
  "(js_get (quizzesStore s) qid = Absent \<longrightarrow>
      play_quiz now qid p ans s = (Inl QuizNotFound, s)) \<and>
   (js_get (quizzesStore s) qid = Own q \<longrightarrow> \<not> is_active q \<longrightarrow>
      play_quiz now qid p ans s = (Inl QuizNotActive, s)) \<and>
   (js_get (quizzesStore s) qid = Own q \<longrightarrow> is_active q \<longrightarrow>
      length ans \<noteq> length (questions q) \<longrightarrow>
      play_quiz now qid p ans s = (Inl AnswerCountMismatch, s)) \<and>
   (js_get (quizzesStore s) qid = Own q \<longrightarrow> is_active q \<longrightarrow>
      length ans = length (questions q) \<longrightarrow>
      map_of (participantsStore s) (participantKey p qid) \<noteq> None \<longrightarrow>
      play_quiz now qid p ans s = (Inl AlreadyPlayed, s))"
  by (simp add: play_quiz_def)

theorem play_quiz_error_order_witness:
  "js_get (quizzesStore demo_server) ''42'' = Absent \<and>
   play_quiz 5 ''42'' ''alice'' [] demo_server = (Inl QuizNotFound, demo_server) \<and>
   js_get (quizzesStore demo_inactive) demo_id = Own (demo_quiz\<lparr>is_active := False\<rparr>) \<and>
   play_quiz 5 demo_id ''alice'' [Some 1, Some 1] demo_inactive = (Inl QuizNotActive, demo_inactive) \<and>
   length [Some (1::int)] \<noteq> length (questions demo_quiz) \<and>
   play_quiz 5 demo_id ''alice'' [Some 1] demo_server = (Inl AnswerCountMismatch, demo_server) \<and>
   map_of (participantsStore demo_played) (participantKey ''alice'' demo_id) \<noteq> None \<and>
   play_quiz 6 demo_id ''alice'' [Some 0, Some 0] demo_played = (Inl AlreadyPlayed, demo_played)"
proof -
  have a: "js_get (quizzesStore demo_server) ''42'' = Absent"
    by (simp add: demo_defs js_get_def object_prototype_members_def)
  have o: "js_get (quizzesStore demo_server) demo_id = Own demo_quiz"
    by (simp add: demo_defs)
  have i: "js_get (quizzesStore demo_inactive) demo_id = Own (demo_quiz\<lparr>is_active := False\<rparr>)"
    by (simp add: demo_defs demo_inactive_def)
  have op: "js_get (quizzesStore demo_played) demo_id = Own demo_quiz"
    by (simp add: demo_played_def demo_play) (simp add: demo_defs)
  have pp: "map_of (participantsStore demo_played) (participantKey ''alice'' demo_id) \<noteq> None"
    by (simp add: demo_played_def demo_play)
  have l: "length [Some (1::int)] \<noteq> length (questions demo_quiz)" by (simp add: demo_defs)
  have l2: "length [Some (0::int), Some 0] = length (questions demo_quiz)" by (simp add: demo_defs)
  have act: "is_active demo_quiz" by (simp add: demo_defs)
  from play_quiz_error_order [of demo_server "''42''" 5 "''alice''" "[]" demo_quiz]
  have "play_quiz 5 ''42'' ''alice'' [] demo_server = (Inl QuizNotFound, demo_server)"
    using a by blast
  moreover from play_quiz_error_order [of demo_inactive demo_id 5 "''alice''" "[Some 1, Some 1]"
      "demo_quiz\<lparr>is_active := False\<rparr>"]
  have "play_quiz 5 demo_id ''alice'' [Some 1, Some 1] demo_inactive = (Inl QuizNotActive, demo_inactive)"
    using i by simp
  moreover from play_quiz_error_order [of demo_server demo_id 5 "''alice''" "[Some 1]" demo_quiz]
  have "play_quiz 5 demo_id ''alice'' [Some 1] demo_server = (Inl AnswerCountMismatch, demo_server)"
    using o l act by blast
  moreover from play_quiz_error_order [of demo_played demo_id 6 "''alice''" "[Some 0, Some 0]" demo_quiz]
  have "play_quiz 6 demo_id ''alice'' [Some 0, Some 0] demo_played = (Inl AlreadyPlayed, demo_played)"
    using op pp l2 act by blast
  ultimately show ?thesis using a i l pp by simp
qed

text \<open>
  C13. For a quiz with a numeric passing score, a play reports \<open>passed\<close> exactly when the
  score reaches the passing score, \<open>reward_eligible\<close> equals \<open>passed\<close>, and the score
  never exceeds the question count.
\<close>

theorem play_quiz_passed_iff:
  assumes "play_quiz now qid p ans s = (Inr res, s')"
    and "js_get (quizzesStore s) qid = Own q" and "to_number (passing_score q) = Some ps"
  shows "(passed res \<longleftrightarrow> ps \<le> int (result_score res)) \<and> reward_eligible res = passed res \<and>
         result_score res \<le> total_questions res"
proof -
  have "calculate_score (questions q) ans \<le> length (questions q)"
    by (rule score_le_questions)
  then show ?thesis using assms by (auto simp: play_quiz_def Let_def split: if_splits)
qed

theorem play_quiz_passed_iff_witness:
  "play_quiz 5 demo_id ''alice'' [Some 1, Some 1] demo_server =
     (Inr \<lparr>result_score = 1, total_questions = 2, passed = True, reward_eligible = True,
           message = ''Congratulations! You passed!''\<rparr>,
      snd (play_quiz 5 demo_id ''alice'' [Some 1, Some 1] demo_server)) \<and>
   js_get (quizzesStore demo_server) demo_id = Own demo_quiz \<and>
   to_number (passing_score demo_quiz) = Some 1 \<and> (True \<longleftrightarrow> (1::int) \<le> int 1)"
proof -
  have h1: "play_quiz 5 demo_id ''alice'' [Some 1, Some 1] demo_server =
     (Inr \<lparr>result_score = 1, total_questions = 2, passed = True, reward_eligible = True,
           message = ''Congratulations! You passed!''\<rparr>,
      snd (play_quiz 5 demo_id ''alice'' [Some 1, Some 1] demo_server))"
    by (simp add: demo_play)
  have h2: "js_get (quizzesStore demo_server) demo_id = Own demo_quiz" by (simp add: demo_defs)
  have h3: "to_number (passing_score demo_quiz) = Some 1" by (simp add: demo_defs)
  show ?thesis using play_quiz_passed_iff [OF h1 h2 h3] h1 h2 h3 by simp
qed

text \<open>
  Looking up a participant who never played a quiz answers with the zero sentinel
  (score 0, not rewarded, no answers) rather than an error; otherwise with the stored record.
\<close>

theorem get_participant_sentinel:
  "(map_of (participantsStore s) (participantKey a qid) = None \<longrightarrow>
      get_participant a qid s =
        \<lparr>address = a, score = 0, attempt_quiz_id = qid, timestamp = 0, rewarded = False,
         answers = []\<rparr>) \<and>
   (map_of (participantsStore s) (participantKey a qid) = Some r \<longrightarrow> get_participant a qid s = r)"
  by (simp add: get_participant_def default_attempt_def)

theorem get_participant_sentinel_witness:
  "map_of (participantsStore demo_server) (participantKey ''bob'' demo_id) = None \<and>
   score (get_participant ''bob'' demo_id demo_server) = 0 \<and>
   \<not> rewarded (get_participant ''bob'' demo_id demo_server)"
proof -
  have h: "map_of (participantsStore demo_server) (participantKey ''bob'' demo_id) = None"
    by (simp add: demo_defs)
  with get_participant_sentinel [of demo_server "''bob''" demo_id] show ?thesis by simp
qed

end
