(* ===== verification/RewardRoute.thy ===== *)
theory RewardRoute
  imports PlayRoute
begin

text \<open>
  \<open>POST /api/rewards/distribute\<close> of \<open>src/backend/server.js\<close> (lines 191--210):
  the participation record under \<open>participant-quizId\<close> and the quiz are looked up; a
  missing one is 404; a record whose score is below the quiz's passing score, or that was
  rewarded already, is refused with 400; otherwise the record is marked rewarded in place
  and the caller's amount is added to the running total. Both comparisons are JavaScript
  comparisons: a quiz without a numeric passing score, and an inherited member in place
  of a quiz, compare as NaN and never refuse.
\<close>

definition quiz_passing_number :: "quiz js_prop \<Rightarrow> int option" where
  "quiz_passing_number v = (case v of Own q \<Rightarrow> to_number (passing_score q) | _ \<Rightarrow> None)"

definition add_reward :: "num_field \<Rightarrow> stats \<Rightarrow> stats" where
  "add_reward amount st =
     st\<lparr>total_rewards_distributed := js_add (total_rewards_distributed st) (to_number amount)\<rparr>"

definition distribute_reward ::
  "string \<Rightarrow> string \<Rightarrow> num_field \<Rightarrow> server \<Rightarrow> (error + string \<times> num_field) \<times> server" where
  "distribute_reward participant qid amount s =
     (let key = participantKey participant qid;
          quiz = js_get (quizzesStore s) qid
      in case map_of (participantsStore s) key of
           None \<Rightarrow> (Inl RecordOrQuizNotFound, s)
         | Some r \<Rightarrow>
             (if quiz = Absent then (Inl RecordOrQuizNotFound, s)
              else if js_less (Some (int (score r))) (quiz_passing_number quiz) \<or> rewarded r
              then (Inl CannotDistributeReward, s)
              else (Inr (participant, amount),
                    s\<lparr>participantsStore :=
                        js_put (participantsStore s) key (r\<lparr>rewarded := True\<rparr>),
                      statsStore := add_reward amount (statsStore s)\<rparr>)))"

text \<open>A state for the witnesses: the demo quiz without a passing score.\<close>

definition demo_no_pass :: server where
  "demo_no_pass = demo_server\<lparr>quizzesStore := [(demo_id, demo_quiz\<lparr>passing_score := Undef\<rparr>)]\<rparr>"

section \<open>Properties\<close>

lemma distribute_reward_error_unchanged:
  "distribute_reward p qid a s = (Inl e, s') \<Longrightarrow> s' = s"
  by (auto simp: distribute_reward_def Let_def split: option.splits if_splits)

lemma distribute_reward_success_cases:
  assumes "distribute_reward p qid a s = (Inr res, s')"
  obtains r where "map_of (participantsStore s) (participantKey p qid) = Some r"
    and "js_get (quizzesStore s) qid \<noteq> Absent"
    and "\<not> rewarded r"
    and "\<not> js_less (Some (int (score r))) (quiz_passing_number (js_get (quizzesStore s) qid))"
    and "res = (p, a)"
    and "s' = s\<lparr>participantsStore :=
                  js_put (participantsStore s) (participantKey p qid) (r\<lparr>rewarded := True\<rparr>),
                statsStore := add_reward a (statsStore s)\<rparr>"
  using assms by (auto simp: distribute_reward_def Let_def split: option.splits if_splits)

lemma quiz_passing_number_own [simp]:
  "quiz_passing_number (Own q) = to_number (passing_score q)"
  by (simp add: quiz_passing_number_def)

lemma quiz_passing_number_other [simp]:
  "quiz_passing_number (Inherited n) = None" "quiz_passing_number Absent = None"
  by (simp_all add: quiz_passing_number_def)

lemma demo_reward:
  "distribute_reward ''alice'' demo_id (Num 50) demo_played =
   (Inr (''alice'', Num 50),
    demo_played\<lparr>participantsStore :=
       [(participantKey ''alice'' demo_id, (new_attempt 5 ''alice'' demo_id [Some 1, Some 1] 1)\<lparr>rewarded := True\<rparr>)],
     statsStore := init_stats\<lparr>total_quizzes := 1, total_participants := 1, highest_score := 1,
        total_rewards_distributed := Some 50\<rparr>\<rparr>)"
  by (simp add: demo_played_def demo_play distribute_reward_def add_reward_def)
     (simp add: demo_defs new_attempt_def add_reward_def)

text \<open>
  C3. A reward is paid at most once: after a successful distribution for a participant and
  quiz, every further distribution for the pair is refused with 400 and changes nothing;
  the one success added exactly its amount to the running total and marked the record
  rewarded.
\<close>

theorem distribute_reward_once:
  assumes first: "distribute_reward p qid a s = (Inr res, s')"
  shows "distribute_reward p qid a' s' = (Inl CannotDistributeReward, s') \<and>
         total_rewards_distributed (statsStore s') =
           js_add (total_rewards_distributed (statsStore s)) (to_number a) \<and>
         map_of (participantsStore s') (participantKey p qid) =
           map_option (\<lambda>r. r\<lparr>rewarded := True\<rparr>) (map_of (participantsStore s) (participantKey p qid))"
proof -
  obtain r where r: "map_of (participantsStore s) (participantKey p qid) = Some r"
    and q: "js_get (quizzesStore s) qid \<noteq> Absent"
    and eq: "s' = s\<lparr>participantsStore :=
                  js_put (participantsStore s) (participantKey p qid) (r\<lparr>rewarded := True\<rparr>),
                statsStore := add_reward a (statsStore s)\<rparr>"
    using first by (rule distribute_reward_success_cases)
  have "distribute_reward p qid a' s' = (Inl CannotDistributeReward, s')"
    using q eq by (simp add: distribute_reward_def Let_def)
  then show ?thesis using r eq by (simp add: add_reward_def)
qed

theorem distribute_reward_once_witness:
  "distribute_reward ''alice'' demo_id (Num 50) demo_played =
     (Inr (''alice'', Num 50), snd (distribute_reward ''alice'' demo_id (Num 50) demo_played)) \<and>
   distribute_reward ''alice'' demo_id (Num 50) (snd (distribute_reward ''alice'' demo_id (Num 50) demo_played)) =
     (Inl CannotDistributeReward, snd (distribute_reward ''alice'' demo_id (Num 50) demo_played)) \<and>
   total_rewards_distributed (statsStore (snd (distribute_reward ''alice'' demo_id (Num 50) demo_played))) = Some 50"
proof -
  have h: "distribute_reward ''alice'' demo_id (Num 50) demo_played =
     (Inr (''alice'', Num 50), snd (distribute_reward ''alice'' demo_id (Num 50) demo_played))"
    by (simp add: demo_reward)
  have t: "total_rewards_distributed (statsStore demo_played) = Some 0"
    by (simp add: demo_played_def demo_play init_stats_def)
  show ?thesis using distribute_reward_once [OF h, of "Num 50"] h t by simp
qed

text \<open>
  C4. A distribution succeeds only for an existing, not yet rewarded record and an existing
  quiz, and, when the quiz has a numeric passing score, only if the record's score reaches it.
\<close>

theorem distribute_reward_requires_pass:
  assumes "distribute_reward p qid a s = (Inr res, s')"
  shows "\<exists>r. map_of (participantsStore s) (participantKey p qid) = Some r \<and> \<not> rewarded r \<and>
             js_get (quizzesStore s) qid \<noteq> Absent \<and>
             (\<forall>q ps. js_get (quizzesStore s) qid = Own q \<longrightarrow> to_number (passing_score q) = Some ps \<longrightarrow>
                ps \<le> int (score r))"
proof -
  obtain r where "map_of (participantsStore s) (participantKey p qid) = Some r"
    and "js_get (quizzesStore s) qid \<noteq> Absent" and "\<not> rewarded r"
    and "\<not> js_less (Some (int (score r))) (quiz_passing_number (js_get (quizzesStore s) qid))"
    using assms by (rule distribute_reward_success_cases)
  then show ?thesis by auto
qed

theorem distribute_reward_requires_pass_witness:
  "distribute_reward ''alice'' demo_id (Num 50) demo_played =
     (Inr (''alice'', Num 50), snd (distribute_reward ''alice'' demo_id (Num 50) demo_played)) \<and>
   js_get (quizzesStore demo_played) demo_id = Own demo_quiz \<and>
   to_number (passing_score demo_quiz) = Some 1 \<and>
   (1::int) \<le> int (score (the (map_of (participantsStore demo_played) (participantKey ''alice'' demo_id))))"
proof -
  have h: "distribute_reward ''alice'' demo_id (Num 50) demo_played =
     (Inr (''alice'', Num 50), snd (distribute_reward ''alice'' demo_id (Num 50) demo_played))"
    by (simp add: demo_reward)
  have o: "js_get (quizzesStore demo_played) demo_id = Own demo_quiz"
    by (simp add: demo_played_def demo_play) (simp add: demo_defs)
  have n: "to_number (passing_score demo_quiz) = Some 1" by (simp add: demo_defs)
  from distribute_reward_requires_pass [OF h] o n
  have "1 \<le> int (score (the (map_of (participantsStore demo_played) (participantKey ''alice'' demo_id))))"
    by auto
  with h o n show ?thesis by simp
qed

text \<open>
  C27. A quiz created without a passing score never reports a pass, yet the reward route pays
  any attempt at it, a failed one included: the gate \<open>score < passing_score\<close> is false
  for \<open>undefined\<close>.
\<close>

theorem reward_without_passing_score:
  assumes q: "js_get (quizzesStore s) qid = Own q" and u: "passing_score q = Undef"
    and play: "play_quiz now qid p ans s = (Inr res, s')"
  shows "\<not> passed res \<and> fst (distribute_reward p qid a s') = Inr (p, a)"
proof -
  obtain q' where q': "js_get (quizzesStore s) qid = Own q'"
    and eq: "s' = s\<lparr>participantsStore :=
                  js_put (participantsStore s) (participantKey p qid)
                    (new_attempt now p qid ans (calculate_score (questions q') ans)),
                statsStore := record_play (calculate_score (questions q') ans) (statsStore s)\<rparr>"
    using play by (rule play_quiz_success_cases)
  from q q' have "q' = q" by simp
  have "\<not> passed res" using play q u by (auto simp: play_quiz_def Let_def split: if_splits)
  moreover have "fst (distribute_reward p qid a s') = Inr (p, a)"
    using eq q u by (simp add: distribute_reward_def Let_def new_attempt_def)
  ultimately show ?thesis by simp
qed

theorem reward_without_passing_score_witness:
  "js_get (quizzesStore demo_no_pass) demo_id = Own (demo_quiz\<lparr>passing_score := Undef\<rparr>) \<and>
   passing_score (demo_quiz\<lparr>passing_score := Undef\<rparr>) = Undef \<and>
   play_quiz 5 demo_id ''eve'' [Some 0, Some 1] demo_no_pass =
     (Inr \<lparr>result_score = 0, total_questions = 2, passed = False, reward_eligible = False,
           message = ''You did not pass this quiz''\<rparr>,
      snd (play_quiz 5 demo_id ''eve'' [Some 0, Some 1] demo_no_pass)) \<and>
   fst (distribute_reward ''eve'' demo_id (Num 50)
          (snd (play_quiz 5 demo_id ''eve'' [Some 0, Some 1] demo_no_pass))) = Inr (''eve'', Num 50)"
proof -
  have q: "js_get (quizzesStore demo_no_pass) demo_id = Own (demo_quiz\<lparr>passing_score := Undef\<rparr>)"
    by (simp add: demo_no_pass_def demo_defs)
  have u: "passing_score (demo_quiz\<lparr>passing_score := Undef\<rparr>) = Undef" by simp
  have p: "play_quiz 5 demo_id ''eve'' [Some 0, Some 1] demo_no_pass =
     (Inr \<lparr>result_score = 0, total_questions = 2, passed = False, reward_eligible = False,
           message = ''You did not pass this quiz''\<rparr>,
      snd (play_quiz 5 demo_id ''eve'' [Some 0, Some 1] demo_no_pass))"
    by (simp add: play_quiz_def demo_no_pass_def demo_defs calculate_score_def score_loop_count
        answer_matches_def pass_message_def js_get_def object_prototype_members_def)
  show ?thesis using reward_without_passing_score [OF q u p, of "Num 50"] q u p by simp
qed

text \<open>
  C28. The reward amount is not validated: a request without \<open>rewardAmount\<close> turns the
  distributed total into NaN for good, and \<open>null\<close> adds nothing.
\<close>

theorem reward_total_nan:
  assumes "distribute_reward p qid a s = (Inr res, s')"
  shows "(a = Undef \<longrightarrow> total_rewards_distributed (statsStore s') = None) \<and>
         (a = Null \<longrightarrow> total_rewards_distributed (statsStore s') = total_rewards_distributed (statsStore s)) \<and>
         (total_rewards_distributed (statsStore s) = None \<longrightarrow> total_rewards_distributed (statsStore s') = None)"
proof -
  obtain r where eq: "s' = s\<lparr>participantsStore :=
                  js_put (participantsStore s) (participantKey p qid) (r\<lparr>rewarded := True\<rparr>),
                statsStore := add_reward a (statsStore s)\<rparr>"
    using assms by (rule distribute_reward_success_cases)
  then show ?thesis by (cases "total_rewards_distributed (statsStore s)") (auto simp: add_reward_def)
qed

theorem reward_total_nan_witness:
  "distribute_reward ''alice'' demo_id Undef demo_played =
     (Inr (''alice'', Undef), snd (distribute_reward ''alice'' demo_id Undef demo_played)) \<and>
   total_rewards_distributed (statsStore (snd (distribute_reward ''alice'' demo_id Undef demo_played))) = None"
proof -
  have h: "distribute_reward ''alice'' demo_id Undef demo_played =
     (Inr (''alice'', Undef), snd (distribute_reward ''alice'' demo_id Undef demo_played))"
    by (simp add: demo_played_def demo_play distribute_reward_def add_reward_def)
       (simp add: demo_defs new_attempt_def)
  show ?thesis using reward_total_nan [OF h] h by simp
qed

end
