(* ===== verification/Api.thy ===== *)
theory Api
  imports QuizRoutes RewardRoute
begin

text \<open>
  The HTTP surface of \<open>src/backend/server.js\<close>: one request datatype with a constructor
  per route, the dispatcher \<open>handle\<close> that calls the route's handler with the clock
  reading of the request, and runs of requests. Node handles one request at a time and
  every handler here is synchronous, so an execution is a sequence of requests and
  \<open>reachable\<close> is the set of server states such a sequence produces from a fresh process.
  The invariant \<open>server_inv\<close> holds in every reachable state: store keys are distinct,
  quiz keys are decimal strings equal to the quiz's \<open>quiz_id\<close>, each participation
  record sits under the key of its own participant and quiz, the participant counter is
  the number of records, the quiz counter bounds the number of quizzes, and the highest
  score is the largest recorded score.
\<close>

datatype request =
    Health
  | GetQuizzes
  | GetQuiz string
  | CreateQuiz create_request
  | PlayQuiz string string "int option list"
  | GetParticipant string string
  | GetStats
  | ToggleStatus string
  | DistributeReward string string num_field

datatype payload =
    HealthOk
  | QuizList "quiz_view list" nat
  | QuizDetail quiz_view
  | QuizCreated string
  | ScoreReport score_result
  | AttemptRecord attempt
  | StatsSnapshot stats
  | StatusToggled string bool
  | RewardSent string num_field

primrec handle :: "nat \<Rightarrow> request \<Rightarrow> server \<Rightarrow> (error + payload) \<times> server" where
  "handle now Health s = (Inr HealthOk, s)"
| "handle now GetQuizzes s = (case get_quizzes s of (qs, n) \<Rightarrow> (Inr (QuizList qs n), s))"
| "handle now (GetQuiz qid) s = (map_sum id QuizDetail (get_quiz qid s), s)"
| "handle now (CreateQuiz req) s = apfst (map_sum id QuizCreated) (create_quiz now req s)"
| "handle now (PlayQuiz qid p ans) s =
     apfst (map_sum id ScoreReport) (play_quiz now qid p ans s)"
| "handle now (GetParticipant a qid) s = (Inr (AttemptRecord (get_participant a qid s)), s)"
| "handle now GetStats s = (Inr (StatsSnapshot (statsStore s)), s)"
| "handle now (ToggleStatus qid) s =
     apfst (map_sum id (\<lambda>(q, b). StatusToggled q b)) (toggle_status qid s)"
| "handle now (DistributeReward p qid a) s =
     apfst (map_sum id (\<lambda>(p, a). RewardSent p a)) (distribute_reward p qid a s)"

fun run :: "(nat \<times> request) list \<Rightarrow> server \<Rightarrow> (error + payload) list \<times> server" where
  "run [] s = ([], s)"
| "run ((t, r) # rs) s =
     (let (resp, s') = handle t r s; (resps, s'') = run rs s' in (resp # resps, s''))"

text \<open>
  The HTTP status of a response: the error's status (\<open>status_code\<close>), \<open>201\<close> for a
  created quiz (\<open>res.status(201)\<close>, line 93), and the default \<open>200\<close> of \<open>res.json\<close>.
\<close>

definition response_status :: "request \<Rightarrow> error + payload \<Rightarrow> nat" where
  "response_status r resp =
     (case resp of
        Inl e \<Rightarrow> status_code e
      | Inr _ \<Rightarrow> (case r of CreateQuiz _ \<Rightarrow> 201 | _ \<Rightarrow> 200))"

inductive reachable :: "server \<Rightarrow> bool" where
  init: "reachable init_server"
| step: "reachable s \<Longrightarrow> reachable (snd (handle t r s))"

section \<open>The server invariant\<close>

definition quiz_entry_ok :: "string \<times> quiz \<Rightarrow> bool" where
  "quiz_entry_ok e \<longleftrightarrow> is_decimal (fst e) \<and> quiz_id (snd e) = fst e"

definition attempt_entry_ok :: "string \<times> attempt \<Rightarrow> bool" where
  "attempt_entry_ok e \<longleftrightarrow>
     fst e = participantKey (address (snd e)) (attempt_quiz_id (snd e)) \<and>
     is_decimal (attempt_quiz_id (snd e)) \<and> score (snd e) \<le> length (answers (snd e))"

definition max_score :: "attempt js_object \<Rightarrow> nat" where
  "max_score parts = fold max (map (\<lambda>p. score (snd p)) parts) 0"

definition server_inv :: "server \<Rightarrow> bool" where
  "server_inv s \<longleftrightarrow>
     distinct (map fst (quizzesStore s)) \<and> list_all quiz_entry_ok (quizzesStore s) \<and>
     distinct (map fst (participantsStore s)) \<and>
     list_all attempt_entry_ok (participantsStore s) \<and>
     total_participants (statsStore s) = length (participantsStore s) \<and>
     length (quizzesStore s) \<le> total_quizzes (statsStore s) \<and>
     highest_score (statsStore s) = max_score (participantsStore s) \<and>
     dom (builtin_is_active s) \<subseteq> set object_prototype_members"

lemma max_score_snoc [simp]: "max_score (parts @ [(k, r)]) = max (max_score parts) (score r)"
  by (simp add: max_score_def max.commute)

lemma server_inv_init: "server_inv init_server"
  by (simp add: server_inv_def init_server_def init_stats_def max_score_def)

lemma server_invI:
  assumes "distinct (map fst (quizzesStore s))" and "list_all quiz_entry_ok (quizzesStore s)"
    and "distinct (map fst (participantsStore s))"
    and "list_all attempt_entry_ok (participantsStore s)"
    and "total_participants (statsStore s) = length (participantsStore s)"
    and "length (quizzesStore s) \<le> total_quizzes (statsStore s)"
    and "highest_score (statsStore s) = max_score (participantsStore s)"
    and "dom (builtin_is_active s) \<subseteq> set object_prototype_members"
  shows "server_inv s"
  using assms unfolding server_inv_def by blast

lemmas server_invD = server_inv_def [THEN iffD1, THEN conjunct1]
  server_inv_def [THEN iffD1, THEN conjunct2, THEN conjunct1]
  server_inv_def [THEN iffD1, THEN conjunct2, THEN conjunct2, THEN conjunct1]
  server_inv_def [THEN iffD1, THEN conjunct2, THEN conjunct2, THEN conjunct2, THEN conjunct1]
  server_inv_def [THEN iffD1, THEN conjunct2, THEN conjunct2, THEN conjunct2, THEN conjunct2,
    THEN conjunct1]
  server_inv_def [THEN iffD1, THEN conjunct2, THEN conjunct2, THEN conjunct2, THEN conjunct2,
    THEN conjunct2, THEN conjunct1]
  server_inv_def [THEN iffD1, THEN conjunct2, THEN conjunct2, THEN conjunct2, THEN conjunct2,
    THEN conjunct2, THEN conjunct2, THEN conjunct1]
  server_inv_def [THEN iffD1, THEN conjunct2, THEN conjunct2, THEN conjunct2, THEN conjunct2,
    THEN conjunct2, THEN conjunct2, THEN conjunct2]

lemma own_quiz_decimal:
  "list_all quiz_entry_ok qs \<Longrightarrow> map_of qs qid = Some q \<Longrightarrow> is_decimal qid \<and> quiz_id q = qid"
  by (auto simp: list_all_iff quiz_entry_ok_def dest!: map_of_SomeD)

lemma map_of_key: "map_of obj k = Some v \<Longrightarrow> k \<in> fst ` set obj"
  by (auto dest: map_of_SomeD intro: rev_image_eqI)

lemma list_all_js_put:
  "list_all P obj \<Longrightarrow> P (k, v) \<Longrightarrow> list_all P (js_put obj k v)"
  using js_put_all [of obj P k v] by (simp add: list_all_iff)

lemma create_quiz_inv:
  assumes inv: "server_inv s" shows "server_inv (snd (create_quiz now req s))"
proof (cases "fst (create_quiz now req s)")
  case (Inl e)
  then have "create_quiz now req s = (Inl e, snd (create_quiz now req s))"
    by (metis prod.collapse)
  then have "snd (create_quiz now req s) = s" by (rule create_quiz_error_unchanged)
  with inv show ?thesis by simp
next
  case (Inr qid)
  then have valid: "req_title req \<noteq> [] \<and> req_questions req \<noteq> [] \<and>
    \<not> js_less (Some (int (length (req_questions req)))) (to_number (req_passing_score req))"
    by (simp add: create_quiz_def split: if_splits)
  let ?qs = "js_put (quizzesStore s) (decimal now) (new_quiz now req)"
  have eq: "snd (create_quiz now req s) =
      s\<lparr>quizzesStore := ?qs,
        statsStore := (statsStore s)\<lparr>total_quizzes := Suc (total_quizzes (statsStore s))\<rparr>\<rparr>"
    using valid by (simp add: create_quiz_valid_input)
  have "list_all quiz_entry_ok ?qs"
    using server_invD(2) [OF inv]
    by (rule list_all_js_put) (simp add: quiz_entry_ok_def new_quiz_def)
  moreover have "length ?qs \<le> Suc (total_quizzes (statsStore s))"
    using server_invD(6) [OF inv] by (simp add: length_js_put)
  moreover have "distinct (map fst ?qs)"
    using server_invD(1) [OF inv] by simp
  ultimately show ?thesis
    unfolding eq using server_invD [OF inv] by (intro server_invI) simp_all
qed

lemma toggle_status_inv:
  assumes inv: "server_inv s" shows "server_inv (snd (toggle_status qid s))"
proof (cases "js_get (quizzesStore s) qid")
  case (Own q)
  then have q: "map_of (quizzesStore s) qid = Some q"
    by (auto simp: js_get_def split: option.splits if_splits)
  let ?qs = "js_put (quizzesStore s) qid (q\<lparr>is_active := \<not> is_active q\<rparr>)"
  have eq: "snd (toggle_status qid s) = s\<lparr>quizzesStore := ?qs\<rparr>"
    using q by (simp add: toggle_own)
  have "is_decimal qid \<and> quiz_id q = qid"
    using server_invD(2) [OF inv] q by (rule own_quiz_decimal)
  then have "list_all quiz_entry_ok ?qs"
    using server_invD(2) [OF inv]
    by (intro list_all_js_put) (simp_all add: quiz_entry_ok_def)
  moreover have "length ?qs = length (quizzesStore s)"
    using map_of_key [OF q] by (simp add: length_js_put)
  moreover have "distinct (map fst ?qs)"
    using server_invD(1) [OF inv] by simp
  ultimately show ?thesis
    unfolding eq using server_invD [OF inv] by (intro server_invI) simp_all
next
  case (Inherited n)
  then have n: "n \<in> set object_prototype_members"
    by (auto simp: js_get_def split: option.splits if_splits)
  have "snd (toggle_status qid s) =
      s\<lparr>builtin_is_active := (builtin_is_active s)
         (n \<mapsto> \<not> js_truthy (proto_read (builtin_is_active s) n))\<rparr>"
    using Inherited by (simp add: toggle_status_def Let_def)
  then show ?thesis
    using server_invD [OF inv] n by (intro server_invI) simp_all
next
  case Absent
  with inv show ?thesis by (simp add: toggle_status_def)
qed

lemma play_quiz_inv:
  assumes inv: "server_inv s" shows "server_inv (snd (play_quiz now qid p ans s))"
proof (cases "fst (play_quiz now qid p ans s)")
  case (Inl e)
  then have "play_quiz now qid p ans s = (Inl e, snd (play_quiz now qid p ans s))"
    by (metis prod.collapse)
  then have "snd (play_quiz now qid p ans s) = s" by (rule play_quiz_error_unchanged)
  with inv show ?thesis by simp
next
  case (Inr res)
  then have "play_quiz now qid p ans s = (Inr res, snd (play_quiz now qid p ans s))"
    by (metis prod.collapse)
  then obtain q where q: "js_get (quizzesStore s) qid = Own q"
    and len: "length ans = length (questions q)"
    and fresh: "map_of (participantsStore s) (participantKey p qid) = None"
    and eq: "snd (play_quiz now qid p ans s) =
      s\<lparr>participantsStore :=
          js_put (participantsStore s) (participantKey p qid)
            (new_attempt now p qid ans (calculate_score (questions q) ans)),
        statsStore := record_play (calculate_score (questions q) ans) (statsStore s)\<rparr>"
    by (rule play_quiz_success_cases)
  let ?sc = "calculate_score (questions q) ans"
  let ?r = "new_attempt now p qid ans ?sc"
  have dec: "is_decimal qid"
    using own_quiz_decimal [OF server_invD(2) [OF inv]] q by (simp add: js_get_Own_iff)
  have "participantKey p qid \<notin> fst ` set (participantsStore s)"
    using fresh by (simp add: map_of_eq_None_iff)
  then have app: "js_put (participantsStore s) (participantKey p qid) ?r =
      participantsStore s @ [(participantKey p qid, ?r)]"
    by (rule js_put_absent)
  have "attempt_entry_ok (participantKey p qid, ?r)"
    using dec score_le_answers [of "questions q" ans]
    by (simp add: attempt_entry_ok_def new_attempt_def)
  then have "list_all attempt_entry_ok (participantsStore s @ [(participantKey p qid, ?r)])"
    using server_invD(4) [OF inv] by simp
  moreover have "distinct (map fst (participantsStore s @ [(participantKey p qid, ?r)]))"
    using server_invD(3) [OF inv] fresh by (simp add: map_of_eq_None_iff)
  moreover have "highest_score (record_play ?sc (statsStore s)) =
      max_score (participantsStore s @ [(participantKey p qid, ?r)])"
    using server_invD(7) [OF inv] by (simp add: record_play_def new_attempt_def max_def)
  ultimately show ?thesis
    unfolding eq app using server_invD [OF inv]
    by (intro server_invI) (simp_all add: record_play_def)
qed

lemma distribute_reward_inv:
  assumes inv: "server_inv s" shows "server_inv (snd (distribute_reward p qid a s))"
proof (cases "fst (distribute_reward p qid a s)")
  case (Inl e)
  then have "distribute_reward p qid a s = (Inl e, snd (distribute_reward p qid a s))"
    by (metis prod.collapse)
  then have "snd (distribute_reward p qid a s) = s" by (rule distribute_reward_error_unchanged)
  with inv show ?thesis by simp
next
  case (Inr res)
  then have "distribute_reward p qid a s = (Inr res, snd (distribute_reward p qid a s))"
    by (metis prod.collapse)
  then obtain r where r: "map_of (participantsStore s) (participantKey p qid) = Some r"
    and eq: "snd (distribute_reward p qid a s) =
      s\<lparr>participantsStore :=
          js_put (participantsStore s) (participantKey p qid) (r\<lparr>rewarded := True\<rparr>),
        statsStore := add_reward a (statsStore s)\<rparr>"
    by (rule distribute_reward_success_cases)
  let ?ps = "js_put (participantsStore s) (participantKey p qid) (r\<lparr>rewarded := True\<rparr>)"
  have "attempt_entry_ok (participantKey p qid, r)"
    using server_invD(4) [OF inv] map_of_SomeD [OF r] by (simp add: list_all_iff)
  then have "list_all attempt_entry_ok ?ps"
    using server_invD(4) [OF inv] by (intro list_all_js_put) (simp_all add: attempt_entry_ok_def)
  moreover have "length ?ps = length (participantsStore s)"
    using map_of_key [OF r] by (simp add: length_js_put)
  moreover have "max_score ?ps = max_score (participantsStore s)"
    unfolding max_score_def using map_js_put_frame [OF r, of score] by simp
  moreover have "distinct (map fst ?ps)"
    using server_invD(3) [OF inv] by simp
  ultimately show ?thesis
    unfolding eq using server_invD [OF inv]
    by (intro server_invI) (simp_all add: add_reward_def)
qed

lemma handle_inv:
  assumes inv: "server_inv s" shows "server_inv (snd (handle now r s))"
proof (cases r)
  case (CreateQuiz req)
  have "snd (handle now r s) = snd (create_quiz now req s)"
    using CreateQuiz by (simp add: apfst_def map_prod_def split_beta)
  then show ?thesis using create_quiz_inv [OF inv] by simp
next
  case (PlayQuiz qid p ans)
  have "snd (handle now r s) = snd (play_quiz now qid p ans s)"
    using PlayQuiz by (simp add: apfst_def map_prod_def split_beta)
  then show ?thesis using play_quiz_inv [OF inv] by simp
next
  case (ToggleStatus qid)
  have "snd (handle now r s) = snd (toggle_status qid s)"
    using ToggleStatus by (simp add: apfst_def map_prod_def split_beta)
  then show ?thesis using toggle_status_inv [OF inv] by simp
next
  case (DistributeReward p qid a)
  have "snd (handle now r s) = snd (distribute_reward p qid a s)"
    using DistributeReward by (simp add: apfst_def map_prod_def split_beta)
  then show ?thesis using distribute_reward_inv [OF inv] by simp
qed (insert inv, simp_all add: split_beta)

lemma reachable_server_inv: "reachable s \<Longrightarrow> server_inv s"
proof (induction rule: reachable.induct)
  case init
  show ?case by (rule server_inv_init)
next
  case (step s t r)
  from step.IH show ?case by (rule handle_inv)
qed

lemma fold_max_ge_acc: "(a::nat) \<le> fold max xs a"
proof (induction xs arbitrary: a)
  case Nil
  then show ?case by simp
next
  case (Cons y xs)
  have "a \<le> max y a" by simp
  also have "\<dots> \<le> fold max xs (max y a)" by (rule Cons.IH)
  finally show ?case by simp
qed

lemma fold_max_ge: "x \<in> set xs \<Longrightarrow> (x::nat) \<le> fold max xs a"
proof (induction xs arbitrary: a)
  case Nil
  then show ?case by simp
next
  case (Cons y xs)
  then show ?case using fold_max_ge_acc [of "max y a" xs] by auto
qed

lemma fold_max_mem: "fold max xs (a::nat) \<in> insert a (set xs)"
proof (induction xs arbitrary: a)
  case Nil
  then show ?case by simp
next
  case (Cons y xs)
  from Cons.IH [of "max y a"] show ?case by (auto simp: max_def split: if_splits)
qed

lemma max_score_ge: "e \<in> set parts \<Longrightarrow> score (snd e) \<le> max_score parts"
  unfolding max_score_def by (rule fold_max_ge) simp

lemma max_score_attained:
  assumes "parts \<noteq> []" shows "\<exists>e \<in> set parts. score (snd e) = max_score parts"
proof (cases "max_score parts = 0")
  case True
  from assms obtain e where e: "e \<in> set parts" by (cases parts) auto
  with True max_score_ge [OF e] show ?thesis by force
next
  case False
  then have "max_score parts \<in> set (map (\<lambda>p. score (snd p)) parts)"
    using fold_max_mem [of "map (\<lambda>p. score (snd p)) parts" 0] by (simp add: max_score_def)
  then show ?thesis by force
qed

lemma reachable_demo_server: "reachable demo_server"
proof -
  have "reachable (snd (handle 1700000000000 (CreateQuiz demo_request) init_server))"
    by (rule reachable.step [OF reachable.init])
  moreover have "decimal 1700000000000 = demo_id"
    by (simp add: decimal_large digit_char_def demo_id_def)
  ultimately show ?thesis
    by (simp add: create_quiz_def new_quiz_def demo_defs)
qed

lemma reachable_demo_played: "reachable demo_played"
proof -
  have "reachable (snd (handle 5 (PlayQuiz demo_id ''alice'' [Some 1, Some 1]) demo_server))"
    by (rule reachable.step [OF reachable_demo_server])
  then show ?thesis by (simp add: demo_played_def apfst_def map_prod_def split_beta)
qed

text \<open>
  C5. In every state the server can reach, the participant counter equals the number of
  stored attempts, the quiz counter is at least the number of stored quizzes, and the
  highest score is the largest stored score (0 before any play).
\<close>

lemma handle_keeps_participants:
  assumes "map_of (participantsStore s) k \<noteq> None"
  shows "map_of (participantsStore (snd (handle now r s))) k \<noteq> None"
proof (cases r)
  case (PlayQuiz qid p ans)
  obtain resp s' where eq: "play_quiz now qid p ans s = (resp, s')" by (cases "play_quiz now qid p ans s")
  have "map_of (participantsStore s') k \<noteq> None"
  proof (cases resp)
    case (Inl e) then show ?thesis using eq assms by (auto dest: play_quiz_error_unchanged)
  next
    case (Inr res)
    obtain q where "js_get (quizzesStore s) qid = Own q" and "is_active q"
      and "length ans = length (questions q)"
      and "map_of (participantsStore s) (participantKey p qid) = None"
      and s': "s' = s\<lparr>participantsStore :=
        js_put (participantsStore s) (participantKey p qid)
          (new_attempt now p qid ans (calculate_score (questions q) ans)),
        statsStore := record_play (calculate_score (questions q) ans) (statsStore s)\<rparr>"
      and "result_score res = calculate_score (questions q) ans"
      using eq [unfolded Inr] by (rule play_quiz_success_cases)
    then show ?thesis using assms s' by simp
  qed
  then show ?thesis using PlayQuiz eq by (simp add: apfst_def map_prod_def)
next
  case (DistributeReward p qid a)
  obtain resp s' where eq: "distribute_reward p qid a s = (resp, s')" by (cases "distribute_reward p qid a s")
  have "map_of (participantsStore s') k \<noteq> None"
  proof (cases resp)
    case (Inl e) then show ?thesis using eq assms by (auto dest: distribute_reward_error_unchanged)
  next
    case (Inr res)
    with eq obtain rc where "s' = s\<lparr>participantsStore :=
        js_put (participantsStore s) (participantKey p qid) (rc\<lparr>rewarded := True\<rparr>),
        statsStore := add_reward a (statsStore s)\<rparr>"
      by (auto elim: distribute_reward_success_cases)
    then show ?thesis using assms by simp
  qed
  then show ?thesis using DistributeReward eq by (simp add: apfst_def map_prod_def)
next
  case (CreateQuiz req) then show ?thesis using assms
    by (simp add: create_quiz_def apfst_def map_prod_def split_beta)
next
  case (ToggleStatus qid) then show ?thesis using assms
    by (simp add: toggle_status_def Let_def apfst_def map_prod_def split_beta split: js_prop.split)
qed (simp_all add: assms split_beta)

theorem reachable_counters:
  assumes "reachable s"
  shows "total_participants (statsStore s) = length (participantsStore s) \<and>
         length (quizzesStore s) \<le> total_quizzes (statsStore s) \<and>
         (\<forall>e \<in> set (participantsStore s). score (snd e) \<le> highest_score (statsStore s)) \<and>
         (participantsStore s \<noteq> [] \<longrightarrow>
            (\<exists>e \<in> set (participantsStore s). score (snd e) = highest_score (statsStore s)))"
proof -
  have inv: "server_inv s" using assms by (rule reachable_server_inv)
  note h = server_invD(7) [OF inv]
  show ?thesis using server_invD(5,6) [OF inv] max_score_ge max_score_attained
    by (simp add: h)
qed

theorem reachable_counters_witness:
  "reachable demo_played \<and> total_participants (statsStore demo_played) = 1 \<and>
   highest_score (statsStore demo_played) = 1"
proof -
  note c = reachable_counters [OF reachable_demo_played]
  have "length (participantsStore demo_played) = 1" by (simp add: demo_played_def demo_play)
  moreover have "highest_score (statsStore demo_played) = 1"
    by (simp add: demo_played_def demo_play)
  ultimately show ?thesis using c reachable_demo_played by simp
qed

text \<open>
  In every reachable state, two stored attempts by the same participant at the same quiz
  are the same entry: the store never holds two attempts for one pair.
\<close>

theorem at_most_one_attempt:
  assumes "reachable s" and "e1 \<in> set (participantsStore s)" and "e2 \<in> set (participantsStore s)"
    and "address (snd e1) = address (snd e2)"
    and "attempt_quiz_id (snd e1) = attempt_quiz_id (snd e2)"
  shows "e1 = e2"
proof -
  have inv: "server_inv s" using assms(1) by (rule reachable_server_inv)
  have "fst e1 = fst e2"
    using server_invD(4) [OF inv] assms(2-5) by (auto simp: list_all_iff attempt_entry_ok_def)
  moreover have "inj_on fst (set (participantsStore s))"
    using server_invD(3) [OF inv] by (simp add: distinct_map)
  ultimately show ?thesis using assms(2,3) by (auto dest: inj_onD)
qed

theorem at_most_one_attempt_witness:
  "reachable demo_played \<and>
   (participantKey ''alice'' demo_id, new_attempt 5 ''alice'' demo_id [Some 1, Some 1] 1)
     \<in> set (participantsStore demo_played)"
proof -
  have m: "(participantKey ''alice'' demo_id, new_attempt 5 ''alice'' demo_id [Some 1, Some 1] 1)
     \<in> set (participantsStore demo_played)" by (simp add: demo_played_def demo_play)
  from at_most_one_attempt [OF reachable_demo_played m m refl refl]
  show ?thesis using m reachable_demo_played by simp
qed

lemma play_quiz_keeps_attempt:
  assumes "play_quiz now qid p ans s = (resp, s')" "map_of (participantsStore s) k = Some a"
  shows "map_of (participantsStore s') k = Some a"
proof (cases resp)
  case (Inl e) then show ?thesis using assms by (auto dest: play_quiz_error_unchanged)
next
  case (Inr res)
  with assms(1) have p: "play_quiz now qid p ans s = (Inr res, s')" by simp
  then show ?thesis using assms(2)
    by (auto simp: play_quiz_def Let_def js_has_plain split: js_prop.splits if_splits)
qed

lemma distribute_reward_marks_only:
  assumes "distribute_reward p qid amt s = (resp, s')" "map_of (participantsStore s) k = Some a"
  shows "map_of (participantsStore s') k = Some a \<or> map_of (participantsStore s') k = Some (a\<lparr>rewarded := True\<rparr>)"
  using assms by (auto simp: distribute_reward_def Let_def split: option.splits if_splits)

text \<open>
  C6. No request overwrites a stored attempt: once a participation record is stored under a
  key, every route leaves that key holding the same record, except that the reward route
  may mark it rewarded. In particular a second play can never replace the first score,
  answers or timestamp, and a payout never resets a record.
\<close>

theorem attempt_never_overwritten:
  assumes "handle now r s = (resp, s')" "map_of (participantsStore s) k = Some a"
  shows "map_of (participantsStore s') k = Some a \<or>
         map_of (participantsStore s') k = Some (a\<lparr>rewarded := True\<rparr>)"
proof (cases r)
  case (PlayQuiz qid p ans)
  then show ?thesis using assms
    by (cases "play_quiz now qid p ans s") (auto dest: play_quiz_keeps_attempt)
next
  case (DistributeReward p qid amt)
  then show ?thesis using assms
    by (cases "distribute_reward p qid amt s") (auto dest: distribute_reward_marks_only)
next
  case (CreateQuiz req)
  then show ?thesis using assms by (auto simp: create_quiz_def split: if_splits)
next
  case (ToggleStatus qid)
  then show ?thesis using assms
    by (auto simp: toggle_status_def Let_def split: js_prop.splits)
qed (use assms in \<open>auto split: prod.splits\<close>)

theorem attempt_never_overwritten_witness:
  "map_of (participantsStore demo_played) (participantKey ''alice'' demo_id) =
     Some (new_attempt 5 ''alice'' demo_id [Some 1, Some 1] 1) \<and>
   (map_of (participantsStore (snd (handle 9 (PlayQuiz demo_id ''alice'' [Some 0, Some 0]) demo_played)))
      (participantKey ''alice'' demo_id) = Some (new_attempt 5 ''alice'' demo_id [Some 1, Some 1] 1) \<or>
    map_of (participantsStore (snd (handle 9 (PlayQuiz demo_id ''alice'' [Some 0, Some 0]) demo_played)))
      (participantKey ''alice'' demo_id) =
      Some ((new_attempt 5 ''alice'' demo_id [Some 1, Some 1] 1)\<lparr>rewarded := True\<rparr>))"
proof -
  have m: "map_of (participantsStore demo_played) (participantKey ''alice'' demo_id) =
     Some (new_attempt 5 ''alice'' demo_id [Some 1, Some 1] 1)" by (simp add: demo_played_def demo_play)
  show ?thesis
    using attempt_never_overwritten [where now = 9 and r = "PlayQuiz demo_id ''alice'' [Some 0, Some 0]",
        OF prod.collapse [symmetric] m] m by simp
qed

text \<open>
  C7. In every reachable state, the record found under the key of a participant and a quiz id
  without a dash (every id the server creates) belongs to that participant and quiz, and
  its score is at most its answer count.
\<close>

theorem record_under_own_key:
  assumes "reachable s" and "map_of (participantsStore s) (participantKey a q) = Some r"
    and "CHR ''-'' \<notin> set q"
  shows "address r = a \<and> attempt_quiz_id r = q \<and> score r \<le> length (answers r)"
proof -
  have inv: "server_inv s" using assms(1) by (rule reachable_server_inv)
  have "attempt_entry_ok (participantKey a q, r)"
    using server_invD(4) [OF inv] map_of_SomeD [OF assms(2)] by (simp add: list_all_iff)
  then have k: "participantKey a q = participantKey (address r) (attempt_quiz_id r)"
    and d: "is_decimal (attempt_quiz_id r)" and sc: "score r \<le> length (answers r)"
    by (simp_all add: attempt_entry_ok_def)
  from participantKey_inj [OF k assms(3) is_decimal_no_dash [OF d]] sc show ?thesis by simp
qed

theorem record_under_own_key_witness:
  "reachable demo_played \<and>
   map_of (participantsStore demo_played) (participantKey ''alice'' demo_id) =
     Some (new_attempt 5 ''alice'' demo_id [Some 1, Some 1] 1) \<and>
   CHR ''-'' \<notin> set demo_id"
proof -
  have m: "map_of (participantsStore demo_played) (participantKey ''alice'' demo_id) =
     Some (new_attempt 5 ''alice'' demo_id [Some 1, Some 1] 1)" by (simp add: demo_played_def demo_play)
  have d: "CHR ''-'' \<notin> set demo_id" by (simp add: demo_id_def)
  from record_under_own_key [OF reachable_demo_played m d] show ?thesis
    using m d reachable_demo_played by simp
qed

text \<open>
  C8. No refused request changes the server state: every error response of every route is
  produced before any mutation.
\<close>

theorem handle_error_preserves_state:
  assumes err: "fst (handle now r s) = Inl e"
  shows "snd (handle now r s) = s"
proof (cases r)
  case (CreateQuiz req)
  obtain a b where eq: "create_quiz now req s = (a, b)" by (cases "create_quiz now req s")
  with CreateQuiz err have "a = Inl e" by (cases a) (simp_all add: apfst_def map_prod_def)
  with eq have "b = s" by (blast dest: create_quiz_error_unchanged)
  with eq CreateQuiz show ?thesis by (simp add: apfst_def map_prod_def)
next
  case (PlayQuiz qid p ans)
  obtain a b where eq: "play_quiz now qid p ans s = (a, b)" by (cases "play_quiz now qid p ans s")
  with PlayQuiz err have "a = Inl e" by (cases a) (simp_all add: apfst_def map_prod_def)
  with eq have "b = s" by (blast dest: play_quiz_error_unchanged)
  with eq PlayQuiz show ?thesis by (simp add: apfst_def map_prod_def)
next
  case (ToggleStatus qid)
  obtain a b where eq: "toggle_status qid s = (a, b)" by (cases "toggle_status qid s")
  with ToggleStatus err have "a = Inl e" by (cases a) (auto simp: apfst_def map_prod_def)
  with eq have "b = s" by (blast dest: toggle_status_error_unchanged)
  with eq ToggleStatus show ?thesis by (simp add: apfst_def map_prod_def)
next
  case (DistributeReward p qid a')
  obtain a b where eq: "distribute_reward p qid a' s = (a, b)"
    by (cases "distribute_reward p qid a' s")
  with DistributeReward err have "a = Inl e" by (cases a) (auto simp: apfst_def map_prod_def)
  with eq have "b = s" by (blast dest: distribute_reward_error_unchanged)
  with eq DistributeReward show ?thesis by (simp add: apfst_def map_prod_def)
qed (simp_all add: split_beta)

theorem handle_error_preserves_state_witness:
  "fst (handle 5 (PlayQuiz demo_id ''alice'' [Some 0, Some 0]) demo_played) = Inl AlreadyPlayed \<and>
   snd (handle 5 (PlayQuiz demo_id ''alice'' [Some 0, Some 0]) demo_played) = demo_played"
proof -
  have h: "fst (handle 5 (PlayQuiz demo_id ''alice'' [Some 0, Some 0]) demo_played) = Inl AlreadyPlayed"
    by (simp add: demo_played_def demo_play apfst_def map_prod_def) (simp add: play_quiz_def demo_defs)
  show ?thesis using handle_error_preserves_state [OF h] h by simp
qed

text \<open>
  The participant key is not injective: the lookup for participant \<open>a\<close> at quiz
  \<open>b-<id>\<close> returns the attempt of participant \<open>a-b\<close> at quiz \<open><id>\<close>.
\<close>

theorem participant_key_collision:
  "participantKey ''a-b'' demo_id = participantKey ''a'' (''b-'' @ demo_id) \<and>
   get_participant ''a'' (''b-'' @ demo_id)
       (snd (play_quiz 5 demo_id ''a-b'' [Some 1, Some 1] demo_server)) =
     new_attempt 5 ''a-b'' demo_id [Some 1, Some 1] 1"
  by (simp add: participantKey_def get_participant_def demo_play)

text \<open>
  Every response carries one of the statuses the API documents, 200 or 201 for a
  success and 400, 404 or 500 for an error, and its status is a 2xx exactly when the
  route succeeded.
\<close>

lemma response_status_range:
  "response_status r resp \<in> {200, 201, 400, 404, 500} \<and>
   (200 \<le> response_status r resp \<and> response_status r resp \<le> 299 \<longleftrightarrow> (\<exists>d. resp = Inr d))"
proof (cases resp)
  case (Inl e) then show ?thesis by (cases e) (simp_all add: response_status_def)
next
  case (Inr d) then show ?thesis by (cases r) (simp_all add: response_status_def)
qed

end
