(* ===== verification/ApiClient.thy ===== *)
theory ApiClient
  imports Api
begin

text \<open>
  The browser's API client, \<open>src/frontend/js/api.js\<close>. Each method of \<open>quizAPI\<close>
  (lines 30--63) is one HTTP request of the route table (\<open>quiz_api\<close>), and
  \<open>apiCall\<close> (lines 4--27) turns the server's answer into \<open>{data, ok: true}\<close> for a
  2xx status and otherwise throws \<open>HTTP error! status: N\<close> and returns that message as
  \<open>response.data.error\<close> (\<open>api_call\<close>). \<open>client_request\<close> composes the client
  with the server: the frontend's view of one request. Network failures, which take the
  same error path, are outside the model.
\<close>

datatype client_call =
    GetQuizzesCall
  | GetQuizCall string
  | CreateQuizCall create_request
  | PlayQuizCall string string "int option list"
  | GetParticipantScoreCall string string
  | GetStatsCall
  | ToggleQuizStatusCall string
  | DistributeRewardCall string string num_field

primrec quiz_api :: "client_call \<Rightarrow> request" where
  "quiz_api GetQuizzesCall = GetQuizzes"
| "quiz_api (GetQuizCall qid) = GetQuiz qid"
| "quiz_api (CreateQuizCall d) = CreateQuiz d"
| "quiz_api (PlayQuizCall qid p ans) = PlayQuiz qid p ans"
| "quiz_api (GetParticipantScoreCall a qid) = GetParticipant a qid"
| "quiz_api GetStatsCall = GetStats"
| "quiz_api (ToggleQuizStatusCall qid) = ToggleStatus qid"
| "quiz_api (DistributeRewardCall p qid a) = DistributeReward p qid a"

datatype api_result = ApiOk payload | ApiError string

definition api_call :: "error + payload \<Rightarrow> api_result" where
  "api_call r =
     (case r of
        Inr data \<Rightarrow> ApiOk data
      | Inl e \<Rightarrow> ApiError (''HTTP error! status: '' @ decimal (status_code e)))"

definition client_request :: "nat \<Rightarrow> client_call \<Rightarrow> server \<Rightarrow> api_result \<times> server" where
  "client_request now c s = apfst api_call (handle now (quiz_api c) s)"

section \<open>Properties\<close>

lemma api_call_ok_iff: "(\<exists>d. api_call r = ApiOk d) \<longleftrightarrow> (\<exists>d. r = Inr d)"
  by (cases r) (simp_all add: api_call_def)

lemma client_request_state: "snd (client_request now c s) = snd (handle now (quiz_api c) s)"
  by (simp add: client_request_def apfst_def map_prod_def split_beta)

text \<open>
  The client reports success exactly when the server answers a 2xx status, with the
  server's body; a client request changes the server state exactly as the route does.
\<close>

theorem client_request_faithful:
  "(client_request now c s = (ApiOk d, s')) \<longleftrightarrow> (handle now (quiz_api c) s = (Inr d, s'))"
  by (cases "handle now (quiz_api c) s", rename_tac r t, case_tac r)
    (auto simp: client_request_def api_call_def)

text \<open>
  The client drops the server's error text: two errors with the same status code reach
  the user as the same message, so a repeated play and a wrong answer count are
  indistinguishable in the browser.
\<close>

theorem client_error_hides_reason:
  "status_code e1 = status_code e2 \<Longrightarrow> api_call (Inl e1) = api_call (Inl e2)"
  by (simp add: api_call_def)

theorem client_error_hides_reason_witness:
  "status_code AlreadyPlayed = status_code AnswerCountMismatch \<and>
   api_call (Inl AlreadyPlayed) = ApiError ''HTTP error! status: 400'' \<and>
   api_call (Inl AnswerCountMismatch) = ApiError ''HTTP error! status: 400''"
proof -
  have h: "status_code AlreadyPlayed = status_code AnswerCountMismatch" by simp
  have "api_call (Inl AlreadyPlayed) = ApiError ''HTTP error! status: 400''"
    by (simp add: api_call_def decimal_large digit_char_def)
  with client_error_hides_reason [OF h] h show ?thesis by simp
qed

text \<open>
  C20. \<open>api_call\<close> is what \<open>apiCall\<close> does with an HTTP response: \<open>{data, ok: true}\<close>
  with the body when \<open>response.ok\<close> (a status from 200 to 299), and otherwise the error
  \<open>HTTP error! status: N\<close> of the response's status.
\<close>

theorem api_call_http:
  "api_call resp =
     (if 200 \<le> response_status r resp \<and> response_status r resp \<le> 299 then ApiOk (projr resp)
      else ApiError (''HTTP error! status: '' @ decimal (response_status r resp)))"
proof (cases resp)
  case (Inl e) then show ?thesis by (cases e) (simp_all add: response_status_def api_call_def)
next
  case (Inr d) then show ?thesis by (cases r) (simp_all add: response_status_def api_call_def)
qed

end
