(* ===== verification/QuizPlayer.thy ===== *)
theory QuizPlayer
  imports ApiClient
begin

text \<open>
  The quiz player of \<open>src/frontend/js/components.js\<close> (lines 78--271). Its state
  (\<open>player_state\<close>, lines 79--85) holds the quiz view fetched from the server, one
  answer slot per question (\<open>null\<close> until chosen), the index of the shown question, and
  the result once submitted. \<open>player_load\<close> is \<open>render\<close> (87--110); the events a
  rendered page offers are choosing an option of the shown question (line 133), clicking a
  question dot (147, \<open>goToQuestion\<close>), and the previous and next buttons
  (\<open>previousQuestion\<close>, \<open>nextQuestion\<close>); the submit button (153--155) is shown on
  the last question and enabled when no answer is \<open>null\<close>, and \<open>player_submit\<close>
  (\<open>submitQuiz\<close>, 251--271) posts the answers through the client and keeps the result.
  \<open>render_result\<close> is the result page (\<open>renderResult\<close>, 192--230), and
  \<open>player_run\<close> a run of offered events, used to show that every loaded quiz can be
  completed. The page's DOM is not modelled, only the decisions the code takes from this state.
\<close>

record player_state =
  pl_quiz :: "quiz_view option"
  pl_answers :: "int option list"
  pl_current :: nat
  pl_submitted :: bool
  pl_result :: "score_result option"

definition player_init :: player_state where
  "player_init =
     \<lparr>pl_quiz = None, pl_answers = [], pl_current = 0, pl_submitted = False, pl_result = None\<rparr>"

text \<open>\<open>render\<close>: on a quiz, one \<open>null\<close> answer per question and the first question shown.\<close>

definition player_load :: "api_result \<Rightarrow> player_state \<Rightarrow> player_state" where
  "player_load resp st =
     (case resp of
        ApiOk (QuizDetail v) \<Rightarrow>
          st\<lparr>pl_quiz := Some v, pl_answers := replicate (length (snd v)) None, pl_current := 0,
            pl_submitted := False, pl_result := None\<rparr>
      | _ \<Rightarrow> st)"

definition question_count :: "player_state \<Rightarrow> nat" where
  "question_count st = (case pl_quiz st of None \<Rightarrow> 0 | Some v \<Rightarrow> length (snd v))"

definition current_options :: "player_state \<Rightarrow> string list" where
  "current_options st =
     (case pl_quiz st of
        None \<Rightarrow> []
      | Some v \<Rightarrow> if pl_current st < length (snd v) then view_options (snd v ! pl_current st) else [])"

datatype player_event = SelectOption nat | GoToQuestion nat | PreviousQuestion | NextQuestion

text \<open>The handlers: \<open>onchange\<close> of an option, \<open>goToQuestion\<close>, \<open>previousQuestion\<close>, \<open>nextQuestion\<close>.\<close>

fun player_ui :: "player_event \<Rightarrow> player_state \<Rightarrow> player_state" where
  "player_ui (SelectOption i) st = st\<lparr>pl_answers := (pl_answers st)[pl_current st := Some (int i)]\<rparr>"
| "player_ui (GoToQuestion i) st = st\<lparr>pl_current := i\<rparr>"
| "player_ui PreviousQuestion st =
     (if 0 < pl_current st then st\<lparr>pl_current := pl_current st - 1\<rparr> else st)"
| "player_ui NextQuestion st =
     (if int (pl_current st) < int (question_count st) - 1
      then st\<lparr>pl_current := Suc (pl_current st)\<rparr> else st)"

text \<open>Which controls the rendered page offers (an option per option of the shown question,
  a dot per question, the previous button, the next button except on the last question).\<close>

fun event_offered :: "player_event \<Rightarrow> player_state \<Rightarrow> bool" where
  "event_offered (SelectOption i) st \<longleftrightarrow> i < length (current_options st)"
| "event_offered (GoToQuestion i) st \<longleftrightarrow> i < question_count st"
| "event_offered PreviousQuestion st \<longleftrightarrow> pl_quiz st \<noteq> None"
| "event_offered NextQuestion st \<longleftrightarrow>
     pl_quiz st \<noteq> None \<and> int (pl_current st) \<noteq> int (question_count st) - 1"

definition submit_enabled :: "player_state \<Rightarrow> bool" where
  "submit_enabled st \<longleftrightarrow>
     pl_quiz st \<noteq> None \<and> int (pl_current st) = int (question_count st) - 1 \<and>
     \<not> list_ex (\<lambda>a. a = None) (pl_answers st)"

definition player_submit ::
  "nat \<Rightarrow> string \<Rightarrow> player_state \<Rightarrow> server \<Rightarrow> player_state \<times> server" where
  "player_submit now user st s =
     (case pl_quiz st of
        None \<Rightarrow> (st, s)
      | Some v \<Rightarrow>
          (case client_request now (PlayQuizCall (quiz_id (fst v)) user (pl_answers st)) s of
             (ApiOk (ScoreReport res), s') \<Rightarrow> (st\<lparr>pl_result := Some res, pl_submitted := True\<rparr>, s')
           | (_, s') \<Rightarrow> (st, s')))"

definition player_inv :: "player_state \<Rightarrow> bool" where
  "player_inv st \<longleftrightarrow>
     length (pl_answers st) = question_count st \<and>
     (question_count st \<noteq> 0 \<longrightarrow> pl_current st < question_count st)"




text \<open>A run of events, each offered by the page it is applied to.\<close>

fun player_run :: "player_event list \<Rightarrow> player_state \<Rightarrow> player_state option" where
  "player_run [] st = Some st"
| "player_run (e # es) st = (if event_offered e st then player_run es (player_ui e st) else None)"

text \<open>A way through any quiz: visit every question by its dot and choose its first option,
  then go to the last question, where the submit button is.\<close>

definition answer_all :: "nat \<Rightarrow> player_event list" where
  "answer_all n = concat (map (\<lambda>i. [GoToQuestion i, SelectOption 0]) [0..<n]) @ [GoToQuestion (n - 1)]"

text \<open>A session for the witnesses: load the demo quiz, answer 1, go next, answer 1.\<close>

definition demo_player :: player_state where
  "demo_player =
     player_ui (SelectOption 1) (player_ui NextQuestion (player_ui (SelectOption 1)
       (player_load (ApiOk (QuizDetail (safe_quiz demo_quiz))) player_init)))"

text \<open>The player states a session can reach: loads, offered events, enabled submissions.\<close>

inductive player_reach :: "player_state \<Rightarrow> bool" where
  start: "player_reach player_init"
| load: "player_reach st \<Longrightarrow> player_reach (player_load r st)"
| ui: "player_reach st \<Longrightarrow> event_offered e st \<Longrightarrow> player_reach (player_ui e st)"
| submit: "player_reach st \<Longrightarrow> submit_enabled st \<Longrightarrow>
    player_reach (fst (player_submit now user st s))"

section \<open>Properties\<close>

lemma question_count_upd [simp]:
  "question_count (st\<lparr>pl_answers := a\<rparr>) = question_count st"
  "question_count (st\<lparr>pl_current := i\<rparr>) = question_count st"
  "question_count (st\<lparr>pl_submitted := b, pl_result := r\<rparr>) = question_count st"
  by (simp_all add: question_count_def)

lemma question_count_ui [simp]: "question_count (player_ui e st) = question_count st"
  by (cases e) (simp_all add: question_count_def)

lemma pl_quiz_ui [simp]: "pl_quiz (player_ui e st) = pl_quiz st"
  by (cases e) simp_all

lemma player_load_inv: "player_inv st \<Longrightarrow> player_inv (player_load r st)"
  by (auto simp: player_load_def player_inv_def question_count_def
      split: api_result.splits payload.splits)

lemma player_ui_inv:
  assumes "player_inv st" and "event_offered e st"
  shows "player_inv (player_ui e st)"
  using assms
proof (cases e)
  case (SelectOption i)
  with assms show ?thesis by (simp add: player_inv_def)
next
  case (GoToQuestion i)
  with assms show ?thesis by (simp add: player_inv_def)
next
  case PreviousQuestion
  with assms show ?thesis by (auto simp: player_inv_def)
next
  case NextQuestion
  with assms show ?thesis by (auto simp: player_inv_def)
qed

lemma player_submit_fst:
  "fst (player_submit now user st s) = st \<or>
   (\<exists>res. fst (player_submit now user st s) = st\<lparr>pl_result := Some res, pl_submitted := True\<rparr>)"
  by (auto simp: player_submit_def split: option.splits prod.splits api_result.splits payload.splits)

lemma player_inv_submitted:
  "player_inv st \<Longrightarrow> player_inv (st\<lparr>pl_result := Some res, pl_submitted := True\<rparr>)"
  by (simp add: player_inv_def question_count_def)

lemma player_reach_inv: "player_reach st \<Longrightarrow> player_inv st"
proof (induction rule: player_reach.induct)
  case start
  show ?case by (simp add: player_inv_def player_init_def question_count_def)
next
  case (load st r)
  from load.IH show ?case by (rule player_load_inv)
next
  case (ui st e)
  then show ?case by (blast intro: player_ui_inv)
next
  case (submit st now user s)
  then show ?case using player_submit_fst [of now user st s] player_inv_submitted by metis
qed

lemma player_run_append:
  "player_run (xs @ ys) st = (case player_run xs st of None \<Rightarrow> None | Some st' \<Rightarrow> player_run ys st')"
  by (induction xs arbitrary: st) simp_all

lemma pl_submitted_ui [simp]: "pl_submitted (player_ui e st) = pl_submitted st"
  by (cases e) simp_all

lemma pl_answers_length_ui [simp]: "length (pl_answers (player_ui e st)) = length (pl_answers st)"
  by (cases e) simp_all

lemma answer_prefix:
  assumes q: "pl_quiz st = Some v" and l: "length (pl_answers st) = length (snd v)"
    and opts: "\<forall>x \<in> set (snd v). view_options x \<noteq> []" and k: "k \<le> length (snd v)"
  shows "\<exists>st'. player_run (concat (map (\<lambda>i. [GoToQuestion i, SelectOption 0]) [0..<k])) st = Some st' \<and>
           pl_quiz st' = Some v \<and> length (pl_answers st') = length (snd v) \<and>
           (\<forall>i < k. pl_answers st' ! i \<noteq> None)"
  using k
proof (induction k)
  case 0 then show ?case using q l by simp
next
  case (Suc k)
  then obtain st' where run: "player_run (concat (map (\<lambda>i. [GoToQuestion i, SelectOption 0]) [0..<k])) st = Some st'"
    and q': "pl_quiz st' = Some v" and l': "length (pl_answers st') = length (snd v)"
    and fin: "\<forall>i < k. pl_answers st' ! i \<noteq> None" by auto
  have kl: "k < length (snd v)" using Suc.prems by simp
  let ?st1 = "player_ui (GoToQuestion k) st'"
  have o1: "event_offered (GoToQuestion k) st'" using q' kl by (simp add: question_count_def)
  have o2: "event_offered (SelectOption 0) ?st1"
    using q' kl opts by (simp add: current_options_def)
  let ?st2 = "player_ui (SelectOption 0) ?st1"
  have "player_run (concat (map (\<lambda>i. [GoToQuestion i, SelectOption 0]) [0..<Suc k])) st = Some ?st2"
    using run o1 o2 by (simp add: player_run_append)
  moreover have "\<forall>i < Suc k. pl_answers ?st2 ! i \<noteq> None"
    using fin l' kl by (auto simp: less_Suc_eq nth_list_update)
  ultimately show ?case using q' l' by auto
qed

lemma player_submit_played:
  assumes "pl_quiz pl = Some v"
    and "map_of (participantsStore s) (participantKey u (quiz_id (fst v))) \<noteq> None"
  shows "player_submit now u pl s = (pl, s)"
proof -
  obtain e where "play_quiz now (quiz_id (fst v)) u (pl_answers pl) s = (Inl e, s)"
    using play_quiz_played [OF assms(2)] by blast
  then show ?thesis using assms(1)
    by (simp add: player_submit_def client_request_def api_call_def)
qed



lemma demo_player_eval:
  "demo_player =
     \<lparr>pl_quiz = Some (safe_quiz demo_quiz), pl_answers = [Some 1, Some 1], pl_current = 1,
      pl_submitted = False, pl_result = None\<rparr>"
  by (simp add: demo_player_def player_load_def player_init_def question_count_def
      safe_quiz_def demo_defs)


lemma demo_player_reach: "player_reach demo_player"
proof -
  let ?s0 = "player_load (ApiOk (QuizDetail (safe_quiz demo_quiz))) player_init"
  have r0: "player_reach ?s0" by (rule player_reach.load [OF player_reach.start])
  have o0: "event_offered (SelectOption 1) ?s0"
    by (simp add: player_load_def player_init_def current_options_def safe_quiz_def
        redact_question_def demo_defs)
  have r1: "player_reach (player_ui (SelectOption 1) ?s0)" by (rule player_reach.ui [OF r0 o0])
  have o1: "event_offered NextQuestion (player_ui (SelectOption 1) ?s0)"
    by (simp add: player_load_def player_init_def question_count_def safe_quiz_def demo_defs)
  have r2: "player_reach (player_ui NextQuestion (player_ui (SelectOption 1) ?s0))"
    by (rule player_reach.ui [OF r1 o1])
  have o2: "event_offered (SelectOption 1) (player_ui NextQuestion (player_ui (SelectOption 1) ?s0))"
    by (simp add: player_load_def player_init_def current_options_def question_count_def
        safe_quiz_def redact_question_def demo_defs)
  show ?thesis unfolding demo_player_def by (rule player_reach.ui [OF r2 o2])
qed

text \<open>
  Throughout a player session, the answer sheet has one slot per question of the loaded
  quiz and the shown question is one of them.
\<close>

theorem player_session_consistent:
  assumes "player_reach st" and "pl_quiz st = Some v"
  shows "length (pl_answers st) = length (snd v) \<and>
         (snd v \<noteq> [] \<longrightarrow> pl_current st < length (snd v))"
  using player_reach_inv [OF assms(1)] assms(2) by (simp add: player_inv_def question_count_def)

theorem player_session_consistent_witness:
  "player_reach demo_player \<and> pl_quiz demo_player = Some (safe_quiz demo_quiz) \<and>
   length (pl_answers demo_player) = 2 \<and> pl_current demo_player < 2"
proof -
  have q: "pl_quiz demo_player = Some (safe_quiz demo_quiz)" by (simp add: demo_player_eval)
  have l: "length (snd (safe_quiz demo_quiz)) = 2" by (simp add: safe_quiz_def demo_defs)
  have l2: "snd (safe_quiz demo_quiz) \<noteq> []" by (simp add: safe_quiz_def demo_defs)
  from player_session_consistent [OF demo_player_reach q] l l2
  show ?thesis using demo_player_reach q by simp
qed

text \<open>
  C9. The player never sends an incomplete or mis-sized answer sheet: when its submit button
  is enabled for a stored, active quiz the user has not played, every answer is chosen,
  the server accepts the submission, and the player shows the server's score, the number
  of exact matches, with the attempt recorded on the server.
\<close>

theorem submit_scores_full_sheet:
  assumes reach: "player_reach st" and en: "submit_enabled st"
    and view: "pl_quiz st = Some (safe_quiz q)"
    and stored: "map_of (quizzesStore s) (quiz_id q) = Some q" and act: "is_active q"
    and fresh: "map_of (participantsStore s) (participantKey u (quiz_id q)) = None"
  shows "(\<forall>a \<in> set (pl_answers st). a \<noteq> None) \<and>
         pl_submitted (fst (player_submit now u st s)) \<and>
         map_option result_score (pl_result (fst (player_submit now u st s))) =
           Some (count_correct (questions q) (pl_answers st)) \<and>
         map_of (participantsStore (snd (player_submit now u st s))) (participantKey u (quiz_id q)) =
           Some (new_attempt now u (quiz_id q) (pl_answers st) (count_correct (questions q) (pl_answers st)))"
proof -
  have "length (pl_answers st) = length (questions q)"
    using player_reach_inv [OF reach] view
    by (simp add: player_inv_def question_count_def safe_quiz_def)
  then have play: "play_quiz now (quiz_id q) u (pl_answers st) s =
    (let sc = calculate_score (questions q) (pl_answers st);
         ok = js_greater_eq (Some (int sc)) (to_number (passing_score q))
     in (Inr \<lparr>result_score = sc, total_questions = length (questions q), passed = ok,
              reward_eligible = ok, message = pass_message ok\<rparr>,
         s\<lparr>participantsStore :=
             js_put (participantsStore s) (participantKey u (quiz_id q))
               (new_attempt now u (quiz_id q) (pl_answers st) sc),
           statsStore := record_play sc (statsStore s)\<rparr>))"
    using stored act fresh by (intro play_quiz_own_valid)
  have "calculate_score (questions q) (pl_answers st) = count_correct (questions q) (pl_answers st)"
    by (simp add: calculate_score_def score_loop_count)
  moreover have "\<forall>a \<in> set (pl_answers st). a \<noteq> None"
    using en by (auto simp: submit_enabled_def list_ex_iff) (metis option.exhaust)
  ultimately show ?thesis
    using play view
    by (simp add: player_submit_def client_request_def api_call_def safe_quiz_def Let_def)
qed

theorem submit_scores_full_sheet_witness:
  "player_reach demo_player \<and> submit_enabled demo_player \<and>
   pl_quiz demo_player = Some (safe_quiz demo_quiz) \<and>
   map_of (quizzesStore demo_server) (quiz_id demo_quiz) = Some demo_quiz \<and> is_active demo_quiz \<and>
   map_of (participantsStore demo_server) (participantKey ''alice'' (quiz_id demo_quiz)) = None \<and>
   map_option result_score (pl_result (fst (player_submit 5 ''alice'' demo_player demo_server))) = Some 1"
proof -
  have en: "submit_enabled demo_player"
    by (simp add: demo_player_eval submit_enabled_def question_count_def safe_quiz_def demo_defs)
  have v: "pl_quiz demo_player = Some (safe_quiz demo_quiz)" by (simp add: demo_player_eval)
  have st: "map_of (quizzesStore demo_server) (quiz_id demo_quiz) = Some demo_quiz"
    by (simp add: demo_defs)
  have a: "is_active demo_quiz" by (simp add: demo_defs)
  have f: "map_of (participantsStore demo_server) (participantKey ''alice'' (quiz_id demo_quiz)) = None"
    by (simp add: demo_defs)
  have c: "count_correct (questions demo_quiz) (pl_answers demo_player) = 1"
    by (simp add: demo_player_eval demo_defs answer_matches_def)
  show ?thesis using submit_scores_full_sheet [OF demo_player_reach en v st a f, of 5] c
      demo_player_reach en v st a f by simp
qed

text \<open>
  C17. A player session can always be completed: from any reached state showing a quiz
  whose questions all have an option, answering every question through its dot and going
  to the last one is a run of offered events that enables the submit button.
\<close>

theorem player_can_complete:
  assumes "player_reach st" and "pl_quiz st = Some v" and "snd v \<noteq> []"
    and "\<forall>x \<in> set (snd v). view_options x \<noteq> []"
  shows "\<exists>st'. player_run (answer_all (length (snd v))) st = Some st' \<and> submit_enabled st'"
proof -
  have "length (pl_answers st) = length (snd v)"
    using player_reach_inv [OF assms(1)] assms(2) by (simp add: player_inv_def question_count_def)
  from answer_prefix [OF assms(2) this assms(4) order_refl]
  obtain st' where run: "player_run (concat (map (\<lambda>i. [GoToQuestion i, SelectOption 0]) [0..<length (snd v)])) st = Some st'"
    and q': "pl_quiz st' = Some v" and l': "length (pl_answers st') = length (snd v)"
    and fin: "\<forall>i < length (snd v). pl_answers st' ! i \<noteq> None" by blast
  let ?n = "length (snd v)"
  have o: "event_offered (GoToQuestion (?n - 1)) st'" using q' assms(3) by (simp add: question_count_def)
  have "player_run (answer_all ?n) st = Some (player_ui (GoToQuestion (?n - 1)) st')"
    using run o by (simp add: answer_all_def player_run_append)
  moreover have "int (?n - 1) = int ?n - 1" using assms(3) by (cases "snd v") simp_all
  moreover have "submit_enabled (player_ui (GoToQuestion (?n - 1)) st')"
    using q' l' fin assms(3) calculation(2)
    by (auto simp: submit_enabled_def question_count_def list_ex_iff in_set_conv_nth of_nat_diff)
  ultimately show ?thesis by blast
qed

theorem player_can_complete_witness:
  "player_reach (player_load (ApiOk (QuizDetail (safe_quiz demo_quiz))) player_init) \<and>
   pl_quiz (player_load (ApiOk (QuizDetail (safe_quiz demo_quiz))) player_init) = Some (safe_quiz demo_quiz) \<and>
   snd (safe_quiz demo_quiz) \<noteq> [] \<and> length (snd (safe_quiz demo_quiz)) = 2 \<and>
   view_options (snd (safe_quiz demo_quiz) ! 0) \<noteq> [] \<and> view_options (snd (safe_quiz demo_quiz) ! 1) \<noteq> [] \<and>
   (\<exists>st'. player_run (answer_all 2) (player_load (ApiOk (QuizDetail (safe_quiz demo_quiz))) player_init) = Some st' \<and>
          submit_enabled st')"
proof -
  let ?s0 = "player_load (ApiOk (QuizDetail (safe_quiz demo_quiz))) player_init"
  have r: "player_reach ?s0" by (rule player_reach.load [OF player_reach.start])
  have q: "pl_quiz ?s0 = Some (safe_quiz demo_quiz)" by (simp add: player_load_def)
  have n: "snd (safe_quiz demo_quiz) \<noteq> []" by (simp add: safe_quiz_def demo_defs)
  have o: "\<forall>x \<in> set (snd (safe_quiz demo_quiz)). view_options x \<noteq> []"
    by (simp add: safe_quiz_def redact_question_def demo_defs)
  have l: "length (snd (safe_quiz demo_quiz)) = 2" by (simp add: safe_quiz_def demo_defs)
  have o2: "view_options (snd (safe_quiz demo_quiz) ! 0) \<noteq> [] \<and> view_options (snd (safe_quiz demo_quiz) ! 1) \<noteq> []"
    by (simp add: safe_quiz_def redact_question_def demo_defs)
  show ?thesis using player_can_complete [OF r q n o] r q n o2 l by simp
qed








end
