(* ===== verification/QuizCreator.thy ===== *)
theory QuizCreator
  imports Complex_Main ApiClient
begin

text \<open>
  The quiz creator of \<open>src/frontend/js/components.js\<close> (lines 275--537). Its state
  (\<open>creator_state\<close>, lines 276--290) is the form (title, description, the reward pool and
  passing score as the strings of their number inputs, the questions added so far), the
  question being edited, and the \<open>success\<close> and \<open>loading\<close> flags. The events of a
  rendered form are the \<open>onchange\<close> assignments of its inputs, \<open>addQuestion\<close>
  (473--487), \<open>removeQuestion\<close> (489--492, \<open>splice\<close>), and \<open>handleSubmit\<close>
  (494--537), which converts the two number fields with \<open>parseInt\<close> and posts the quiz
  through the client. \<open>String.prototype.trim\<close> and \<open>parseInt\<close> are modelled on the
  characters a form field can hold (ASCII white space; decimal digits, since the value of
  an \<open>input type="number"\<close> never holds a hexadecimal prefix). The browser's own
  constraint validation (\<open>required\<close>, \<open>min\<close>) is not modelled: the model is what the
  handlers decide.
\<close>

section \<open>The JavaScript built-ins the creator calls\<close>

definition js_whitespace :: "char list" where
  "js_whitespace = [CHR 0x09, CHR 0x0A, CHR 0x0B, CHR 0x0C, CHR 0x0D, CHR 0x20]"

definition is_js_space :: "char \<Rightarrow> bool" where
  "is_js_space c = (c \<in> set js_whitespace)"

definition js_trim :: "string \<Rightarrow> string" where
  "js_trim s = rev (dropWhile is_js_space (rev (dropWhile is_js_space s)))"

text \<open>
  \<open>parseInt(s)\<close>: leading white space, an optional sign, then the longest run of decimal
  digits; no digit at all is \<open>NaN\<close> (\<open>None\<close>). Anything after the digits (a
  fraction, an exponent) is ignored.
\<close>

definition parse_int :: "string \<Rightarrow> int option" where
  "parse_int s =
     (let t = dropWhile is_js_space s;
          (neg, r) = (case t of
                        [] \<Rightarrow> (False, [])
                      | c # r \<Rightarrow> if c = CHR ''-'' then (True, r)
                                 else if c = CHR ''+'' then (False, r) else (False, t));
          ds = takeWhile is_digit r
      in if ds = [] then None
         else Some (if neg then - int (read_decimal ds) else int (read_decimal ds)))"

text \<open>\<open>JSON.stringify\<close> writes \<open>NaN\<close> as \<open>null\<close>.\<close>

definition json_number :: "int option \<Rightarrow> num_field" where
  "json_number x = (case x of None \<Rightarrow> Null | Some n \<Rightarrow> Num n)"

section \<open>State and events\<close>

record creator_form =
  form_title :: string
  form_description :: string
  form_reward_pool :: string
  form_passing_score :: string
  form_questions :: "question list"

record creator_state =
  cr_form :: creator_form
  cr_current :: question
  cr_success :: bool
  cr_loading :: bool

definition blank_question :: question where
  "blank_question = \<lparr>question_text = [], options = [[], [], [], []], correct_answer = 0\<rparr>"

definition creator_init :: creator_state where
  "creator_init =
     \<lparr>cr_form = \<lparr>form_title = [], form_description = [], form_reward_pool = [],
                 form_passing_score = [], form_questions = []\<rparr>,
      cr_current = blank_question, cr_success = False, cr_loading = False\<rparr>"

datatype creator_alert =
    FillQuestionFields
  | FillRequiredFields
  | PassingScoreTooHigh
  | CreateFailed string

datatype creator_event =
    SetTitle string
  | SetDescription string
  | SetRewardPool string
  | SetPassingScore string
  | SetQuestionText string
  | SetOption nat string
  | SetCorrect nat
  | AddQuestion
  | RemoveQuestion nat

text \<open>\<open>addQuestion\<close>: refuse a blank text or a blank option, else push a copy and reset.\<close>

definition add_question :: "creator_state \<Rightarrow> creator_alert option \<times> creator_state" where
  "add_question st =
     (let cur = cr_current st
      in if js_trim (question_text cur) = [] \<or> list_ex (\<lambda>opt. js_trim opt = []) (options cur)
         then (Some FillQuestionFields, st)
         else (None, st\<lparr>cr_form := (cr_form st)\<lparr>form_questions := form_questions (cr_form st) @ [cur]\<rparr>,
                        cr_current := blank_question\<rparr>))"

text \<open>\<open>splice(index, 1)\<close> removes the element at \<open>index\<close>, and nothing past the end.\<close>

definition remove_question :: "nat \<Rightarrow> creator_state \<Rightarrow> creator_state" where
  "remove_question i st =
     st\<lparr>cr_form := (cr_form st)\<lparr>form_questions :=
          take i (form_questions (cr_form st)) @ drop (Suc i) (form_questions (cr_form st))\<rparr>\<rparr>"

fun creator_edit :: "creator_event \<Rightarrow> creator_state \<Rightarrow> creator_alert option \<times> creator_state" where
  "creator_edit (SetTitle v) st = (None, st\<lparr>cr_form := (cr_form st)\<lparr>form_title := v\<rparr>\<rparr>)"
| "creator_edit (SetDescription v) st = (None, st\<lparr>cr_form := (cr_form st)\<lparr>form_description := v\<rparr>\<rparr>)"
| "creator_edit (SetRewardPool v) st = (None, st\<lparr>cr_form := (cr_form st)\<lparr>form_reward_pool := v\<rparr>\<rparr>)"
| "creator_edit (SetPassingScore v) st = (None, st\<lparr>cr_form := (cr_form st)\<lparr>form_passing_score := v\<rparr>\<rparr>)"
| "creator_edit (SetQuestionText v) st = (None, st\<lparr>cr_current := (cr_current st)\<lparr>question_text := v\<rparr>\<rparr>)"
| "creator_edit (SetOption i v) st =
     (None, st\<lparr>cr_current := (cr_current st)\<lparr>options := (options (cr_current st))[i := v]\<rparr>\<rparr>)"
| "creator_edit (SetCorrect i) st = (None, st\<lparr>cr_current := (cr_current st)\<lparr>correct_answer := int i\<rparr>\<rparr>)"
| "creator_edit AddQuestion st = add_question st"
| "creator_edit (RemoveQuestion i) st = (None, remove_question i st)"

text \<open>
  The events the rendered form offers: nothing once \<open>success\<close> is shown; an option input
  and a radio button per option of the edited question (lines 334--356); the add button
  only when the question text is not blank (line 446); a remove button per added question.
\<close>

fun creator_offered :: "creator_event \<Rightarrow> creator_state \<Rightarrow> bool" where
  "creator_offered (SetOption i v) st = (\<not> cr_success st \<and> i < length (options (cr_current st)))"
| "creator_offered (SetCorrect i) st = (\<not> cr_success st \<and> i < length (options (cr_current st)))"
| "creator_offered AddQuestion st = (\<not> cr_success st \<and> js_trim (question_text (cr_current st)) \<noteq> [])"
| "creator_offered (RemoveQuestion i) st = (\<not> cr_success st \<and> i < length (form_questions (cr_form st)))"
| "creator_offered e st = (\<not> cr_success st)"

text \<open>
  Before the \<open>submit\<close> event reaches \<open>handleSubmit\<close>, the browser validates the form's
  constraints: title and description are \<open>required\<close> (lines 374, 387), and the two
  \<open>type="number"\<close> inputs are \<open>required\<close> with \<open>min="0"\<close> and \<open>min="1"\<close> (lines
  401--402, 415--416) and the default \<open>step\<close> of 1. A number input's value is empty
  unless the text is a valid floating-point number (an optional \<open>-\<close>, digits with an
  optional fraction or a fraction alone, an optional exponent); a valid value must be at
  least \<open>min\<close> and differ from it by a whole number of steps. Values too large for a double
  are not distinguished here.
\<close>

definition html_digits :: "string \<Rightarrow> bool" where
  "html_digits w \<longleftrightarrow> w \<noteq> [] \<and> list_all is_digit w"

definition exponent_part :: "string \<Rightarrow> int option" where
  "exponent_part e =
     (case e of
        [] \<Rightarrow> Some 0
      | _ # t \<Rightarrow>
          (case t of
             c # ds \<Rightarrow>
               (if c = CHR ''-'' \<and> html_digits ds then Some (- int (read_decimal ds))
                else if c = CHR ''+'' \<and> html_digits ds then Some (int (read_decimal ds))
                else if html_digits t then Some (int (read_decimal t)) else None)
           | [] \<Rightarrow> None))"

definition float_value :: "string \<Rightarrow> rat option" where
  "float_value s =
     (let (neg, r) = (case s of c # r \<Rightarrow> if c = CHR ''-'' then (True, r) else (False, s) | [] \<Rightarrow> (False, []));
          m = takeWhile (\<lambda>c. c \<notin> set ''eE'') r; e = dropWhile (\<lambda>c. c \<notin> set ''eE'') r;
          ip = takeWhile (\<lambda>c. c \<noteq> CHR ''.'') m; rest = dropWhile (\<lambda>c. c \<noteq> CHR ''.'') m;
          fp = drop 1 rest
      in if list_all is_digit ip \<and> (if rest = [] then ip \<noteq> [] else html_digits fp)
         then (case exponent_part e of
                 None \<Rightarrow> None
               | Some k \<Rightarrow>
                   Some ((if neg then -1 else 1) *
                         (of_nat (read_decimal ip) + of_nat (read_decimal fp) / 10 ^ length fp) *
                         (if 0 \<le> k then 10 ^ nat k else 1 / 10 ^ nat (- k))))
         else None)"

definition number_input_ok :: "int \<Rightarrow> string \<Rightarrow> bool" where
  "number_input_ok lo s =
     (case float_value s of
        None \<Rightarrow> False
      | Some v \<Rightarrow> of_int lo \<le> v \<and> v = of_int (floor v))"

definition form_constraints_ok :: "creator_form \<Rightarrow> bool" where
  "form_constraints_ok f \<longleftrightarrow>
     form_title f \<noteq> [] \<and> form_description f \<noteq> [] \<and>
     number_input_ok 0 (form_reward_pool f) \<and> number_input_ok 1 (form_passing_score f)"

text \<open>
  The submit button is disabled while loading and while no question is added (line 462);
  the submission also needs the form's constraints to hold.
\<close>

definition submit_offered :: "creator_state \<Rightarrow> bool" where
  "submit_offered st =
     (\<not> cr_success st \<and> \<not> cr_loading st \<and> form_questions (cr_form st) \<noteq> [] \<and>
      form_constraints_ok (cr_form st))"

section \<open>Submission\<close>

text \<open>\<open>quizData\<close> (lines 513--518): the form, the two numbers parsed, the admin's address.\<close>

definition quiz_data :: "string \<Rightarrow> creator_form \<Rightarrow> create_request" where
  "quiz_data user f =
     \<lparr>req_title = form_title f, req_description = form_description f,
      req_questions = form_questions f,
      req_reward_pool = json_number (parse_int (form_reward_pool f)),
      req_passing_score = json_number (parse_int (form_passing_score f)),
      req_admin = user\<rparr>"

definition handle_submit ::
  "nat \<Rightarrow> string \<Rightarrow> creator_state \<Rightarrow> server \<Rightarrow> creator_alert option \<times> creator_state \<times> server" where
  "handle_submit now user st s =
     (let f = cr_form st
      in if form_title f = [] \<or> form_description f = [] \<or> form_questions f = []
         then (Some FillRequiredFields, st, s)
         else if js_less (Some (int (length (form_questions f)))) (parse_int (form_passing_score f))
         then (Some PassingScoreTooHigh, st, s)
         else (case client_request now (CreateQuizCall (quiz_data user f)) s of
                 (ApiOk _, s') \<Rightarrow> (None, st\<lparr>cr_loading := True, cr_success := True\<rparr>, s')
               | (ApiError m, s') \<Rightarrow>
                   (Some (CreateFailed (''Error creating quiz: '' @ m)), st\<lparr>cr_loading := False\<rparr>, s')))"

text \<open>The creator states a session can reach from the reset of \<open>app.goToPage('create')\<close>.\<close>

inductive creator_reach :: "creator_state \<Rightarrow> bool" where
  start: "creator_reach creator_init"
| edit: "creator_reach st \<Longrightarrow> creator_offered e st \<Longrightarrow> creator_reach (snd (creator_edit e st))"
| submit: "creator_reach st \<Longrightarrow> submit_offered st \<Longrightarrow>
           creator_reach (fst (snd (handle_submit now user st s)))"

text \<open>A question as \<open>addQuestion\<close> accepts it: text and four options not blank.\<close>

definition question_ok :: "question \<Rightarrow> bool" where
  "question_ok q =
     (js_trim (question_text q) \<noteq> [] \<and> length (options q) = 4 \<and>
      list_all (\<lambda>opt. js_trim opt \<noteq> []) (options q) \<and> 0 \<le> correct_answer q \<and> correct_answer q < 4)"

definition creator_inv :: "creator_state \<Rightarrow> bool" where
  "creator_inv st =
     (list_all question_ok (form_questions (cr_form st)) \<and>
      length (options (cr_current st)) = 4 \<and>
      0 \<le> correct_answer (cr_current st) \<and> correct_answer (cr_current st) < 4)"

text \<open>A sequence of form events, each one offered by the form it is applied to.\<close>

fun creator_session :: "creator_event list \<Rightarrow> creator_state \<Rightarrow> creator_state option" where
  "creator_session [] st = Some st"
| "creator_session (e # es) st =
     (if creator_offered e st then creator_session es (snd (creator_edit e st)) else None)"

text \<open>A session for the witnesses: fill the details, write one question, add it.\<close>

definition demo_events :: "creator_event list" where
  "demo_events =
     [SetTitle ''Arithmetic'', SetDescription ''One question'', SetRewardPool ''100'', SetPassingScore ''1'',
      SetQuestionText ''2 + 2 = ?'', SetOption 0 ''3'', SetOption 1 ''4'', SetOption 2 ''5'',
      SetOption 3 ''22'', SetCorrect 1, AddQuestion]"

definition demo_form :: creator_form where
  "demo_form =
     \<lparr>form_title = ''Arithmetic'', form_description = ''One question'', form_reward_pool = ''100'',
      form_passing_score = ''1'',
      form_questions = [\<lparr>question_text = ''2 + 2 = ?'', options = [''3'', ''4'', ''5'', ''22''],
                         correct_answer = 1\<rparr>]\<rparr>"

section \<open>Properties\<close>

lemma js_trim_Nil_iff: "js_trim s = [] \<longleftrightarrow> list_all is_js_space s"
proof -
  have "js_trim s = [] \<longleftrightarrow> (\<forall>x \<in> set (dropWhile is_js_space s). is_js_space x)"
    by (simp add: js_trim_def dropWhile_eq_Nil_conv)
  also have "\<dots> \<longleftrightarrow> dropWhile is_js_space s = []"
    using hd_dropWhile [of is_js_space s] by (cases "dropWhile is_js_space s") (auto dest: set_dropWhileD)
  finally show ?thesis by (auto simp: dropWhile_eq_Nil_conv list_all_iff dest: set_dropWhileD)
qed

lemma digit_not_space: "is_digit c \<Longrightarrow> \<not> is_js_space c"
  by (auto simp: is_digit_def is_js_space_def js_whitespace_def)

lemma parse_int_digits:
  assumes "is_decimal ds" and "r = [] \<or> \<not> is_digit (hd r)"
  shows "parse_int (ds @ r) = Some (int (read_decimal ds))"
proof -
  obtain c cs where ds: "ds = c # cs" using assms(1) by (cases ds) (auto simp: is_decimal_def)
  have c: "is_digit c" "list_all is_digit cs" using assms(1) ds by (auto simp: is_decimal_def)
  then have "c \<noteq> CHR ''-''" "c \<noteq> CHR ''+''" by (auto simp: is_digit_def)
  moreover have "takeWhile is_digit (ds @ r) = ds"
    using assms c ds by (cases r) (auto simp: takeWhile_append2 list_all_iff)
  ultimately show ?thesis using c ds digit_not_space [OF c(1)]
    by (simp add: parse_int_def Let_def)
qed

lemma parse_int_decimal: "parse_int (decimal n) = Some (int n)"
  using parse_int_digits [of "decimal n" "[]"] by simp

lemma parse_int_neg_decimal: "parse_int (CHR ''-'' # decimal n) = Some (- int n)"
proof -
  have ne: "decimal n \<noteq> []" using is_decimal_decimal [of n] by (simp add: is_decimal_def)
  have t: "takeWhile is_digit (decimal n) = decimal n"
    using is_decimal_decimal [of n] by (simp add: is_decimal_def list_all_iff)
  have "\<not> is_js_space (CHR ''-'')" by (simp add: is_js_space_def js_whitespace_def)
  then show ?thesis using ne by (simp add: parse_int_def Let_def t)
qed

lemma parse_int_one: "parse_int ''1'' = Some 1"
  using parse_int_decimal [of 1] by (simp add: digit_char_def)

lemma parse_int_empty: "parse_int [] = None"
  by (simp add: parse_int_def)

lemma to_number_json_number:
  "to_number (json_number x) = Some (case x of None \<Rightarrow> 0 | Some n \<Rightarrow> n)"
  by (cases x) (simp_all add: json_number_def)

lemma creator_inv_init: "creator_inv creator_init"
  by (simp add: creator_inv_def creator_init_def blank_question_def)

lemma add_question_inv:
  assumes "creator_inv st" shows "creator_inv (snd (add_question st))"
proof (cases "js_trim (question_text (cr_current st)) = [] \<or> list_ex (\<lambda>opt. js_trim opt = []) (options (cr_current st))")
  case True then show ?thesis using assms by (simp add: add_question_def Let_def)
next
  case False
  then have "question_ok (cr_current st)"
    using assms by (auto simp: question_ok_def creator_inv_def list_ex_iff list_all_iff)
  then show ?thesis using False assms
    by (simp add: add_question_def Let_def creator_inv_def blank_question_def)
qed

lemma remove_question_inv:
  assumes "creator_inv st" shows "creator_inv (remove_question i st)"
proof -
  have "set (take i xs @ drop (Suc i) xs) \<subseteq> set xs" for xs :: "question list"
    by (auto dest: in_set_takeD in_set_dropD)
  then show ?thesis using assms
    by (auto simp: creator_inv_def remove_question_def list_all_iff)
qed

lemma creator_edit_inv:
  assumes "creator_inv st" and "creator_offered e st"
  shows "creator_inv (snd (creator_edit e st))"
  using assms
proof (cases e)
  case AddQuestion then show ?thesis using add_question_inv [OF assms(1)] by simp
next
  case (RemoveQuestion i) then show ?thesis using remove_question_inv [OF assms(1)] by simp
qed (auto simp: creator_inv_def)

lemma handle_submit_state:
  "fst (snd (handle_submit now user st s)) \<in>
     {st, st\<lparr>cr_loading := True, cr_success := True\<rparr>, st\<lparr>cr_loading := False\<rparr>}"
  by (simp add: handle_submit_def Let_def split: prod.split api_result.split)

lemma creator_reach_inv: "creator_reach st \<Longrightarrow> creator_inv st"
proof (induction rule: creator_reach.induct)
  case start then show ?case by (rule creator_inv_init)
next
  case (edit st e) then show ?case by (simp add: creator_edit_inv)
next
  case (submit st now user s)
  then show ?case using handle_submit_state [of now user st s] by (auto simp: creator_inv_def)
qed

lemma creator_session_reach:
  "creator_reach st \<Longrightarrow> creator_session es st = Some st' \<Longrightarrow> creator_reach st'"
proof (induction es arbitrary: st)
  case Nil then show ?case by simp
next
  case (Cons e es)
  then have "creator_offered e st" by (simp split: if_splits)
  with Cons.prems(1) have "creator_reach (snd (creator_edit e st))" by (rule creator_reach.edit)
  with Cons show ?case by (simp split: if_splits)
qed

lemma demo_session:
  "creator_session demo_events creator_init = Some (creator_init\<lparr>cr_form := demo_form\<rparr>)"
  by (simp add: demo_events_def demo_form_def creator_init_def blank_question_def add_question_def
      js_trim_def is_js_space_def js_whitespace_def)

lemma demo_creator_reach: "creator_reach (creator_init\<lparr>cr_form := demo_form\<rparr>)"
  by (rule creator_session_reach [OF creator_reach.start demo_session])

lemma play_quiz_passed_own:
  assumes "play_quiz now qid p ans s = (Inr res, s')" and "js_get (quizzesStore s) qid = Own q"
  shows "passed res = js_greater_eq (Some (int (result_score res))) (to_number (passing_score q))"
  using assms by (auto simp: play_quiz_def Let_def split: if_splits)

lemma handle_submit_checked:
  assumes "form_title (cr_form st) \<noteq> []" and "form_description (cr_form st) \<noteq> []"
    and "form_questions (cr_form st) \<noteq> []"
    and "\<not> js_less (Some (int (length (form_questions (cr_form st)))))
                    (parse_int (form_passing_score (cr_form st)))"
  shows "handle_submit now user st s =
           (None, st\<lparr>cr_loading := True, cr_success := True\<rparr>,
            s\<lparr>quizzesStore := js_put (quizzesStore s) (decimal now) (new_quiz now (quiz_data user (cr_form st))),
              statsStore := (statsStore s)\<lparr>total_quizzes := Suc (total_quizzes (statsStore s))\<rparr>\<rparr>)"
proof -
  have "\<not> js_less (Some (int (length (form_questions (cr_form st)))))
              (to_number (json_number (parse_int (form_passing_score (cr_form st)))))"
    using assms(3,4)
    by (cases "parse_int (form_passing_score (cr_form st))") (simp_all add: to_number_json_number js_less_def)
  then have "create_quiz now (quiz_data user (cr_form st)) s =
     (Inr (decimal now),
      s\<lparr>quizzesStore := js_put (quizzesStore s) (decimal now) (new_quiz now (quiz_data user (cr_form st))),
        statsStore := (statsStore s)\<lparr>total_quizzes := Suc (total_quizzes (statsStore s))\<rparr>\<rparr>)"
    using assms(1,3) by (intro create_quiz_valid_input) (simp_all add: quiz_data_def)
  then show ?thesis using assms
    by (simp add: handle_submit_def Let_def client_request_def api_call_def)
qed

text \<open>
  C14. The creator's own checks are stronger than the server's: a form that passes
  \<open>handleSubmit\<close>'s checks is always accepted by \<open>POST /api/quizzes\<close>, the creator shows
  success, and the server stores the quiz the form describes under the new id.
\<close>

theorem creator_checks_imply_server_accepts:
  assumes "form_title (cr_form st) \<noteq> []" and "form_description (cr_form st) \<noteq> []"
    and "form_questions (cr_form st) \<noteq> []"
    and "\<not> js_less (Some (int (length (form_questions (cr_form st)))))
                    (parse_int (form_passing_score (cr_form st)))"
  shows "fst (handle_submit now user st s) = None \<and>
         cr_success (fst (snd (handle_submit now user st s))) \<and>
         map_of (quizzesStore (snd (snd (handle_submit now user st s)))) (decimal now) =
           Some (new_quiz now (quiz_data user (cr_form st))) \<and>
         total_quizzes (statsStore (snd (snd (handle_submit now user st s)))) =
           Suc (total_quizzes (statsStore s))"
  using handle_submit_checked [OF assms] by simp

theorem creator_checks_imply_server_accepts_witness:
  "form_title demo_form \<noteq> [] \<and> form_description demo_form \<noteq> [] \<and> form_questions demo_form \<noteq> [] \<and>
   \<not> js_less (Some (int (length (form_questions demo_form)))) (parse_int (form_passing_score demo_form)) \<and>
   map_of (quizzesStore (snd (snd (handle_submit 7 ''admin'' (creator_init\<lparr>cr_form := demo_form\<rparr>)
     init_server)))) (decimal 7) = Some (new_quiz 7 (quiz_data ''admin'' demo_form))"
proof -
  have h: "form_title (cr_form (creator_init\<lparr>cr_form := demo_form\<rparr>)) \<noteq> []"
    "form_description (cr_form (creator_init\<lparr>cr_form := demo_form\<rparr>)) \<noteq> []"
    "form_questions (cr_form (creator_init\<lparr>cr_form := demo_form\<rparr>)) \<noteq> []"
    "\<not> js_less (Some (int (length (form_questions (cr_form (creator_init\<lparr>cr_form := demo_form\<rparr>))))))
       (parse_int (form_passing_score (cr_form (creator_init\<lparr>cr_form := demo_form\<rparr>))))"
    by (simp_all add: demo_form_def parse_int_one js_less_def)
  from creator_checks_imply_server_accepts [OF h, of 7 "''admin''" init_server] h
  show ?thesis by simp
qed

text \<open>
  Every question a creator session has added has a non-blank text, four non-blank
  options and a correct answer among them.
\<close>

theorem creator_reach_questions_ok:
  "creator_reach st \<Longrightarrow> list_all question_ok (form_questions (cr_form st))"
  using creator_reach_inv by (simp add: creator_inv_def)

theorem creator_reach_questions_ok_witness:
  "creator_reach (creator_init\<lparr>cr_form := demo_form\<rparr>) \<and>
   list_all question_ok (form_questions demo_form) \<and> form_questions demo_form \<noteq> []"
  using creator_reach_questions_ok [OF demo_creator_reach] demo_creator_reach
  by (simp add: demo_form_def)

text \<open>
  \<open>parseInt\<close> reads back the decimal text of an integer, with or without a minus sign,
  and drops a fractional part.
\<close>

theorem parse_int_roundtrip:
  "parse_int (decimal n) = Some (int n) \<and> parse_int (CHR ''-'' # decimal n) = Some (- int n) \<and>
   parse_int (decimal n @ CHR ''.'' # ds) = Some (int n)"
proof -
  have "\<not> is_digit (CHR ''.'')" by (simp add: is_digit_def)
  then show ?thesis
    using parse_int_decimal parse_int_neg_decimal parse_int_digits [of "decimal n" "CHR ''.'' # ds"]
    by simp
qed

end
