(* ===== verification/App.thy ===== *)
theory App
  imports QuizPlayer QuizCreator
begin

text \<open>
  The pages of the browser frontend and the navigation between them: the quiz list and the
  dashboard of \<open>src/frontend/js/components.js\<close> (\<open>QuizList.render\<close>, lines 3--73;
  \<open>Dashboard.render\<close>, 541--684) as the views they compute from the server's answers, and
  the \<open>app\<close> object of \<open>src/frontend/js/app.js\<close> (lines 2--115): its state, the page switch
  \<open>goToPage\<close>, \<open>handleQuizSelect\<close>, \<open>goBackToQuizzes\<close> and the admin toggle. The app's
  state (\<open>app_state\<close>) also holds the states of the creator and of the player, which the
  page code keeps in \<open>QuizCreator.state\<close> and \<open>QuizPlayer.state\<close>. Each \<open>await\<close> is
  taken as atomic: a page renders with the answer of the request it made. \<open>app_step\<close>
  applies one user event the rendered page offers (\<open>app_offered\<close>), and \<open>app_reach\<close>
  collects the pairs of app and server state a session reaches, other clients' requests
  interleaved; \<open>app_session\<close> runs an explicit sequence of such steps. The properties
  are that sessions keep the server invariant, how the tab bar and the admin gate behave,
  what the list and the dashboard show, and that the player page of a quiz already played
  can never be left.
\<close>

section \<open>Quiz list and dashboard\<close>

record quiz_card =
  card_id :: string
  card_title :: string
  card_questions :: nat
  card_playable :: bool

text \<open>A card of the list (lines 31--64): the Take Quiz button is disabled on an inactive quiz.\<close>

definition quiz_card :: "quiz_view \<Rightarrow> quiz_card" where
  "quiz_card v =
     \<lparr>card_id = quiz_id (fst v), card_title = title (fst v), card_questions = length (snd v),
      card_playable = is_active (fst v)\<rparr>"

datatype list_view = ListFailed | ListEmpty | ListCards "quiz_card list"

text \<open>\<open>response.data.quizzes || []\<close>: a body without \<open>quizzes\<close> shows the empty list.\<close>

definition quiz_list_view :: "api_result \<Rightarrow> list_view" where
  "quiz_list_view r =
     (case r of
        ApiError _ \<Rightarrow> ListFailed
      | ApiOk (QuizList qs n) \<Rightarrow> (if qs = [] then ListEmpty else ListCards (map quiz_card qs))
      | ApiOk _ \<Rightarrow> ListEmpty)"

record dashboard_view =
  dash_stats :: stats
  dash_active :: nat
  dash_inactive :: nat
  dash_rows :: "quiz_card list"

datatype dashboard = DashFailed | DashShown dashboard_view

text \<open>
  Lines 550--560: both answers must be ok; the active and inactive counts and the first ten
  rows of the table are computed from the list. A statistics call answers a
  \<open>StatsSnapshot\<close> only, so the last case does not occur.
\<close>

definition dashboard_of :: "api_result \<Rightarrow> api_result \<Rightarrow> dashboard" where
  "dashboard_of sr qr =
     (case (sr, qr) of
        (ApiOk (StatsSnapshot st), ApiOk d) \<Rightarrow>
          (let qs = (case d of QuizList qs n \<Rightarrow> qs | _ \<Rightarrow> []);
               a = length (filter (\<lambda>v. is_active (fst v)) qs)
           in DashShown \<lparr>dash_stats = st, dash_active = a, dash_inactive = length qs - a,
                         dash_rows = take 10 (map quiz_card qs)\<rparr>)
      | _ \<Rightarrow> DashFailed)"

text \<open>\<open>Promise.all([getStats(), getQuizzes()])\<close>: the two requests, in the order the server runs them.\<close>

definition dashboard_load :: "nat \<Rightarrow> server \<Rightarrow> dashboard \<times> server" where
  "dashboard_load now s =
     (let (sr, s1) = client_request now GetStatsCall s;
          (qr, s2) = client_request now GetQuizzesCall s1
      in (dashboard_of sr qr, s2))"

section \<open>The app\<close>

datatype screen =
    ShowNothing
  | ShowList list_view
  | ShowDashboard dashboard
  | ShowCreator
  | ShowPlayer
  | ShowPlayerFailed

record app_state =
  current_page :: string
  selected_quiz :: "string option"
  user_address :: string
  is_admin :: bool
  nav_visible :: bool
  shown :: screen
  creator :: creator_state
  player :: player_state

text \<open>\<open>app.state\<close> (lines 3--8); the address is the random string of line 6.\<close>

definition app_blank :: "string \<Rightarrow> app_state" where
  "app_blank u =
     \<lparr>current_page = ''quizzes'', selected_quiz = None, user_address = u, is_admin = False,
      nav_visible = True, shown = ShowNothing, creator = creator_init, player = player_init\<rparr>"

text \<open>
  \<open>goToPage\<close> (lines 56--94). The create page resets the creator for an administrator
  and otherwise calls \<open>goToPage('quizzes')\<close>: the one recursive call, on a page that is
  not \<open>create\<close>, so the measure below decreases.
\<close>

function go_to_page :: "nat \<Rightarrow> string \<Rightarrow> app_state \<Rightarrow> server \<Rightarrow> app_state \<times> server" where
  "go_to_page now page st s =
     (let st' = st\<lparr>current_page := page\<rparr>
      in if page = ''quizzes'' then
           (case client_request now GetQuizzesCall s of
              (r, s') \<Rightarrow> (st'\<lparr>shown := ShowList (quiz_list_view r)\<rparr>, s'))
         else if page = ''dashboard'' then
           (case dashboard_load now s of (d, s') \<Rightarrow> (st'\<lparr>shown := ShowDashboard d\<rparr>, s'))
         else if page = ''create'' then
           (if is_admin st' then (st'\<lparr>creator := creator_init, shown := ShowCreator\<rparr>, s)
            else go_to_page now ''quizzes'' st' s)
         else
           (case client_request now GetQuizzesCall s of
              (r, s') \<Rightarrow> (st'\<lparr>shown := ShowList (quiz_list_view r)\<rparr>, s')))"
  by pat_completeness auto
termination
  by (relation "measure (\<lambda>(now, page, st, s). if page = ''create'' then 1 else 0)") auto

declare go_to_page.simps [simp del]

text \<open>\<open>init\<close> (lines 10--14): the listeners and \<open>updateUI\<close> touch the page only; then the list.\<close>

definition app_init :: "nat \<Rightarrow> string \<Rightarrow> server \<Rightarrow> app_state \<times> server" where
  "app_init now u s = go_to_page now ''quizzes'' (app_blank u) s"

text \<open>\<open>handleQuizSelect\<close> (96--106) with \<open>QuizPlayer.render\<close>: hide the tabs and load the quiz.\<close>

definition handle_quiz_select :: "nat \<Rightarrow> string \<Rightarrow> app_state \<Rightarrow> server \<Rightarrow> app_state \<times> server" where
  "handle_quiz_select now qid st s =
     (case client_request now (GetQuizCall qid) s of
        (r, s') \<Rightarrow>
          (st\<lparr>selected_quiz := Some qid, current_page := ''play'', nav_visible := False,
              player := player_load r (player st),
              shown := (case r of ApiOk (QuizDetail _) \<Rightarrow> ShowPlayer | _ \<Rightarrow> ShowPlayerFailed)\<rparr>,
           s'))"

text \<open>\<open>goBackToQuizzes\<close> (108--114): show the tabs again and go to the list.\<close>

definition go_back_to_quizzes :: "nat \<Rightarrow> app_state \<Rightarrow> server \<Rightarrow> app_state \<times> server" where
  "go_back_to_quizzes now st s = go_to_page now ''quizzes'' (st\<lparr>nav_visible := True\<rparr>) s"

text \<open>
  The user's events: a tab (lines 19--24), the admin toggle (28--31), a quiz card's button
  (line 59), the result page's back button (line 224, \<open>app.goToPage('quizzes')\<close>), the
  creator's inputs, cancel button (456), submit and the redirect two seconds after success
  (304--306), and the player's inputs and submit button.
\<close>

datatype app_event =
    TabClick string
  | ToggleAdmin
  | SelectQuiz string
  | ResultBack
  | CreatorInput creator_event
  | CreatorCancel
  | CreatorSubmit
  | CreatorRedirect
  | PlayerInput player_event
  | PlayerSubmit

primrec app_step :: "nat \<Rightarrow> app_event \<Rightarrow> app_state \<Rightarrow> server \<Rightarrow> app_state \<times> server" where
  "app_step now (TabClick p) st s = go_to_page now p st s"
| "app_step now ToggleAdmin st s = (st\<lparr>is_admin := \<not> is_admin st\<rparr>, s)"
| "app_step now (SelectQuiz qid) st s = handle_quiz_select now qid st s"
| "app_step now ResultBack st s = go_to_page now ''quizzes'' st s"
| "app_step now (CreatorInput e) st s = (st\<lparr>creator := snd (creator_edit e (creator st))\<rparr>, s)"
| "app_step now CreatorCancel st s = go_to_page now ''quizzes'' st s"
| "app_step now CreatorSubmit st s =
     (case handle_submit now (user_address st) (creator st) s of
        (_, c, s') \<Rightarrow> (st\<lparr>creator := c\<rparr>, s'))"
| "app_step now CreatorRedirect st s = go_to_page now ''quizzes'' st s"
| "app_step now (PlayerInput e) st s = (st\<lparr>player := player_ui e (player st)\<rparr>, s)"
| "app_step now PlayerSubmit st s =
     (case player_submit now (user_address st) (player st) s of
        (p, s') \<Rightarrow> (st\<lparr>player := p\<rparr>, s'))"

text \<open>
  The events the rendered page offers. The tab bar holds the pages \<open>quizzes\<close>,
  \<open>dashboard\<close> and \<open>create\<close>; the create tab is hidden outside admin mode (line 46), and
  the whole bar while it is hidden (line 103). The player's page has no back button.
\<close>

primrec app_offered :: "app_event \<Rightarrow> app_state \<Rightarrow> bool" where
  "app_offered (TabClick p) st =
     (nav_visible st \<and> (p = ''quizzes'' \<or> p = ''dashboard'' \<or> (p = ''create'' \<and> is_admin st)))"
| "app_offered ToggleAdmin st = True"
| "app_offered (SelectQuiz qid) st =
     (case shown st of
        ShowList (ListCards cs) \<Rightarrow> list_ex (\<lambda>c. card_id c = qid \<and> card_playable c) cs
      | _ \<Rightarrow> False)"
| "app_offered ResultBack st = (shown st = ShowPlayer \<and> pl_submitted (player st))"
| "app_offered (CreatorInput e) st = (shown st = ShowCreator \<and> creator_offered e (creator st))"
| "app_offered CreatorCancel st = (shown st = ShowCreator \<and> \<not> cr_success (creator st))"
| "app_offered CreatorSubmit st = (shown st = ShowCreator \<and> submit_offered (creator st))"
| "app_offered CreatorRedirect st = (shown st = ShowCreator \<and> cr_success (creator st))"
| "app_offered (PlayerInput e) st =
     (shown st = ShowPlayer \<and> \<not> pl_submitted (player st) \<and> event_offered e (player st))"
| "app_offered PlayerSubmit st =
     (shown st = ShowPlayer \<and> \<not> pl_submitted (player st) \<and> submit_enabled (player st))"

text \<open>
  A session: \<open>init\<close> (lines 10--14) on a server some requests have reached, then user
  events and, in between, any request of another client.
\<close>

inductive app_reach :: "app_state \<times> server \<Rightarrow> bool" where
  boot: "reachable s \<Longrightarrow> app_reach (app_init now u s)"
| step: "app_reach (st, s) \<Longrightarrow> app_offered e st \<Longrightarrow> app_reach (app_step now e st s)"
| other: "app_reach (st, s) \<Longrightarrow> app_reach (st, snd (handle now r s))"

text \<open>The first page of a session on the demo server: \<open>init\<close> shows the quiz list.\<close>

definition demo_boot :: "app_state \<times> server" where
  "demo_boot = app_init 1 ''user_1'' demo_server"

text \<open>
  A session as a sequence of steps: this user's events, each offered by the page it is
  applied to, and other clients' requests in between.
\<close>

datatype session_step = UserEvent nat app_event | OtherRequest nat request

fun app_session :: "session_step list \<Rightarrow> app_state \<times> server \<Rightarrow> (app_state \<times> server) option" where
  "app_session [] p = Some p"
| "app_session (UserEvent now e # ss) (st, s) =
     (if app_offered e st then app_session ss (app_step now e st s) else None)"
| "app_session (OtherRequest now r # ss) (st, s) = app_session ss (st, snd (handle now r s))"

text \<open>
  The player page of a quiz this user has already played: no tabs, no back button, and
  every submission refused by the server.
\<close>

definition replay_trapped :: "app_state \<times> server \<Rightarrow> bool" where
  "replay_trapped p \<longleftrightarrow>
     (case p of (st, s) \<Rightarrow>
        shown st = ShowPlayer \<and> \<not> nav_visible st \<and> \<not> pl_submitted (player st) \<and>
        (case pl_quiz (player st) of
           None \<Rightarrow> False
         | Some v \<Rightarrow> map_of (participantsStore s) (participantKey (user_address st) (quiz_id (fst v))) \<noteq> None))"

text \<open>Alice, who played the demo quiz, opens the app and selects that quiz again.\<close>

definition demo_replay :: "app_state \<times> server" where
  "demo_replay = handle_quiz_select 2 demo_id (fst (go_to_page 1 ''quizzes'' (app_blank ''alice'') demo_played)) demo_played"

section \<open>Properties\<close>

lemma client_request_reads:
  "client_request now GetQuizzesCall s = (ApiOk (QuizList (fst (get_quizzes s)) (snd (get_quizzes s))), s)"
  "client_request now GetStatsCall s = (ApiOk (StatsSnapshot (statsStore s)), s)"
  "snd (client_request now (GetQuizCall qid) s) = s"
  by (simp_all add: client_request_def api_call_def split: prod.split)

lemma go_to_page_server: "snd (go_to_page now p st s) = s"
  by (induction now p st s rule: go_to_page.induct)
    (simp add: go_to_page.simps Let_def client_request_reads dashboard_load_def)

lemma go_to_page_fields:
  "selected_quiz (fst (go_to_page now p st s)) = selected_quiz st \<and>
   nav_visible (fst (go_to_page now p st s)) = nav_visible st \<and>
   is_admin (fst (go_to_page now p st s)) = is_admin st \<and>
   user_address (fst (go_to_page now p st s)) = user_address st \<and>
   player (fst (go_to_page now p st s)) = player st"
  by (induction now p st s rule: go_to_page.induct)
    (simp add: go_to_page.simps Let_def client_request_reads dashboard_load_def)

lemma handle_submit_server:
  "snd (snd (handle_submit now u c s)) = s \<or>
   snd (snd (handle_submit now u c s)) = snd (client_request now (CreateQuizCall (quiz_data u (cr_form c))) s)"
  by (simp add: handle_submit_def Let_def split_beta split: api_result.split)

lemma player_submit_server:
  "snd (player_submit now u p s) = s \<or>
   (\<exists>qid ans. snd (player_submit now u p s) = snd (client_request now (PlayQuizCall qid u ans) s))"
  by (auto simp: player_submit_def split_beta split: option.split api_result.split payload.split)

lemma app_step_reachable:
  assumes "reachable s" shows "reachable (snd (app_step now e st s))"
proof (cases e)
  case (SelectQuiz qid)
  have "snd (handle_quiz_select now qid st s) = snd (handle now (GetQuiz qid) s)"
    by (simp add: handle_quiz_select_def split_beta client_request_state)
  then show ?thesis using SelectQuiz assms by simp
next
  case CreatorSubmit
  have "reachable (snd (client_request now c s))" for c
    unfolding client_request_state by (rule reachable.step [OF assms])
  then show ?thesis
    using CreatorSubmit assms handle_submit_server [of now "user_address st" "creator st" s]
    by (auto simp: split_beta)
next
  case PlayerSubmit
  have "reachable (snd (client_request now c s))" for c
    unfolding client_request_state by (rule reachable.step [OF assms])
  then show ?thesis
    using PlayerSubmit assms player_submit_server [of now "user_address st" "player st" s]
    by (auto simp: split_beta)
qed (simp_all add: assms go_to_page_server)

lemma app_reach_server: "app_reach p \<Longrightarrow> reachable (snd p)"
proof (induction p rule: app_reach.induct)
  case (boot s now u) then show ?case unfolding app_init_def snd_conv go_to_page_server .
next
  case (step st s e now) then show ?case using app_step_reachable by simp
next
  case (other st s now r) then show ?case by (simp add: reachable.step)
qed

lemma demo_values: "js_values (quizzesStore demo_server) = [demo_quiz]"
proof -
  have "\<not> is_array_index demo_id"
    using decimal_not_array_index [of 1700000000000] by (simp add: decimal_demo)
  then have "js_values (quizzesStore demo_server) = map snd (quizzesStore demo_server)"
    by (intro js_values_insertion_order) (simp add: demo_defs)
  then show ?thesis by (simp add: demo_defs)
qed

lemma demo_boot_eval:
  "demo_boot =
     (app_blank ''user_1''\<lparr>shown := ShowList (ListCards [quiz_card (safe_quiz demo_quiz)])\<rparr>, demo_server)"
  by (simp add: demo_boot_def app_init_def go_to_page.simps client_request_reads get_quizzes_def demo_values
      quiz_list_view_def app_blank_def)

lemma demo_boot_reach: "app_reach demo_boot"
  unfolding demo_boot_def by (rule app_reach.boot [OF reachable_demo_server])

lemma app_step_nav:
  assumes "nav_visible st = (selected_quiz st = None)"
  shows "nav_visible (fst (app_step now e st s)) = (selected_quiz (fst (app_step now e st s)) = None)"
  using assms go_to_page_fields
  by (cases e) (simp_all add: handle_quiz_select_def split_beta)

text \<open>
  C15. In every state of a session the tab bar is shown exactly while no quiz has been
  selected: \<open>handleQuizSelect\<close> hides it, and the only way back from a played quiz, the
  result page's button, calls \<open>goToPage\<close> and not \<open>goBackToQuizzes\<close>, so the dashboard and
  create tabs stay out of reach for the rest of the session.
\<close>

theorem nav_hidden_after_first_quiz:
  "app_reach p \<Longrightarrow> nav_visible (fst p) = (selected_quiz (fst p) = None)"
proof (induction p rule: app_reach.induct)
  case (boot s now u) then show ?case using go_to_page_fields by (simp add: app_init_def app_blank_def)
next
  case (step st s e now) then show ?case using app_step_nav by simp
next
  case (other st s now r) then show ?case by simp
qed

theorem nav_hidden_after_first_quiz_witness:
  "app_reach (fst (handle_quiz_select 2 demo_id (fst demo_boot) demo_server), demo_server) \<and>
   selected_quiz (fst (handle_quiz_select 2 demo_id (fst demo_boot) demo_server)) = Some demo_id \<and>
   \<not> nav_visible (fst (handle_quiz_select 2 demo_id (fst demo_boot) demo_server))"
proof -
  have off: "app_offered (SelectQuiz demo_id) (fst demo_boot)"
    by (simp add: demo_boot_eval quiz_card_def safe_quiz_def demo_defs)
  have e: "app_step 2 (SelectQuiz demo_id) (fst demo_boot) demo_server =
           (fst (handle_quiz_select 2 demo_id (fst demo_boot) demo_server), demo_server)"
    by (simp add: handle_quiz_select_def split_beta client_request_state)
  have r: "app_reach (fst (handle_quiz_select 2 demo_id (fst demo_boot) demo_server), demo_server)"
    using app_reach.step [OF _ off, of demo_server 2] demo_boot_reach e
    by (simp add: demo_boot_eval)
  have "selected_quiz (fst (handle_quiz_select 2 demo_id (fst demo_boot) demo_server)) = Some demo_id"
    by (simp add: handle_quiz_select_def split_beta)
  with nav_hidden_after_first_quiz [OF r] r show ?thesis by simp
qed

text \<open>
  Opening the create page resets the creator and shows it in admin mode, and otherwise
  is exactly opening the quiz list.
\<close>

theorem create_page_admin_gate:
  "go_to_page now ''create'' st s =
     (if is_admin st then (st\<lparr>current_page := ''create'', creator := creator_init, shown := ShowCreator\<rparr>, s)
      else go_to_page now ''quizzes'' st s)"
  by (simp add: go_to_page.simps [of now "''create''"] go_to_page.simps [of now "''quizzes''"]
      Let_def split_beta)

text \<open>
  C34. The admin gate is checked only when the create page is opened: switching admin mode
  off on that page leaves a working creator form in front of a user who is not in admin
  mode.
\<close>

theorem admin_toggle_leaves_creator_open:
  "\<exists>p. app_reach p \<and> shown (fst p) = ShowCreator \<and> \<not> is_admin (fst p) \<and>
       app_offered (CreatorInput (SetTitle ''t'')) (fst p)"
proof -
  let ?st0 = "fst demo_boot" and ?st1 = "(fst demo_boot)\<lparr>is_admin := True\<rparr>"
  let ?st2 = "?st1\<lparr>current_page := ''create'', creator := creator_init, shown := ShowCreator\<rparr>"
  have r0: "app_reach (?st0, demo_server)" using demo_boot_reach by (simp add: demo_boot_eval)
  have "app_reach (app_step 3 ToggleAdmin ?st0 demo_server)"
    by (rule app_reach.step [OF r0]) simp
  moreover have "\<not> is_admin ?st0" by (simp add: demo_boot_eval app_blank_def)
  ultimately have r1: "app_reach (?st1, demo_server)" by simp
  have o2: "app_offered (TabClick ''create'') ?st1" by (simp add: demo_boot_eval app_blank_def)
  have g: "go_to_page 3 ''create'' ?st1 demo_server = (?st2, demo_server)"
    by (simp add: go_to_page.simps [of 3 "''create''"] Let_def)
  have "app_reach (app_step 3 (TabClick ''create'') ?st1 demo_server)"
    by (rule app_reach.step [OF r1 o2])
  then have r2: "app_reach (?st2, demo_server)" by (simp only: app_step.simps g)
  have "app_reach (app_step 3 ToggleAdmin ?st2 demo_server)"
    by (rule app_reach.step [OF r2]) simp
  then have r3: "app_reach (?st2\<lparr>is_admin := False\<rparr>, demo_server)" by simp
  show ?thesis
    by (rule exI [of _ "(?st2\<lparr>is_admin := False\<rparr>, demo_server)"])
      (insert r3, simp add: creator_init_def)
qed

text \<open>
  Whatever a user does in the browser, with other clients' requests in between, the
  server stays in states that satisfy its invariant (\<open>server_inv\<close>: keys match records,
  counters match stores, at most one attempt per participant and quiz).
\<close>

theorem app_session_server_inv: "app_reach (st, s) \<Longrightarrow> server_inv s"
  using app_reach_server reachable_server_inv by fastforce

theorem app_session_server_inv_witness: "app_reach demo_boot \<and> server_inv demo_server"
  using app_session_server_inv [of "fst demo_boot" "snd demo_boot"] demo_boot_reach
  by (simp add: demo_boot_eval)

text \<open>
  C25. The dashboard shows the server's statistics and counts each stored quiz once, as
  active or inactive, with at most ten rows; on a reachable server the two counts never
  add up to more than the Total Quizzes card.
\<close>

theorem dashboard_reflects_server:
  assumes "reachable s"
  shows "dashboard_load now s =
           (DashShown \<lparr>dash_stats = statsStore s,
                       dash_active = length (filter is_active (js_values (quizzesStore s))),
                       dash_inactive = length (filter (\<lambda>q. \<not> is_active q) (js_values (quizzesStore s))),
                       dash_rows = take 10 (map (\<lambda>q. quiz_card (safe_quiz q)) (js_values (quizzesStore s)))\<rparr>,
            s) \<and>
         length (filter is_active (js_values (quizzesStore s))) +
         length (filter (\<lambda>q. \<not> is_active q) (js_values (quizzesStore s))) \<le> total_quizzes (statsStore s)"
proof -
  let ?qs = "js_values (quizzesStore s)"
  have c: "length (filter is_active ?qs) + length (filter (\<lambda>q. \<not> is_active q) ?qs) = length (quizzesStore s)"
    using sum_length_filter_compl [of is_active ?qs] by simp
  have "length (quizzesStore s) \<le> total_quizzes (statsStore s)"
    using server_invD(6) [OF reachable_server_inv [OF assms]] .
  with c show ?thesis
    by (simp add: dashboard_load_def client_request_reads get_quizzes_def dashboard_of_def Let_def
        safe_quiz_def comp_def)
qed

theorem dashboard_reflects_server_witness:
  "reachable demo_server \<and>
   dashboard_load 3 demo_server =
     (DashShown \<lparr>dash_stats = statsStore demo_server, dash_active = 1, dash_inactive = 0,
                 dash_rows = [quiz_card (safe_quiz demo_quiz)]\<rparr>, demo_server) \<and>
   1 \<le> total_quizzes (statsStore demo_server)"
  using dashboard_reflects_server [OF reachable_demo_server, of 3] reachable_demo_server
  unfolding demo_values by (simp add: demo_defs)

text \<open>
  The quiz list shows one card per stored quiz in \<open>Object.values\<close> order, whose
  Take Quiz button is enabled exactly for the active quizzes, and the empty state for an
  empty store.
\<close>

theorem quiz_list_cards:
  "shown (fst (go_to_page now ''quizzes'' st s)) =
     ShowList (if quizzesStore s = [] then ListEmpty
               else ListCards (map (\<lambda>q. \<lparr>card_id = quiz_id q, card_title = title q,
                                             card_questions = length (questions q),
                                             card_playable = is_active q\<rparr>)
                                  (js_values (quizzesStore s))))"
proof -
  have "js_values (quizzesStore s) = [] \<longleftrightarrow> quizzesStore s = []"
    using length_js_values [of "quizzesStore s"] by (metis length_0_conv)
  then show ?thesis
    by (simp add: go_to_page.simps client_request_reads get_quizzes_def quiz_list_view_def
        quiz_card_def safe_quiz_def comp_def)
qed

lemma trapped_step:
  assumes "replay_trapped (st, s)" and "app_offered e st"
  shows "replay_trapped (app_step now e st s)"
proof (cases e)
  case PlayerSubmit
  from assms(1) obtain v where "pl_quiz (player st) = Some v"
    and "map_of (participantsStore s) (participantKey (user_address st) (quiz_id (fst v))) \<noteq> None"
    by (auto simp: replay_trapped_def split: option.splits)
  then have "player_submit now (user_address st) (player st) s = (player st, s)"
    by (rule player_submit_played)
  then show ?thesis using PlayerSubmit assms(1) by simp
qed (use assms in \<open>auto simp: replay_trapped_def split: option.splits\<close>)

lemma trapped_other:
  assumes "replay_trapped (st, s)" shows "replay_trapped (st, snd (handle now r s))"
proof -
  from assms obtain v where q: "pl_quiz (player st) = Some v"
    and k: "map_of (participantsStore s) (participantKey (user_address st) (quiz_id (fst v))) \<noteq> None"
    by (auto simp: replay_trapped_def split: option.splits)
  have "map_of (participantsStore (snd (handle now r s))) (participantKey (user_address st) (quiz_id (fst v))) \<noteq> None"
    by (rule handle_keeps_participants [OF k])
  with assms q show ?thesis by (simp add: replay_trapped_def)
qed

lemma demo_played_eval:
  "demo_played = demo_server\<lparr>participantsStore := [(participantKey ''alice'' demo_id, new_attempt 5 ''alice'' demo_id [Some 1, Some 1] 1)],
                statsStore := init_stats\<lparr>total_quizzes := 1, total_participants := 1, highest_score := 1\<rparr>\<rparr>"
  by (simp add: demo_played_def demo_play)

lemma demo_replay_eval:
  "demo_replay =
     (app_blank ''alice''\<lparr>selected_quiz := Some demo_id, current_page := ''play'', nav_visible := False,
        player := player_load (ApiOk (QuizDetail (safe_quiz demo_quiz))) player_init, shown := ShowPlayer\<rparr>,
      demo_played)"
proof -
  have v: "js_values (quizzesStore demo_played) = [demo_quiz]"
    using demo_values by (simp add: demo_played_eval demo_defs)
  have g: "get_quiz demo_id demo_played = Inr (safe_quiz demo_quiz)"
    by (simp add: get_quiz_def demo_played_eval demo_defs)
  show ?thesis
    by (simp add: demo_replay_def go_to_page.simps client_request_reads get_quizzes_def v
        quiz_list_view_def handle_quiz_select_def client_request_def api_call_def g app_blank_def)
qed

text \<open>
  C16. A user who selects a quiz they have already played can never leave its player page:
  every event the page offers, and every request of another client, keeps them on it,
  since the page has no back button, the tabs stay hidden and the server refuses every
  submission.
\<close>

theorem replay_traps_player:
  "replay_trapped p \<Longrightarrow> app_session ss p = Some p' \<Longrightarrow> replay_trapped p' \<and> shown (fst p') = ShowPlayer"
proof (induction ss arbitrary: p)
  case Nil then show ?case by (auto simp: replay_trapped_def)
next
  case (Cons x ss)
  obtain st s where p: "p = (st, s)" by (cases p)
  show ?case
  proof (cases x)
    case (UserEvent now e)
    with Cons.prems p have "app_offered e st" and "app_session ss (app_step now e st s) = Some p'"
      by (simp_all split: if_splits)
    with Cons.IH trapped_step Cons.prems(1) p show ?thesis by blast
  next
    case (OtherRequest now r)
    with Cons.prems p have "app_session ss (st, snd (handle now r s)) = Some p'" by simp
    with Cons.IH trapped_other Cons.prems(1) p show ?thesis by blast
  qed
qed

theorem replay_traps_player_witness:
  "app_reach demo_replay \<and> replay_trapped demo_replay \<and>
   app_session [UserEvent 3 ToggleAdmin, OtherRequest 4 GetStats] demo_replay =
     Some ((fst demo_replay)\<lparr>is_admin := True\<rparr>, snd demo_replay) \<and>
   replay_trapped ((fst demo_replay)\<lparr>is_admin := True\<rparr>, snd demo_replay)"
proof -
  have boot: "app_reach (go_to_page 1 ''quizzes'' (app_blank ''alice'') demo_played)"
    using app_reach.boot [OF reachable_demo_played, of 1 "''alice''"] by (simp only: app_init_def)
  have v: "js_values (quizzesStore demo_played) = [demo_quiz]"
    using demo_values by (simp add: demo_played_eval demo_defs)
  have b: "go_to_page 1 ''quizzes'' (app_blank ''alice'') demo_played =
      (app_blank ''alice''\<lparr>shown := ShowList (ListCards [quiz_card (safe_quiz demo_quiz)])\<rparr>, demo_played)"
    by (simp add: go_to_page.simps client_request_reads get_quizzes_def v quiz_list_view_def app_blank_def)
  have o: "app_offered (SelectQuiz demo_id) (fst (go_to_page 1 ''quizzes'' (app_blank ''alice'') demo_played))"
    unfolding b by (simp add: quiz_card_def safe_quiz_def demo_defs)
  have r: "app_reach demo_replay"
    using app_reach.step [OF _ o, of demo_played 2] boot b
    by (simp add: demo_replay_def)
  have t: "replay_trapped demo_replay"
    by (simp add: demo_replay_eval replay_trapped_def player_load_def player_init_def safe_quiz_def
        demo_played_eval demo_defs app_blank_def)
  have a: "\<not> is_admin (fst demo_replay)" by (simp add: demo_replay_eval app_blank_def)
  have "app_session [UserEvent 3 ToggleAdmin, OtherRequest 4 GetStats] demo_replay =
        Some ((fst demo_replay)\<lparr>is_admin := True\<rparr>, snd demo_replay)"
    by (simp add: demo_replay_eval app_blank_def)
  with replay_traps_player [OF t this] r t show ?thesis by simp
qed

end
