(* ===== verification/Http.thy ===== *)
theory Http
  imports ApiClient
begin

text \<open>
  The HTTP boundary between the frontend and the server. On the server
  (\<open>src/backend/server.js\<close>), \<open>express.json()\<close> (line 12) parses the request body, a
  malformed body going to the error middleware (lines 212--215, status 500); Express
  matches the method and the path against the nine routes (lines 26--191) and extracts the
  path parameters; each handler destructures \<open>req.body\<close>; a request no route matches gets
  Express's own 404. On the client (\<open>src/frontend/js/api.js\<close>), each \<open>quizAPI\<close> method
  builds the path from \<open>API_BASE_URL\<close> and its arguments by template literals and the
  body by \<open>JSON.stringify\<close>, and \<open>apiCall\<close> decides on \<open>response.ok\<close>.

  JSON values are the datatype \<open>json\<close> (integers for numbers). A body field holding a
  value of a type the typed request model has no room for (a title that is a number, a
  question without options) is outside the model: \<open>serve\<close> answers \<open>None\<close> there.
  Percent-escapes in a path segment, which Express decodes, are outside the model as well.
\<close>

section \<open>JSON values and the JavaScript conversions the handlers apply\<close>

datatype json = JNull | JBool bool | JNum int | JStr string | JArr "json list"
  | JObj "(string \<times> json) list"

text \<open>\<open>JSON.parse\<close> keeps the last of duplicate keys.\<close>

definition json_field :: "json \<Rightarrow> string \<Rightarrow> json option" where
  "json_field v k = (case v of JObj kvs \<Rightarrow> map_of (rev kvs) k | _ \<Rightarrow> None)"

definition int_decimal :: "int \<Rightarrow> string" where
  "int_decimal n = (if n < 0 then CHR ''-'' # decimal (nat (- n)) else decimal (nat n))"

text \<open>\<open>Array.prototype.join\<close> with its default separator.\<close>

fun join_commas :: "string list \<Rightarrow> string" where
  "join_commas [] = []"
| "join_commas [w] = w"
| "join_commas (w # ws) = w @ CHR '','' # join_commas ws"

text \<open>\<open>String(v)\<close>: arrays join their elements with commas, \<open>null\<close> elements as empty.\<close>

fun js_str :: "json \<Rightarrow> string" where
  "js_str JNull = ''null''"
| "js_str (JBool b) = (if b then ''true'' else ''false'')"
| "js_str (JNum n) = int_decimal n"
| "js_str (JStr s) = s"
| "js_str (JArr xs) = join_commas (map (\<lambda>x. if x = JNull then [] else js_str x) xs)"
| "js_str (JObj kvs) = ''[object Object]''"

text \<open>A template literal \<open>`${v}`\<close> of a field that may be absent (\<open>undefined\<close>).\<close>

definition js_template :: "json option \<Rightarrow> string" where
  "js_template v = (case v of None \<Rightarrow> ''undefined'' | Some x \<Rightarrow> js_str x)"

definition json_truthy :: "json option \<Rightarrow> bool" where
  "json_truthy v =
     (case v of
        None \<Rightarrow> False | Some JNull \<Rightarrow> False | Some (JBool b) \<Rightarrow> b | Some (JNum n) \<Rightarrow> n \<noteq> 0
      | Some (JStr s) \<Rightarrow> s \<noteq> [] | Some _ \<Rightarrow> True)"

text \<open>
  Reading \<open>v.length\<close>: \<open>undefined\<close> and \<open>null\<close> throw a \<open>TypeError\<close>; arrays and
  strings have their length; an object has its \<open>length\<close> property, if any; numbers and
  booleans have none (\<open>undefined\<close>).
\<close>

datatype length_read = LengthThrows | LengthIs "json option"

definition js_length :: "json option \<Rightarrow> length_read" where
  "js_length v =
     (case v of
        None \<Rightarrow> LengthThrows | Some JNull \<Rightarrow> LengthThrows
      | Some (JArr xs) \<Rightarrow> LengthIs (Some (JNum (int (length xs))))
      | Some (JStr s) \<Rightarrow> LengthIs (Some (JNum (int (length s))))
      | Some (JObj kvs) \<Rightarrow> LengthIs (json_field (JObj kvs) ''length'')
      | Some _ \<Rightarrow> LengthIs None)"

text \<open>Reading \<open>v[i]\<close> (for an \<open>answers\<close> value whose length did not throw).\<close>

definition js_index :: "json option \<Rightarrow> nat \<Rightarrow> json option" where
  "js_index v i =
     (case v of
        Some (JArr xs) \<Rightarrow> (if i < length xs then Some (xs ! i) else None)
      | Some (JStr s) \<Rightarrow> (if i < length s then Some (JStr [s ! i]) else None)
      | Some (JObj kvs) \<Rightarrow> json_field (JObj kvs) (decimal i)
      | _ \<Rightarrow> None)"

text \<open>\<open>answers[i] === correct_answer\<close> holds only for a number: the answers as the model reads them.\<close>

definition answer_values :: "json option \<Rightarrow> nat \<Rightarrow> int option list" where
  "answer_values v n = map (\<lambda>i. case js_index v i of Some (JNum a) \<Rightarrow> Some a | _ \<Rightarrow> None) [0..<n]"

section \<open>Decoding the bodies\<close>

definition num_of_json :: "json option \<Rightarrow> num_field option" where
  "num_of_json v =
     (case v of None \<Rightarrow> Some Undef | Some JNull \<Rightarrow> Some Null | Some (JNum n) \<Rightarrow> Some (Num n)
      | Some _ \<Rightarrow> None)"

definition str_of_json :: "json option \<Rightarrow> string option" where
  "str_of_json v = (case v of Some (JStr s) \<Rightarrow> Some s | _ \<Rightarrow> None)"

fun is_jstr :: "json \<Rightarrow> bool" where
  "is_jstr (JStr s) = True"
| "is_jstr _ = False"

definition question_of_json :: "json \<Rightarrow> question option" where
  "question_of_json v =
     (case (json_field v ''question_text'', json_field v ''options'', json_field v ''correct_answer'') of
        (Some (JStr t), Some (JArr os), Some (JNum c)) \<Rightarrow>
          if list_all is_jstr os
          then Some \<lparr>question_text = t, options = map js_str os, correct_answer = c\<rparr> else None
      | _ \<Rightarrow> None)"

definition questions_of_json :: "json option \<Rightarrow> question list option" where
  "questions_of_json v =
     (case v of
        Some (JArr xs) \<Rightarrow> (let qs = map question_of_json xs
                          in if list_all (\<lambda>q. q \<noteq> None) qs then Some (map the qs) else None)
      | _ \<Rightarrow> None)"

text \<open>The fields of \<open>POST /api/quizzes\<close> (line 66), once its first check has passed.\<close>

definition create_of_json :: "json \<Rightarrow> create_request option" where
  "create_of_json b =
     (case (str_of_json (json_field b ''title''), str_of_json (json_field b ''description''),
            questions_of_json (json_field b ''questions''), num_of_json (json_field b ''reward_pool''),
            num_of_json (json_field b ''passing_score''), str_of_json (json_field b ''adminAddress'')) of
        (Some t, Some d, Some qs, Some rp, Some ps, Some a) \<Rightarrow>
          Some \<lparr>req_title = t, req_description = d, req_questions = qs, req_reward_pool = rp,
                req_passing_score = ps, req_admin = a\<rparr>
      | _ \<Rightarrow> None)"

section \<open>The play route on a JSON body\<close>

text \<open>
  Lines 97--153 on the body's \<open>participant\<close> and \<open>answers\<close> as JSON values. Once the
  quiz is found active, \<open>answers.length\<close> is read first: it throws (500, through the error
  middleware) when \<open>answers\<close> is missing or \<open>null\<close>, and is compared with \<code>!==</code>
  against the question count otherwise. The scoring loop reads \<open>answers[i]\<close> for each
  question. Before the quiz is found active the route does not touch \<open>answers\<close>, so
  \<open>play_quiz\<close> decides those branches for any list. The stored record keeps what the
  typed record can hold: the key string of \<open>participant\<close> as its address and the answers
  as the scoring loop read them, which are the raw values whenever the body is one the
  client sends (a string participant, an array of numbers and nulls).
\<close>

definition play_quiz_http ::
  "nat \<Rightarrow> string \<Rightarrow> json option \<Rightarrow> json option \<Rightarrow> server \<Rightarrow> (error + score_result) \<times> server" where
  "play_quiz_http now qid participant ans s =
     (case js_get (quizzesStore s) qid of
        Own q \<Rightarrow>
          (if \<not> is_active q then (Inl QuizNotActive, s)
           else (case js_length ans of
                   LengthThrows \<Rightarrow> (Inl InternalServerError, s)
                 | LengthIs l \<Rightarrow>
                     (if l \<noteq> Some (JNum (int (length (questions q)))) then (Inl AnswerCountMismatch, s)
                      else play_quiz now qid (js_template participant)
                             (answer_values ans (length (questions q))) s)))
      | _ \<Rightarrow> play_quiz now qid (js_template participant) [] s)"

section \<open>Routing\<close>

text \<open>
  The path of a URL is what precedes its query (\<open>?\<close>) or fragment (\<open>#\<close>); Express
  splits it at \<open>/\<close>, and (not in strict mode) lets one trailing slash match.
\<close>

definition url_path :: "string \<Rightarrow> string" where
  "url_path u = takeWhile (\<lambda>c. c \<noteq> CHR ''?'' \<and> c \<noteq> CHR ''#'') u"

fun split_slash :: "string \<Rightarrow> string list" where
  "split_slash [] = [[]]"
| "split_slash (c # cs) =
     (let ws = split_slash cs in if c = CHR ''/'' then [] # ws else (c # hd ws) # tl ws)"

definition path_segments :: "string \<Rightarrow> string list option" where
  "path_segments u =
     (case split_slash (url_path u) of
        [] # ws \<Rightarrow> Some (if 1 < length ws \<and> last ws = [] then butlast ws else ws)
      | _ \<Rightarrow> None)"

datatype http_method = GET | POST | PUT | PATCH | DELETE

record http_request =
  http_method :: http_method
  http_path :: string
  http_body :: "json option"

text \<open>
  Express matches the literal parts of a route without regard to case (its default
  \<open>caseSensitive: false\<close>); the parameters keep the case they are sent in.
\<close>

definition lower_char :: "char \<Rightarrow> char" where
  "lower_char c = (if 65 \<le> (of_char c :: nat) \<and> (of_char c :: nat) \<le> 90 then char_of (of_char c + (32::nat)) else c)"

definition lower_str :: "string \<Rightarrow> string" where
  "lower_str w = map lower_char w"

text \<open>The routes of lines 27--191, with their path parameters (\<open>:quizId\<close>, \<open>:address\<close>).\<close>

datatype route =
    RHealth | RQuizzes | RQuiz string | RCreate | RPlay string | RParticipant string string
  | RStats | RToggle string | RReward

definition route_of :: "http_method \<Rightarrow> string list \<Rightarrow> route option" where
  "route_of m segs =
     (case (m, segs) of
        (GET, [a, b]) \<Rightarrow>
          (if lower_str a = ''api'' \<and> lower_str b = ''health'' then Some RHealth
           else if lower_str a = ''api'' \<and> lower_str b = ''quizzes'' then Some RQuizzes
           else if lower_str a = ''api'' \<and> lower_str b = ''stats'' then Some RStats else None)
      | (POST, [a, b]) \<Rightarrow>
          (if lower_str a = ''api'' \<and> lower_str b = ''quizzes'' then Some RCreate else None)
      | (GET, [a, b, c]) \<Rightarrow>
          (if lower_str a = ''api'' \<and> lower_str b = ''quizzes'' \<and> c \<noteq> [] then Some (RQuiz c) else None)
      | (POST, [a, b, c]) \<Rightarrow>
          (if lower_str a = ''api'' \<and> lower_str b = ''rewards'' \<and> lower_str c = ''distribute''
           then Some RReward else None)
      | (POST, [a, b, c, d]) \<Rightarrow>
          (if lower_str a = ''api'' \<and> lower_str b = ''quizzes'' \<and> c \<noteq> [] \<and> lower_str d = ''play''
           then Some (RPlay c) else None)
      | (PATCH, [a, b, c, d]) \<Rightarrow>
          (if lower_str a = ''api'' \<and> lower_str b = ''quizzes'' \<and> c \<noteq> [] \<and> lower_str d = ''status''
           then Some (RToggle c) else None)
      | (GET, [a, b, c, d, e]) \<Rightarrow>
          (if lower_str a = ''api'' \<and> lower_str b = ''participants'' \<and> c \<noteq> [] \<and> lower_str d = ''quiz''
              \<and> e \<noteq> [] then Some (RParticipant c e) else None)
      | _ \<Rightarrow> None)"

definition route_params :: "route \<Rightarrow> string list" where
  "route_params rt =
     (case rt of RQuiz q \<Rightarrow> [q] | RPlay q \<Rightarrow> [q] | RParticipant a q \<Rightarrow> [a, q] | RToggle q \<Rightarrow> [q]
      | _ \<Rightarrow> [])"

section \<open>Serving a request\<close>

text \<open>
  What the client receives: a status with the JSON body of a handler (an error object or
  a payload), or Express's own 404 page when no route matches.
\<close>

datatype http_outcome = HttpReply nat "error + payload" | NoRoute

definition serve_request :: "nat \<Rightarrow> request \<Rightarrow> server \<Rightarrow> http_outcome \<times> server" where
  "serve_request now rq s = apfst (\<lambda>r. HttpReply (response_status rq r) r) (handle now rq s)"

text \<open>
  \<open>POST /api/quizzes\<close> checks \<open>!title || !questions || questions.length === 0\<close> on the
  raw body (line 69) before the typed handler sees the fields.
\<close>

definition create_http :: "nat \<Rightarrow> json \<Rightarrow> server \<Rightarrow> (http_outcome \<times> server) option" where
  "create_http now b s =
     (let qs = json_field b ''questions''
      in if \<not> json_truthy (json_field b ''title'') \<or> \<not> json_truthy qs
            \<or> js_length qs = LengthIs (Some (JNum 0))
         then Some (HttpReply (status_code InvalidQuizData) (Inl InvalidQuizData), s)
         else map_option (\<lambda>rq. serve_request now (CreateQuiz rq) s) (create_of_json b))"

definition play_http :: "nat \<Rightarrow> string \<Rightarrow> json \<Rightarrow> server \<Rightarrow> http_outcome \<times> server" where
  "play_http now qid b s =
     (let p = json_field b ''participant''; ans = json_field b ''answers'';
          rq = PlayQuiz qid (js_template p) (answer_values ans 0)
      in apfst (\<lambda>r. HttpReply (response_status rq r) r)
           (apfst (map_sum id ScoreReport) (play_quiz_http now qid p ans s)))"

text \<open>
  \<open>POST /api/rewards/distribute\<close> reads \<open>participant\<close> and \<open>quizId\<close> through the
  template literal of the key and the property read \<open>quizzesStore[quizId]\<close>, which
  convert alike. The reply echoes \<open>participant\<close>; the model's reply carries the key
  string, which is the raw value for a string participant (the only kind the client sends).
\<close>

definition reward_http :: "nat \<Rightarrow> json \<Rightarrow> server \<Rightarrow> (http_outcome \<times> server) option" where
  "reward_http now b s =
     map_option
       (\<lambda>amt. serve_request now
                (DistributeReward (js_template (json_field b ''participant''))
                   (js_template (json_field b ''quizId'')) amt) s)
       (num_of_json (json_field b ''rewardAmount''))"

definition dispatch :: "nat \<Rightarrow> route \<Rightarrow> json \<Rightarrow> server \<Rightarrow> (http_outcome \<times> server) option" where
  "dispatch now rt b s =
     (case rt of
        RHealth \<Rightarrow> Some (serve_request now Health s)
      | RQuizzes \<Rightarrow> Some (serve_request now GetQuizzes s)
      | RQuiz q \<Rightarrow> Some (serve_request now (GetQuiz q) s)
      | RCreate \<Rightarrow> create_http now b s
      | RPlay q \<Rightarrow> Some (play_http now q b s)
      | RParticipant a q \<Rightarrow> Some (serve_request now (GetParticipant a q) s)
      | RStats \<Rightarrow> Some (serve_request now GetStats s)
      | RToggle q \<Rightarrow> Some (serve_request now (ToggleStatus q) s)
      | RReward \<Rightarrow> reward_http now b s)"

text \<open>
  \<open>express.json()\<close> parses in strict mode: a body whose top-level value is not an object
  or an array is refused like malformed JSON.
\<close>

fun json_container :: "json \<Rightarrow> bool" where
  "json_container (JObj kvs) = True"
| "json_container (JArr xs) = True"
| "json_container _ = False"

text \<open>
  The whole server on one request: \<open>express.json()\<close> runs first for every request (a body
  it cannot parse, or a top-level primitive, goes to the error middleware, 500), then
  routing. \<open>http_body\<close> is the parsed body, \<open>None\<close> when it is not JSON;
  \<open>express.json()\<close> leaves an empty object when there is no body.
\<close>

definition serve :: "nat \<Rightarrow> http_request \<Rightarrow> server \<Rightarrow> (http_outcome \<times> server) option" where
  "serve now rq s =
     (case http_body rq of
        None \<Rightarrow> Some (HttpReply (status_code InternalServerError) (Inl InternalServerError), s)
      | Some b \<Rightarrow>
          (if \<not> json_container b
           then Some (HttpReply (status_code InternalServerError) (Inl InternalServerError), s)
           else
             (case Option.bind (path_segments (http_path rq)) (route_of (http_method rq)) of
                None \<Rightarrow> Some (NoRoute, s)
              | Some rt \<Rightarrow>
                  (if list_ex (\<lambda>w. CHR ''%'' \<in> set w) (route_params rt) then None
                   else dispatch now rt b s))))"

section \<open>The client's requests\<close>

definition json_of_num :: "num_field \<Rightarrow> (string \<times> json) list \<Rightarrow> string \<Rightarrow> (string \<times> json) list" where
  "json_of_num v kvs k = (case v of Undef \<Rightarrow> kvs | Null \<Rightarrow> kvs @ [(k, JNull)] | Num n \<Rightarrow> kvs @ [(k, JNum n)])"

definition json_of_question :: "question \<Rightarrow> json" where
  "json_of_question q =
     JObj [(''question_text'', JStr (question_text q)), (''options'', JArr (map JStr (options q))),
           (''correct_answer'', JNum (correct_answer q))]"

text \<open>\<open>JSON.stringify(quizData)\<close>: an \<open>undefined\<close> member is left out.\<close>

definition json_of_create :: "create_request \<Rightarrow> json" where
  "json_of_create r =
     JObj (json_of_num (req_passing_score r)
             (json_of_num (req_reward_pool r)
                [(''title'', JStr (req_title r)), (''description'', JStr (req_description r))]
                ''reward_pool'') ''passing_score''
           @ [(''questions'', JArr (map json_of_question (req_questions r))),
              (''adminAddress'', JStr (req_admin r))])"

definition json_of_answer :: "int option \<Rightarrow> json" where
  "json_of_answer a = (case a of None \<Rightarrow> JNull | Some n \<Rightarrow> JNum n)"

text \<open>\<open>apiCall(endpoint, options)\<close> with the URL \<open>`${API_BASE_URL}${endpoint}`\<close>.\<close>

definition api_request :: "http_method \<Rightarrow> string \<Rightarrow> json \<Rightarrow> http_request" where
  "api_request m endpoint b = \<lparr>http_method = m, http_path = ''/api'' @ endpoint, http_body = Some b\<rparr>"

primrec client_http :: "client_call \<Rightarrow> http_request" where
  "client_http GetQuizzesCall = api_request GET ''/quizzes'' (JObj [])"
| "client_http (GetQuizCall qid) = api_request GET (''/quizzes/'' @ qid) (JObj [])"
| "client_http (CreateQuizCall d) = api_request POST ''/quizzes'' (json_of_create d)"
| "client_http (PlayQuizCall qid p ans) =
     api_request POST (''/quizzes/'' @ qid @ ''/play'')
       (JObj [(''participant'', JStr p), (''answers'', JArr (map json_of_answer ans))])"
| "client_http (GetParticipantScoreCall a qid) =
     api_request GET (''/participants/'' @ a @ ''/quiz/'' @ qid) (JObj [])"
| "client_http GetStatsCall = api_request GET ''/stats'' (JObj [])"
| "client_http (ToggleQuizStatusCall qid) = api_request PATCH (''/quizzes/'' @ qid @ ''/status'') (JObj [])"
| "client_http (DistributeRewardCall p qid a) =
     api_request POST ''/rewards/distribute''
       (JObj (json_of_num a [(''participant'', JStr p), (''quizId'', JStr qid)] ''rewardAmount''))"

text \<open>\<open>apiCall\<close> on the response: \<open>response.ok\<close> is a 2xx status.\<close>

definition fetch_api :: "http_outcome \<Rightarrow> api_result" where
  "fetch_api out =
     (case out of
        NoRoute \<Rightarrow> ApiError (''HTTP error! status: '' @ decimal 404)
      | HttpReply st r \<Rightarrow>
          (if 200 \<le> st \<and> st \<le> 299 then api_call r else ApiError (''HTTP error! status: '' @ decimal st)))"

section \<open>Path conditions\<close>

text \<open>
  A path built from segments; a segment with no \<open>/\<close>, \<open>?\<close> or \<open>#\<close>; and an identifier
  the client can put into a path unchanged (non-empty, and nothing Express would decode).
\<close>

definition segs_path :: "string list \<Rightarrow> string" where
  "segs_path ws = concat (map (\<lambda>w. CHR ''/'' # w) ws)"

definition plain_segment :: "string \<Rightarrow> bool" where
  "plain_segment w \<longleftrightarrow> list_all (\<lambda>c. c \<notin> set ''/?#'') w"

definition path_safe :: "string \<Rightarrow> bool" where
  "path_safe w \<longleftrightarrow> w \<noteq> [] \<and> list_all (\<lambda>c. c \<notin> set ''/?#%'') w"

definition client_paths_ok :: "client_call \<Rightarrow> bool" where
  "client_paths_ok c =
     (case c of
        GetQuizCall q \<Rightarrow> path_safe q | PlayQuizCall q _ _ \<Rightarrow> path_safe q
      | GetParticipantScoreCall a q \<Rightarrow> path_safe a \<and> path_safe q
      | ToggleQuizStatusCall q \<Rightarrow> path_safe q | _ \<Rightarrow> True)"

section \<open>Properties\<close>


lemma split_slash_nonempty [simp]: "split_slash u \<noteq> []"
  by (cases u) (simp_all add: Let_def)

lemma split_slash_plain:
  "CHR ''/'' \<notin> set w \<Longrightarrow> split_slash (w @ rest) = (w @ hd (split_slash rest)) # tl (split_slash rest)"
  by (induction w) (auto simp: Let_def)

lemma split_slash_segs_path:
  "ws \<noteq> [] \<Longrightarrow> list_all plain_segment ws \<Longrightarrow> split_slash (segs_path ws) = [] # ws"
proof (induction ws)
  case Nil then show ?case by simp
next
  case (Cons w ws)
  have w: "CHR ''/'' \<notin> set w" using Cons.prems by (auto simp: plain_segment_def list_all_iff)
  show ?case
  proof (cases "ws = []")
    case True
    with w show ?thesis using split_slash_plain [OF w, of "[]"] by (simp add: segs_path_def)
  next
    case False
    with Cons have "split_slash (segs_path ws) = [] # ws" by simp
    with w show ?thesis
      using split_slash_plain [OF w, of "segs_path ws"] by (simp add: segs_path_def)
  qed
qed

lemma url_path_segs_path:
  "list_all plain_segment ws \<Longrightarrow> url_path (segs_path ws) = segs_path ws"
  by (induction ws) (auto simp: url_path_def segs_path_def plain_segment_def list_all_iff)

lemma path_segments_segs_path:
  assumes "ws \<noteq> []" "list_all plain_segment ws" "last ws \<noteq> []"
  shows "path_segments (segs_path ws) = Some ws"
  using assms by (simp add: path_segments_def url_path_segs_path split_slash_segs_path)

lemma plain_segment_simps [simp]:
  "plain_segment []" "plain_segment (c # w) \<longleftrightarrow> c \<notin> set ''/?#'' \<and> plain_segment w"
  by (simp_all add: plain_segment_def)

lemma path_safe_plain [simp]: "path_safe w \<Longrightarrow> plain_segment w"
  by (auto simp: path_safe_def plain_segment_def list_all_iff)

lemma path_safe_no_percent [simp]: "path_safe w \<Longrightarrow> CHR ''%'' \<notin> set w"
  by (auto simp: path_safe_def list_all_iff)

lemma path_safe_nonempty [simp]: "path_safe w \<Longrightarrow> w \<noteq> []"
  by (simp add: path_safe_def)

lemma serve_routed:
  assumes "http_body rq = Some b" "json_container b" "http_path rq = segs_path ws" "ws \<noteq> []"
    "list_all plain_segment ws" "last ws \<noteq> []"
    "route_of (http_method rq) ws = Some rt" "\<not> list_ex (\<lambda>w. CHR ''%'' \<in> set w) (route_params rt)"
  shows "serve now rq s = dispatch now rt b s"
  using assms by (simp add: serve_def path_segments_segs_path)

lemma question_roundtrip [simp]: "question_of_json (json_of_question q) = Some q"
  by (simp add: question_of_json_def json_of_question_def json_field_def list_all_iff comp_def)

lemma questions_roundtrip [simp]:
  "questions_of_json (Some (JArr (map json_of_question qs))) = Some qs"
  by (simp add: questions_of_json_def list_all_iff comp_def)

lemma json_field_create:
  "json_field (json_of_create r) ''title'' = Some (JStr (req_title r))"
  "json_field (json_of_create r) ''description'' = Some (JStr (req_description r))"
  "json_field (json_of_create r) ''questions'' = Some (JArr (map json_of_question (req_questions r)))"
  "json_field (json_of_create r) ''adminAddress'' = Some (JStr (req_admin r))"
  "num_of_json (json_field (json_of_create r) ''reward_pool'') = Some (req_reward_pool r)"
  "num_of_json (json_field (json_of_create r) ''passing_score'') = Some (req_passing_score r)"
  by (simp_all add: json_field_def json_of_create_def json_of_num_def num_of_json_def
      split: num_field.splits)

lemma create_of_json_roundtrip: "create_of_json (json_of_create r) = Some r"
  by (simp add: create_of_json_def json_field_create str_of_json_def)

lemma create_http_client:
  "create_http now (json_of_create r) s = Some (serve_request now (CreateQuiz r) s)"
  by (simp add: create_http_def json_field_create json_truthy_def js_length_def
      create_of_json_roundtrip serve_request_def create_quiz_def response_status_def)

lemma answer_values_array:
  "answer_values (Some (JArr (map json_of_answer ans))) (length ans) = ans"
  by (rule nth_equalityI) (simp_all add: answer_values_def js_index_def json_of_answer_def
      split: option.splits)

lemma play_quiz_answers_unused:
  "(\<forall>q. js_get (quizzesStore s) qid \<noteq> Own q) \<Longrightarrow> play_quiz now qid p ans s = play_quiz now qid p ans' s"
  by (simp add: play_quiz_def split: js_prop.splits)

lemma play_quiz_http_own_array:
  "js_get (quizzesStore s) qid = Own q \<Longrightarrow>
   play_quiz_http now qid (Some (JStr p)) (Some (JArr xs)) s =
     (if \<not> is_active q then (Inl QuizNotActive, s)
      else if length xs \<noteq> length (questions q) then (Inl AnswerCountMismatch, s)
      else play_quiz now qid p (answer_values (Some (JArr xs)) (length (questions q))) s)"
  unfolding play_quiz_http_def js_length_def js_template_def by simp

lemma play_quiz_http_array:
  "play_quiz_http now qid (Some (JStr p)) (Some (JArr (map json_of_answer ans))) s =
   play_quiz now qid p ans s"
proof (cases "js_get (quizzesStore s) qid")
  case (Own q)
  show ?thesis
  proof (cases "length ans = length (questions q)")
    case True
    then have "answer_values (Some (JArr (map json_of_answer ans))) (length (questions q)) = ans"
      using answer_values_array [of ans] by simp
    with Own True show ?thesis
      by (simp only: play_quiz_http_own_array length_map) (simp add: play_quiz_def)
  next
    case False
    with Own show ?thesis by (simp add: play_quiz_http_own_array play_quiz_def)
  qed
next
  case Absent then show ?thesis
    by (simp add: play_quiz_http_def js_template_def) (rule play_quiz_answers_unused, simp)
next
  case (Inherited n) then show ?thesis
    by (simp add: play_quiz_http_def js_template_def) (rule play_quiz_answers_unused, simp)
qed

lemma json_container_create [simp]: "json_container (json_of_create r)"
  by (simp add: json_of_create_def)

lemma serve_api_request:
  assumes "json_container b" "list_all plain_segment ws" "ws = [] \<or> last ws \<noteq> []"
    "route_of m (''api'' # ws) = Some rt" "\<not> list_ex (\<lambda>w. CHR ''%'' \<in> set w) (route_params rt)"
  shows "serve now (api_request m (segs_path ws) b) s = dispatch now rt b s"
  using assms
  by (intro serve_routed [where ws = "''api'' # ws"])
     (auto simp: api_request_def segs_path_def plain_segment_def)

lemma client_http_segs:
  "client_http GetQuizzesCall = api_request GET (segs_path [''quizzes'']) (JObj [])"
  "client_http (GetQuizCall qid) = api_request GET (segs_path [''quizzes'', qid]) (JObj [])"
  "client_http (CreateQuizCall d) = api_request POST (segs_path [''quizzes'']) (json_of_create d)"
  "client_http (PlayQuizCall qid p ans) =
     api_request POST (segs_path [''quizzes'', qid, ''play''])
       (JObj [(''participant'', JStr p), (''answers'', JArr (map json_of_answer ans))])"
  "client_http (GetParticipantScoreCall a qid) =
     api_request GET (segs_path [''participants'', a, ''quiz'', qid]) (JObj [])"
  "client_http GetStatsCall = api_request GET (segs_path [''stats'']) (JObj [])"
  "client_http (ToggleQuizStatusCall qid) = api_request PATCH (segs_path [''quizzes'', qid, ''status'']) (JObj [])"
  "client_http (DistributeRewardCall p qid amt) =
     api_request POST (segs_path [''rewards'', ''distribute''])
       (JObj (json_of_num amt [(''participant'', JStr p), (''quizId'', JStr qid)] ''rewardAmount''))"
  by (simp_all add: segs_path_def)

lemma reward_http_client:
  "reward_http now (JObj (json_of_num a [(''participant'', JStr p), (''quizId'', JStr qid)] ''rewardAmount'')) s =
   Some (serve_request now (DistributeReward p qid a) s)"
  by (cases a) (simp_all add: reward_http_def json_of_num_def json_field_def num_of_json_def js_template_def)

lemma play_http_client:
  "play_http now qid (JObj [(''participant'', JStr p), (''answers'', JArr (map json_of_answer ans))]) s =
   serve_request now (PlayQuiz qid p ans) s"
  by (simp add: play_http_def json_field_def play_quiz_http_array serve_request_def response_status_def
      apfst_def map_prod_def split_beta sum.case_eq_if)

lemma serve_client_http:
  "client_paths_ok c \<Longrightarrow> serve now (client_http c) s = Some (serve_request now (quiz_api c) s)"
  by (cases c)
     (simp_all del: client_http.simps add: client_paths_ok_def client_http_segs serve_api_request route_of_def lower_str_def lower_char_def
        route_params_def dispatch_def create_http_client play_http_client
        reward_http_client)

lemma fetch_api_reply: "fetch_api (HttpReply (response_status rq r) r) = api_call r"
  using response_status_range [of rq r]
  by (cases r) (auto simp: fetch_api_def api_call_def response_status_def)

lemma json_container_obj: "json_container (JObj kvs)"
  by simp

lemma json_field_container: "json_field b k \<noteq> None \<Longrightarrow> json_container b"
  by (cases b) (simp_all add: json_field_def)

lemma serve_not_container:
  "\<not> json_container b \<Longrightarrow>
   serve now (api_request m p b) s = Some (HttpReply 500 (Inl InternalServerError), s)"
  by (simp add: serve_def api_request_def)

lemma serve_play_path:
  "path_safe qid \<Longrightarrow> json_container b \<Longrightarrow>
   serve now (api_request POST (''/quizzes/'' @ qid @ ''/play'') b) s = Some (play_http now qid b s)"
  using serve_api_request [of b "[''quizzes'', qid, ''play'']" POST "RPlay qid" now s]
  by (simp add: segs_path_def route_of_def lower_str_def lower_char_def route_params_def dispatch_def)

lemma play_quiz_http_own:
  "js_get (quizzesStore s) qid = Own q \<Longrightarrow> is_active q \<Longrightarrow>
   js_length ans = LengthIs (Some (JNum (int (length (questions q))))) \<Longrightarrow>
   play_quiz_http now qid p ans s =
     play_quiz now qid (js_template p) (answer_values ans (length (questions q))) s"
  by (simp add: play_quiz_http_def)

lemma length_answer_values [simp]: "length (answer_values v n) = n"
  by (simp add: answer_values_def)

lemma play_quiz_http_success:
  assumes "play_quiz_http now qid p ans s = (Inr res, s')"
  obtains q where "js_get (quizzesStore s) qid = Own q" "is_active q"
    "js_length ans = LengthIs (Some (JNum (int (length (questions q)))))"
    "play_quiz now qid (js_template p) (answer_values ans (length (questions q))) s = (Inr res, s')"
proof (cases "js_get (quizzesStore s) qid")
  case (Own q)
  with assms that show ?thesis
    by (auto simp: play_quiz_http_def split: if_splits length_read.splits)
next
  case Absent
  with assms show ?thesis by (auto simp: play_quiz_http_def elim: play_quiz_success_cases)
next
  case (Inherited n)
  with assms show ?thesis by (auto simp: play_quiz_http_def elim: play_quiz_success_cases)
qed

lemma play_http_success:
  assumes "play_http now qid b s = (HttpReply st (Inr d), s')"
  obtains q res where "js_get (quizzesStore s) qid = Own q" "is_active q"
    "js_length (json_field b ''answers'') = LengthIs (Some (JNum (int (length (questions q)))))"
    "play_quiz now qid (js_template (json_field b ''participant''))
       (answer_values (json_field b ''answers'') (length (questions q))) s = (Inr res, s')"
proof -
  obtain r s'' where eq: "play_quiz_http now qid (json_field b ''participant'') (json_field b ''answers'') s =
    (r, s'')" by (cases "play_quiz_http now qid (json_field b ''participant'') (json_field b ''answers'') s")
  with assms obtain res where "r = Inr res" "s'' = s'"
    by (cases r) (simp_all add: play_http_def)
  with eq that show ?thesis by (auto elim: play_quiz_http_success)
qed

lemma calculate_score_unanswered: "calculate_score qs (replicate n None) = 0"
  by (simp add: calculate_score_def score_loop_count count_correct_all_null)

lemma answer_values_string: "answer_values (Some (JStr str)) n = replicate n None"
  by (rule nth_equalityI) (simp_all add: answer_values_def js_index_def)

lemma demo_quiz_own: "js_get (quizzesStore demo_server) demo_id = Own demo_quiz"
  by (simp add: demo_server_def js_get_def demo_id_def object_prototype_members_def)

lemma demo_quiz_active: "is_active demo_quiz"
  by (simp add: demo_quiz_def)

lemma path_safe_demo_id: "path_safe demo_id"
  by (simp add: path_safe_def demo_id_def)

text \<open>
  C10. Every request the frontend's \<open>quizAPI\<close> sends, with identifiers that can stand in a
  path unchanged, reaches the route it names through Express's routing and
  \<open>express.json()\<close>, with a body the route decodes back into exactly the arguments the
  client passed; \<open>apiCall\<close>'s decision on the HTTP status then gives the client
  precisely the result of the typed model \<open>client_request\<close>, and the server state changes
  exactly as the route changes it.
\<close>

theorem http_client_refines:
  "client_paths_ok c \<Longrightarrow>
   map_option (apfst fetch_api) (serve now (client_http c) s) = Some (client_request now c s)"
  by (simp add: serve_client_http serve_request_def client_request_def apfst_def map_prod_def
      split_beta fetch_api_reply)

theorem http_client_refines_witness:
  "client_paths_ok (GetQuizCall demo_id) \<and>
   map_option (apfst fetch_api) (serve 5 (client_http (GetQuizCall demo_id)) demo_server) =
   Some (client_request 5 (GetQuizCall demo_id) demo_server)"
  using http_client_refines [of "GetQuizCall demo_id" 5 demo_server]
  by (simp add: client_paths_ok_def path_safe_demo_id)

lemma apfst_eq_iff: "apfst f p = (a, b) \<longleftrightarrow> f (fst p) = a \<and> snd p = b"
  by (cases p) auto

lemma serve_reply_status:
  "serve now rq s = Some (HttpReply st r, s') \<Longrightarrow>
   (\<exists>rq'. st = response_status rq' r) \<or> (st, r) \<in> {(500, Inl InternalServerError), (400, Inl InvalidQuizData)}"
  by (auto simp: serve_def dispatch_def create_http_def reward_http_def play_http_def
      serve_request_def apfst_eq_iff Let_def split: option.splits route.splits if_splits)

text \<open>
  C19. Every reply the server sends to any HTTP request, including a malformed body and a
  body of any JSON shape, carries one of the statuses the API documents (200 or 201 on
  success, 400, 404 or 500 on error), and the status is a 2xx exactly when the body is a
  success payload.
\<close>

theorem serve_status_type:
  "serve now rq s = Some (HttpReply st r, s') \<Longrightarrow>
   st \<in> {200, 201, 400, 404, 500} \<and> (200 \<le> st \<and> st \<le> 299 \<longleftrightarrow> (\<exists>d. r = Inr d))"
proof -
  assume "serve now rq s = Some (HttpReply st r, s')"
  then consider rq' where "st = response_status rq' r" | "st = 500" "r = Inl InternalServerError"
    | "st = 400" "r = Inl InvalidQuizData"
    by (blast dest: serve_reply_status)
  then show ?thesis
  proof cases
    case (1 rq') then show ?thesis using response_status_range [of rq' r] by simp
  qed simp_all
qed

theorem serve_status_type_witness:
  "serve 1 (client_http GetStatsCall) init_server =
     Some (HttpReply 200 (Inr (StatsSnapshot init_stats)), init_server) \<and>
   (200::nat) \<in> {200, 201, 400, 404, 500} \<and>
   ((200::nat) \<le> 200 \<and> (200::nat) \<le> 299 \<longleftrightarrow> (\<exists>d. (Inr (StatsSnapshot init_stats) :: error + payload) = Inr d))"
proof -
  have eq: "serve 1 (client_http GetStatsCall) init_server =
     Some (HttpReply 200 (Inr (StatsSnapshot init_stats)), init_server)"
    using serve_client_http [of GetStatsCall 1 init_server]
    by (simp add: client_paths_ok_def serve_request_def response_status_def init_server_def)
  show ?thesis using serve_status_type [OF eq] eq by simp
qed

text \<open>
  C29. A play request for an existing active quiz whose body has no \<open>answers\<close> member, or a
  \<open>null\<close> one, is not answered with the 400 of the answer-count check: reading
  \<open>answers.length\<close> throws and the error middleware answers 500, state unchanged.
\<close>

theorem play_missing_answers_500:
  assumes "path_safe qid" "js_get (quizzesStore s) qid = Own q" "is_active q"
    "json_field b ''answers'' \<in> {None, Some JNull}"
  shows "serve now (api_request POST (''/quizzes/'' @ qid @ ''/play'') b) s =
         Some (HttpReply 500 (Inl InternalServerError), s)"
proof (cases "json_container b")
  case True
  then show ?thesis
    unfolding serve_play_path [OF assms(1) True] using assms(2-4)
    by (auto simp: play_http_def play_quiz_http_def js_length_def response_status_def)
qed (simp add: serve_not_container)

theorem play_missing_answers_500_witness:
  "path_safe demo_id \<and> js_get (quizzesStore demo_server) demo_id = Own demo_quiz \<and>
   is_active demo_quiz \<and> json_field (JObj [(''participant'', JStr ''alice'')]) ''answers'' \<in> {None, Some JNull} \<and>
   serve 7 (api_request POST (''/quizzes/'' @ demo_id @ ''/play'') (JObj [(''participant'', JStr ''alice'')]))
     demo_server = Some (HttpReply 500 (Inl InternalServerError), demo_server)"
  using play_missing_answers_500 [OF path_safe_demo_id demo_quiz_own, where now = 7 and b = "JObj [(''participant'', JStr ''alice'')]"]
  by (simp add: path_safe_demo_id demo_quiz_own demo_quiz_active json_field_def)

lemma play_http_already_played:
  assumes "js_get (quizzesStore s) qid = Own q" "is_active q"
    "js_length (json_field b ''answers'') = LengthIs (Some (JNum (int (length (questions q)))))"
    "map_of (participantsStore s) (participantKey (js_template (json_field b ''participant'')) qid) \<noteq> None"
  shows "play_http now qid b s = (HttpReply 400 (Inl AlreadyPlayed), s)"
  using assms
  by (simp add: play_http_def play_quiz_http_own play_quiz_def js_has_plain response_status_def)

text \<open>
  C32. Once a play request without a \<open>participant\<close> member has been accepted, the attempt is
  stored under the key \<open>undefined-<quizId>\<close>: every later play of that quiz without a
  participant, or by the participant named \<open>undefined\<close>, is refused as already played.
\<close>

theorem anonymous_players_share_record:
  assumes "path_safe qid" "json_field b ''participant'' = None"
    "serve now (api_request POST (''/quizzes/'' @ qid @ ''/play'') b) s = Some (HttpReply st (Inr d), s')"
    "json_field b' ''participant'' \<in> {None, Some (JStr ''undefined'')}"
    "js_length (json_field b' ''answers'') = js_length (json_field b ''answers'')"
  shows "serve now' (api_request POST (''/quizzes/'' @ qid @ ''/play'') b') s' =
         Some (HttpReply 400 (Inl AlreadyPlayed), s')"
proof -
  have cb: "json_container b"
  proof (rule ccontr)
    assume "\<not> json_container b"
    with assms(3) show False by (simp add: serve_not_container)
  qed
  from assms(3) have "play_http now qid b s = (HttpReply st (Inr d), s')"
    unfolding serve_play_path [OF assms(1) cb] by simp
  then obtain q res where q: "js_get (quizzesStore s) qid = Own q" "is_active q"
    and len: "js_length (json_field b ''answers'') = LengthIs (Some (JNum (int (length (questions q)))))"
    and play: "play_quiz now qid ''undefined'' (answer_values (json_field b ''answers'') (length (questions q))) s
               = (Inr res, s')"
    using assms(2) by (auto simp: js_template_def elim: play_http_success)
  from play have "quizzesStore s' = quizzesStore s"
    and "map_of (participantsStore s') (participantKey ''undefined'' qid) \<noteq> None"
    by (auto elim: play_quiz_success_cases)
  moreover have "js_template (json_field b' ''participant'') = ''undefined''"
    using assms(4) by (auto simp: js_template_def)
  ultimately have "play_http now' qid b' s' = (HttpReply 400 (Inl AlreadyPlayed), s')"
    using q len assms(5) by (intro play_http_already_played) simp_all
  moreover have "json_field b' ''answers'' \<noteq> None"
    using assms(5) len by (cases "json_field b' ''answers''") (simp_all add: js_length_def)
  then have cb': "json_container b'" by (rule json_field_container)
  ultimately show ?thesis unfolding serve_play_path [OF assms(1) cb'] by simp
qed

lemma demo_anonymous_play:
  "serve 5 (api_request POST (''/quizzes/'' @ demo_id @ ''/play'') (JObj [(''answers'', JArr [JNum 1, JNum 1])]))
     demo_server =
   Some (HttpReply 200 (Inr (ScoreReport \<lparr>result_score = 1, total_questions = 2, passed = True,
           reward_eligible = True, message = ''Congratulations! You passed!''\<rparr>)),
         demo_server\<lparr>participantsStore :=
             [(participantKey ''undefined'' demo_id, new_attempt 5 ''undefined'' demo_id [Some 1, Some 1] 1)],
           statsStore := init_stats\<lparr>total_quizzes := 1, total_participants := 1, highest_score := 1\<rparr>\<rparr>)"
proof -
  have "length (questions demo_quiz) = 2" by (simp add: demo_quiz_def demo_questions_def)
  moreover have "answer_values (Some (JArr [JNum 1, JNum 1])) 2 = [Some 1, Some 1]"
    by (simp add: answer_values_def js_index_def upt_rec)
  ultimately show ?thesis
    unfolding serve_play_path [OF path_safe_demo_id json_container_obj]
    by (simp add: play_http_def play_quiz_http_own [OF demo_quiz_own demo_quiz_active] json_field_def
        js_length_def js_template_def demo_play response_status_def)
qed

theorem anonymous_players_share_record_witness:
  "path_safe demo_id \<and> json_field (JObj [(''answers'', JArr [JNum 1, JNum 1])]) ''participant'' = None \<and>
   serve 5 (api_request POST (''/quizzes/'' @ demo_id @ ''/play'') (JObj [(''answers'', JArr [JNum 1, JNum 1])]))
     demo_server =
   Some (HttpReply 200 (Inr (ScoreReport \<lparr>result_score = 1, total_questions = 2, passed = True,
           reward_eligible = True, message = ''Congratulations! You passed!''\<rparr>)),
         demo_server\<lparr>participantsStore :=
             [(participantKey ''undefined'' demo_id, new_attempt 5 ''undefined'' demo_id [Some 1, Some 1] 1)],
           statsStore := init_stats\<lparr>total_quizzes := 1, total_participants := 1, highest_score := 1\<rparr>\<rparr>) \<and>
   json_field (JObj [(''participant'', JStr ''undefined''), (''answers'', JArr [JNull, JNull])]) ''participant''
     \<in> {None, Some (JStr ''undefined'')} \<and>
   js_length (json_field (JObj [(''participant'', JStr ''undefined''), (''answers'', JArr [JNull, JNull])]) ''answers'') =
   js_length (json_field (JObj [(''answers'', JArr [JNum 1, JNum 1])]) ''answers'') \<and>
   serve 6 (api_request POST (''/quizzes/'' @ demo_id @ ''/play'')
       (JObj [(''participant'', JStr ''undefined''), (''answers'', JArr [JNull, JNull])]))
     (demo_server\<lparr>participantsStore :=
             [(participantKey ''undefined'' demo_id, new_attempt 5 ''undefined'' demo_id [Some 1, Some 1] 1)],
           statsStore := init_stats\<lparr>total_quizzes := 1, total_participants := 1, highest_score := 1\<rparr>\<rparr>) =
   Some (HttpReply 400 (Inl AlreadyPlayed),
     demo_server\<lparr>participantsStore :=
             [(participantKey ''undefined'' demo_id, new_attempt 5 ''undefined'' demo_id [Some 1, Some 1] 1)],
           statsStore := init_stats\<lparr>total_quizzes := 1, total_participants := 1, highest_score := 1\<rparr>\<rparr>)"
  using anonymous_players_share_record [OF path_safe_demo_id _ demo_anonymous_play,
      where now' = 6 and b' = "JObj [(''participant'', JStr ''undefined''), (''answers'', JArr [JNull, JNull])]"]
    demo_anonymous_play
  by (simp add: path_safe_demo_id json_field_def js_length_def)

text \<open>
  C33. A play request whose \<open>answers\<close> is a string with one character per question passes
  the answer-count check, scores 0, and stores the attempt, so the participant can never
  play that quiz again.
\<close>

theorem string_answers_consume_attempt:
  assumes "path_safe qid" "js_get (quizzesStore s) qid = Own q" "is_active q"
    "length str = length (questions q)" "map_of (participantsStore s) (participantKey p qid) = None"
  shows "\<exists>res s'.
    serve now (api_request POST (''/quizzes/'' @ qid @ ''/play'')
                 (JObj [(''participant'', JStr p), (''answers'', JStr str)])) s =
      Some (HttpReply 200 (Inr (ScoreReport res)), s') \<and>
    result_score res = 0 \<and> map_of (participantsStore s') (participantKey p qid) \<noteq> None"
proof -
  have "map_of (quizzesStore s) qid = Some q" using assms(2) by (simp add: js_get_Own_iff)
  then show ?thesis
    unfolding serve_play_path [OF assms(1) json_container_obj] using assms(2-5)
    by (simp add: play_http_def play_quiz_http_own js_length_def json_field_def js_template_def
        answer_values_string play_quiz_own_valid calculate_score_unanswered response_status_def Let_def)
qed

theorem string_answers_consume_attempt_witness:
  "path_safe demo_id \<and> js_get (quizzesStore demo_server) demo_id = Own demo_quiz \<and> is_active demo_quiz \<and>
   length ''ab'' = length (questions demo_quiz) \<and>
   map_of (participantsStore demo_server) (participantKey ''alice'' demo_id) = None \<and>
   (\<exists>res s'.
    serve 5 (api_request POST (''/quizzes/'' @ demo_id @ ''/play'')
               (JObj [(''participant'', JStr ''alice''), (''answers'', JStr ''ab'')])) demo_server =
      Some (HttpReply 200 (Inr (ScoreReport res)), s') \<and>
    result_score res = 0 \<and> map_of (participantsStore s') (participantKey ''alice'' demo_id) \<noteq> None)"
proof -
  have len: "length ''ab'' = length (questions demo_quiz)" by (simp add: demo_quiz_def demo_questions_def)
  have none: "map_of (participantsStore demo_server) (participantKey ''alice'' demo_id) = None"
    by (simp add: demo_server_def init_server_def)
  show ?thesis
    using string_answers_consume_attempt [OF path_safe_demo_id demo_quiz_own demo_quiz_active len none,
        where now = 5] len none
    by (simp add: path_safe_demo_id demo_quiz_own demo_quiz_active)
qed

end
