(* ===== verification/Spec2Isabelle.thy ===== *)
theory Spec2Isabelle
  imports App Http
begin

text \<open>
  \<^bold>\<open>A verification library for the Decentralized Quiz App.\<close>

  \<^medskip>\<^bold>\<open>The program.\<close> \<open>src/backend/server.js\<close> is an Express server holding three
  process-wide objects: \<open>quizzesStore\<close> (quiz id to quiz), \<open>participantsStore\<close>
  (the string \<open>participant-quizId\<close> to a participation record) and \<open>statsStore\<close>
  (four counters). Nine routes read and write them: health, list quizzes, get a quiz,
  create a quiz, play a quiz, get a participation record, get the statistics, toggle a
  quiz's status and distribute a reward. The browser frontend calls these routes through
  \<open>src/frontend/js/api.js\<close> (\<open>apiCall\<close>, \<open>quizAPI\<close>) and renders the answers with
  the components of \<open>src/frontend/js/components.js\<close> (\<open>QuizList\<close>, \<open>QuizPlayer\<close>,
  \<open>QuizCreator\<close>, \<open>Dashboard\<close>), navigated by the \<open>app\<close> object of
  \<open>src/frontend/js/app.js\<close>.

  \<^medskip>\<^bold>\<open>Theories and what they model.\<close>
  \<^item> \<open>Prelude\<close>: decimal strings (\<open>Date.now().toString()\<close> gives quiz ids) and the
    separator lemmas behind the participant key.
  \<^item> \<open>JsObject\<close>: the JavaScript semantics the server depends on. A JSON number field
    is \<open>Undef | Null | Num int\<close>; comparisons and \<open>+\<close> go through ToNumber (NaN is
    \<open>None\<close>). A plain object used as a dictionary is an insertion-ordered association
    list whose reads also find the members of \<open>Object.prototype\<close> (\<open>js_get\<close>),
    whose assignment updates in place or appends (\<open>js_put\<close>, refining map update)
    and whose \<open>Object.values\<close> order is \<open>js_values\<close>.
  \<^item> \<open>QuizModel\<close>: the records \<open>question\<close>, \<open>quiz\<close>, \<open>attempt\<close>, \<open>stats\<close>, the
    server state \<open>server\<close>, the request body \<open>create_request\<close>, the error responses
    with their status codes and \<open>participantKey\<close> (line 115).
  \<^item> \<open>Scoring\<close>: the scoring loop (121--126) twice: as \<open>score_loop\<close>, a
    \<open>function\<close> terminating by the measure \<open>length qs - i\<close>, and as the \<open>for\<close>
    statement it is (\<open>score_for\<close>, a \<open>while_option\<close> over \<open>(i, score)\<close>); both equal
    the reference \<open>count_correct\<close>.
  \<^item> \<open>Fixtures\<close>: a two-question quiz and the server state after creating it.
  \<^item> \<open>QuizRoutes\<close>, \<open>PlayRoute\<close>, \<open>RewardRoute\<close>: the handlers \<open>get_quizzes\<close>,
    \<open>get_quiz\<close>, \<open>create_quiz\<close>, \<open>toggle_status\<close> (lines 32--94, 180--188),
    \<open>play_quiz\<close>, \<open>get_participant\<close> (97--172) and \<open>distribute_reward\<close> (191--210).
  \<^item> \<open>Api\<close>: the route table (\<open>request\<close>, \<open>handle\<close>), response statuses
    (\<open>response_status\<close>), runs of requests, the states \<open>reachable\<close> from a fresh
    process and the invariant \<open>server_inv\<close> they all satisfy.
  \<^item> \<open>ApiClient\<close>: \<open>apiCall\<close> and \<open>quizAPI\<close> (\<open>api_call\<close>, \<open>quiz_api\<close>) and their
    composition with the server (\<open>client_request\<close>).
  \<^item> \<open>QuizPlayer\<close>: the player's state, \<open>render\<close>, its navigation handlers, the
    events a rendered page offers, \<open>submitQuiz\<close> and the result page
    (\<open>render_result\<close>); runs of offered events (\<open>player_run\<close>).
  \<^item> \<open>QuizCreator\<close>: the creator's form, \<open>addQuestion\<close>, \<open>removeQuestion\<close> and
    \<open>handleSubmit\<close>, with \<open>trim\<close>, \<open>parseInt\<close> and \<open>JSON.stringify\<close> of numbers;
    the browser's constraint validation of the form (\<open>form_constraints_ok\<close>) guards the
    submit event.
  \<^item> \<open>App\<close>: the quiz list and dashboard views, the \<open>app\<close> state with \<open>goToPage\<close>,
    \<open>handleQuizSelect\<close>, \<open>goBackToQuizzes\<close> and the admin toggle, one step per user
    event (\<open>app_step\<close>, offered by \<open>app_offered\<close>), sessions with other clients'
    requests interleaved (\<open>app_reach\<close>, \<open>app_session\<close>).
  \<^item> \<open>Http\<close>: the HTTP boundary between the two. On the server, \<open>express.json()\<close>
    (line 12; a body it cannot parse goes to the error middleware of lines 213--216),
    Express's matching of method and path against the nine routes with its own 404
    (\<open>url_path\<close>, \<open>path_segments\<close>, \<open>route_of\<close>), and each handler's
    destructuring of \<open>req.body\<close> under JavaScript's conversions: template literals
    (\<open>js_template\<close>), truthiness, \<open>.length\<close> and indexing of any JSON value
    (\<open>js_length\<close>, \<open>js_index\<close>); the play route on a JSON body is
    \<open>play_quiz_http\<close>, the whole server on one request \<open>serve\<close>. On the client,
    \<open>quizAPI\<close>'s paths and \<open>JSON.stringify\<close> bodies (\<open>client_http\<close>) and
    \<open>apiCall\<close>'s test of \<open>response.ok\<close> (\<open>fetch_api\<close>). \<open>serve\<close> answers
    \<open>None\<close> for a body field of a JSON type the typed handlers have no room for (a numeric
    title, a string \<open>rewardAmount\<close>) and for a percent-escape in a path parameter.
  Every handler is a function from its state (and the request's fields, and the clock
  reading \<open>now\<close> where the code calls \<open>Date.now()\<close>) to the response and the new state;
  an error is \<open>Inl\<close> of an \<open>error\<close>, and every \<open>res.status(...)\<close> and every exception
  caught by the error middleware is one branch. Node runs the handlers one at a time and
  each is synchronous, so interleaving is a sequence of requests; on the frontend each
  \<open>await\<close> is taken as atomic.

  \<^medskip>\<^bold>\<open>What is proved.\<close> On the server: the scoring loop equals the reference
  count and always exits; a play records exactly one attempt, a second play is refused,
  and no request of any route ever replaces a stored record (only the reward route marks
  it rewarded); preconditions are checked in the source's order and every refused request
  leaves the state unchanged; rewards are paid at most once and only for a passing score;
  every reachable state keeps the counters equal to the stores and each record under its
  own key; replies carry the documented statuses, for every HTTP request whatever its
  path and body. Across the stack: every \<open>quizAPI\<close> request with path-safe
  identifiers reaches its route with exactly the client's arguments, and the reply's
  status decision equals the typed model; the client reports exactly the server's 2xx
  answers; an enabled submit is always scored by the server; a creator form passing its
  own checks is always accepted; a loaded quiz can always be completed; the dashboard
  reflects the server, and the result page shows \<open>Math.round\<close> of the server's score.
  Findings are proved as theorems: same-millisecond id collisions, rewards without a
  passing score, a NaN total, prototype member ids, the hidden error text, tabs that
  never return after the first quiz, the creator left open after leaving admin mode, the
  player page that traps a user who selects a quiz already played; and on the HTTP
  boundary, the 500 for a play without answers, the record shared by all players who send
  no participant, and an attempt used up by a string of answers. Lemmas that are not
  claims also record the server invariant a browser session keeps, the decimal quiz ids,
  the non-injective participant key and the specification's scenario as one run.

  \<^medskip>\<^bold>\<open>Bounds.\<close> No fuel is used: every loop of the code runs over a list, and the
  one written as a \<open>while\<close> is shown to exit. JavaScript numbers are unbounded
  integers here: counters and scores stay far below \<open>2^53\<close>, where doubles are exact.
  The result percentage is rounded on exact rationals; doubles can differ by one at exact
  halves. The creator's number inputs are validated on exact rationals as well, so a value
  too large for a double is not told apart.

  \<^medskip>\<^bold>\<open>Not modelled.\<close> HTML strings and CSS (presentation only); the headers
  \<open>cors()\<close> adds, \<open>dotenv\<close> and \<open>app.listen\<close> (I/O); the decoding of
  percent-escapes in path parameters and query strings, which the client never sends;
  JSON numbers are integers (the client sends only integers); network failures, which the
  client reports like an error status; JSON values of other types than the ones above (a
  string \<open>rewardAmount\<close> would concatenate); \<open>created_at\<close> is taken from the same
  clock reading as the id, where the code calls \<open>Date.now()\<close> twice.
\<close>

section \<open>The scenario of the specification\<close>

text \<open>
  The concrete scenario of the specification's testable properties, as one run of
  requests against a fresh server: create a two-question quiz with passing score 1; try
  to create one with passing score 3; play it with one right and one wrong answer; play
  it again; distribute a reward of 50 twice; look up a participant who never played; read
  the statistics.
\<close>

definition spec_scenario :: "(nat \<times> request) list" where
  "spec_scenario =
     [(1700000000000, CreateQuiz demo_request),
      (1700000000001, CreateQuiz (demo_request\<lparr>req_passing_score := Num 3\<rparr>)),
      (1700000000002, PlayQuiz demo_id ''alice'' [Some 1, Some 1]),
      (1700000000003, PlayQuiz demo_id ''alice'' [Some 1, Some 1]),
      (1700000000004, DistributeReward ''alice'' demo_id (Num 50)),
      (1700000000005, DistributeReward ''alice'' demo_id (Num 50)),
      (1700000000006, GetParticipant ''bob'' demo_id),
      (1700000000007, GetStats)]"

text \<open>
  Run from a fresh process, the scenario answers: the new quiz id; a refusal of the
  passing score 3 with no quiz created; score 1, passed and eligible; \<open>AlreadyPlayed\<close>;
  a paid reward; a refused second reward; the zero sentinel for the absent participant;
  and statistics of one participant, 50 distributed, highest score 1 and one quiz.
\<close>

theorem spec_scenario_run:
  "fst (run spec_scenario init_server) =
     [Inr (QuizCreated demo_id),
      Inl PassingScoreExceedsQuestionCount,
      Inr (ScoreReport \<lparr>result_score = 1, total_questions = 2, passed = True, reward_eligible = True,
                         message = ''Congratulations! You passed!''\<rparr>),
      Inl AlreadyPlayed,
      Inr (RewardSent ''alice'' (Num 50)),
      Inl CannotDistributeReward,
      Inr (AttemptRecord \<lparr>address = ''bob'', score = 0, attempt_quiz_id = demo_id, timestamp = 0,
                          rewarded = False, answers = []\<rparr>),
      Inr (StatsSnapshot \<lparr>total_participants = 1, total_rewards_distributed = Some 50,
                          highest_score = 1, total_quizzes = 1\<rparr>)]"
proof -
  have d: "decimal 1700000000000 = demo_id"
    by (simp add: decimal_large digit_char_def demo_id_def)
  show ?thesis
    by (simp add: spec_scenario_def d create_quiz_def new_quiz_def apfst_def map_prod_def
        play_quiz_def distribute_reward_def get_participant_def default_attempt_def
        add_reward_def record_play_def new_attempt_def calculate_score_def score_loop_count
        answer_matches_def pass_message_def js_get_def demo_defs object_prototype_members_def
        Let_def participantKey_def js_has_def)
qed

end
